theory Spec2Isabelle
  imports Complex_Main
begin

section \<open>Synchronisation of note headers: a model of sync-cabecalho-nota-service.ts\<close>

text \<open>
  The service mirrors the note headers of a remote ERP into the table
  \<^verbatim>\<open>AS_CABECALHO_NOTA\<close>. The functions of the TypeScript module are embedded one by one,
  under their own names. Everything outside the module (the token supplier, the contract
  listing, the HTTP client, the database driver, the log sink) answers through an
  \<^emph>\<open>ambiente\<close>: a record of functions of a logical clock that is advanced at every
  consultation, so that the same question may get another answer later. Exceptions are
  values of a sum type, \<open>Inl\<close> carrying the error thrown.
\<close>

subsection \<open>Strings\<close>

text \<open>
  A string is the list of its code units; the model covers the code units below 256.
  \<open>espaco_js\<close> is the white space that \<^verbatim>\<open>String.prototype.trim\<close> and the conversion
  \<^verbatim>\<open>Number(...)\<close> strip in that range: TAB, LF, VT, FF, CR, SP and NBSP.
\<close>

definition espaco_js :: "char \<Rightarrow> bool" where
  "espaco_js c \<longleftrightarrow>
     c = CHR 0x09 \<or> c = CHR 0x0A \<or> c = CHR 0x0B \<or> c = CHR 0x0C \<or> c = CHR 0x0D \<or>
     c = CHR 0x20 \<or> c = CHR 0xA0"

definition trim :: "string \<Rightarrow> string" where
  "trim s = rev (dropWhile espaco_js (rev (dropWhile espaco_js s)))"

text \<open>\<^verbatim>\<open>s.split(sep)\<close> for a separator of one character: never the empty list.\<close>

fun split :: "char \<Rightarrow> string \<Rightarrow> string list" where
  "split sep [] = [[]]"
| "split sep (c # cs) =
     (if c = sep then [] # split sep cs
      else (case split sep cs of [] \<Rightarrow> [[c]] | p # ps \<Rightarrow> (c # p) # ps))"

text \<open>\<^verbatim>\<open>xs[i]\<close>: \<open>None\<close> is JavaScript's \<^verbatim>\<open>undefined\<close>.\<close>

fun indice :: "'a list \<Rightarrow> nat \<Rightarrow> 'a option" where
  "indice [] i = None"
| "indice (x # xs) 0 = Some x"
| "indice (x # xs) (Suc i) = indice xs i"

fun comeca_com :: "string \<Rightarrow> string \<Rightarrow> bool" where
  "comeca_com s [] = True"
| "comeca_com [] (c # cs) = False"
| "comeca_com (d # ds) (c # cs) = (d = c \<and> comeca_com ds cs)"

text \<open>\<^verbatim>\<open>s.includes(sub)\<close>.\<close>

fun includes_str :: "string \<Rightarrow> string \<Rightarrow> bool" where
  "includes_str [] sub = (sub = [])"
| "includes_str (c # cs) sub = (comeca_com (c # cs) sub \<or> includes_str cs sub)"

text \<open>The decimal numeral of a number, as a template literal prints it.\<close>

fun dec :: "nat \<Rightarrow> string" where
  "dec n =
     (if n < 10 then [''0123456789'' ! n] else dec (n div 10) @ [''0123456789'' ! (n mod 10)])"

subsection \<open>The conversion \<^verbatim>\<open>Number\<close> on strings\<close>

text \<open>
  A JavaScript number is NaN, one of the two infinities or a finite double. A finite double
  is given by the rational it denotes; the two zeros are one value here, both being falsy
  and equal in every comparison the module makes.
\<close>

datatype jsnum = NaN | Num rat | MaisInfinito | MenosInfinito

definition digito :: "char \<Rightarrow> bool" where
  "digito c \<longleftrightarrow> c \<in> set ''0123456789''"

definition decimal :: "string \<Rightarrow> nat" where
  "decimal s = foldl (\<lambda>a c. 10 * a + (of_char c - 48)) 0 s"

text \<open>
  The double nearest to a rational \<open>q \<ge> 0\<close>, ties to the even significand:
  \<open>expoente q\<close> is \<open>\<lfloor>log\<^sub>2 q\<rfloor>\<close>, the spacing of the doubles around \<open>q\<close> is
  \<open>2\<close> to the power \<open>expoente q - 52\<close>, or \<open>2\<close> to the power \<open>-1074\<close> among the subnormal
  ones, and what reaches \<open>2 ^ 1024\<close> is infinite.
\<close>

fun log2n :: "nat \<Rightarrow> nat" where
  "log2n n = (if n < 2 then 0 else Suc (log2n (n div 2)))"

declare log2n.simps [simp del]

definition expoente :: "rat \<Rightarrow> int" where
  "expoente q =
     (if 1 \<le> q then int (log2n (nat \<lfloor>q\<rfloor>))
      else - int (Suc (log2n (nat \<lceil>1 / q\<rceil> - 1))))"

definition inteiro_proximo :: "rat \<Rightarrow> int" where
  "inteiro_proximo x =
     (let f = \<lfloor>x\<rfloor>; r = x - of_int f
      in if r < 1 / 2 then f else if 1 / 2 < r then f + 1 else if even f then f else f + 1)"

definition arredondar :: "rat \<Rightarrow> jsnum" where
  "arredondar q =
     (if q \<le> 0 then Num 0
      else
        (let ulp = power_int 2 (max (expoente q) (- 1022) - 52);
             v = of_int (inteiro_proximo (q / ulp)) * ulp
         in if 2 ^ 1024 \<le> v then MaisInfinito else Num v))"

definition negar :: "jsnum \<Rightarrow> jsnum" where
  "negar x =
     (case x of NaN \<Rightarrow> NaN | Num q \<Rightarrow> Num (- q)
      | MaisInfinito \<Rightarrow> MenosInfinito | MenosInfinito \<Rightarrow> MaisInfinito)"

text \<open>
  \<^verbatim>\<open>Number(s)\<close> strips white space and reads what is left as a numeric literal of
  strings: nothing is 0; \<^verbatim>\<open>0x\<close>, \<^verbatim>\<open>0o\<close> or \<^verbatim>\<open>0b\<close> (in either case) and digits of
  that base, with no sign; or, after an optional sign, \<^verbatim>\<open>Infinity\<close> or decimal digits with
  an optional point and an optional exponent, a digit standing before or after the point.
  Whatever else is NaN. The value of the literal is rounded to the nearest double, as V8
  does for a literal of any length.
\<close>

definition base_de :: "char \<Rightarrow> nat option" where
  "base_de c =
     (if c = CHR ''x'' \<or> c = CHR ''X'' then Some 16
      else if c = CHR ''o'' \<or> c = CHR ''O'' then Some 8
      else if c = CHR ''b'' \<or> c = CHR ''B'' then Some 2
      else None)"

definition algarismo :: "nat \<Rightarrow> char \<Rightarrow> nat option" where
  "algarismo b c =
     (let v = (if digito c then of_char c - 48
               else if c \<in> set ''abcdef'' then of_char c - 87
               else if c \<in> set ''ABCDEF'' then of_char c - 55
               else 16)
      in if v < b then Some v else None)"

definition nao_decimal :: "nat \<Rightarrow> string \<Rightarrow> jsnum" where
  "nao_decimal b h =
     (if h \<noteq> [] \<and> list_all (\<lambda>c. algarismo b c \<noteq> None) h
      then arredondar
             (of_nat (foldl (\<lambda>a c. b * a + (case algarismo b c of Some v \<Rightarrow> v | None \<Rightarrow> 0)) 0 h))
      else NaN)"

text \<open>The exponent after \<^verbatim>\<open>e\<close> or \<^verbatim>\<open>E\<close>: digits, with an optional sign.\<close>

definition expoente_literal :: "string \<Rightarrow> int option" where
  "expoente_literal x =
     (case x of
        [] \<Rightarrow> None
      | c # d \<Rightarrow>
          if c = CHR ''+'' then (if d \<noteq> [] \<and> list_all digito d then Some (int (decimal d)) else None)
          else if c = CHR ''-'' then
            (if d \<noteq> [] \<and> list_all digito d then Some (- int (decimal d)) else None)
          else if list_all digito x then Some (int (decimal x)) else None)"

definition nao_e :: "char \<Rightarrow> bool" where
  "nao_e c \<longleftrightarrow> c \<noteq> CHR ''e'' \<and> c \<noteq> CHR ''E''"

text \<open>
  The decimal literal without its sign: \<open>a\<close> are the digits before the point, \<open>b\<close> those
  after it and \<open>k\<close> the exponent, and the value is that of \<open>a @ b\<close> times \<open>10\<close> to the
  power \<open>k - length b\<close>.
\<close>

definition sem_sinal :: "string \<Rightarrow> jsnum" where
  "sem_sinal t =
     (if t = ''Infinity'' then MaisInfinito
      else
        (let m = takeWhile nao_e t; x = dropWhile nao_e t;
             a = takeWhile (\<lambda>c. c \<noteq> CHR ''.'') m;
             b = tl (dropWhile (\<lambda>c. c \<noteq> CHR ''.'') m)
         in if \<not> list_all digito a \<or> \<not> list_all digito b \<or> (a = [] \<and> b = []) then NaN
            else (case (if x = [] then Some 0 else expoente_literal (tl x)) of
                    None \<Rightarrow> NaN
                  | Some k \<Rightarrow>
                      arredondar (of_nat (decimal (a @ b)) * power_int 10 (k - int (length b))))))"

definition Number :: "string \<Rightarrow> jsnum" where
  "Number s =
     (case trim s of
        [] \<Rightarrow> Num 0
      | c # u \<Rightarrow>
          (case (if c = CHR ''0'' \<and> u \<noteq> [] then base_de (hd u) else None) of
             Some b \<Rightarrow> nao_decimal b (tl u)
           | None \<Rightarrow>
               if c = CHR ''+'' then sem_sinal u
               else if c = CHR ''-'' then negar (sem_sinal u)
               else sem_sinal (c # u)))"

subsection \<open>The negotiation date\<close>

text \<open>
  \<open>Date y m d\<close> stands for the object \<^verbatim>\<open>new Date(y, m, d)\<close>, with the month index \<open>m\<close>
  counted from 0, and \<open>Nulo\<close> for \<^verbatim>\<open>null\<close>.
\<close>

datatype dtneg = Nulo | Date jsnum jsnum jsnum

text \<open>
  \<^verbatim>\<open>!x\<close>, \<^verbatim>\<open>x < k\<close> and \<^verbatim>\<open>x > k\<close> for a component \<open>x\<close>, which is \<^verbatim>\<open>undefined\<close> (here
  \<open>None\<close>) when the date has too few parts: \<^verbatim>\<open>undefined\<close>, NaN and 0 are falsy, and a
  comparison with \<^verbatim>\<open>undefined\<close> or NaN is false.
\<close>

definition falso :: "jsnum option \<Rightarrow> bool" where
  "falso x = (case x of None \<Rightarrow> True | Some NaN \<Rightarrow> True | Some (Num q) \<Rightarrow> q = 0 | Some _ \<Rightarrow> False)"

definition menor :: "jsnum option \<Rightarrow> rat \<Rightarrow> bool" where
  "menor x k = (case x of Some (Num q) \<Rightarrow> q < k | Some MenosInfinito \<Rightarrow> True | _ \<Rightarrow> False)"

definition maior :: "jsnum option \<Rightarrow> rat \<Rightarrow> bool" where
  "maior x k = (case x of Some (Num q) \<Rightarrow> k < q | Some MaisInfinito \<Rightarrow> True | _ \<Rightarrow> False)"

text \<open>
  The test \<^verbatim>\<open>!year || !month || !day || month < 1 || month > 12 || day < 1 || day > 31\<close>
  and the construction of the date. Past the test the three components are numbers and
  the month is a double between 1 and 12, for which \<^verbatim>\<open>month - 1\<close> is exact.
\<close>

definition montar_data :: "jsnum option \<Rightarrow> jsnum option \<Rightarrow> jsnum option \<Rightarrow> dtneg" where
  "montar_data year month day =
     (if falso year \<or> falso month \<or> falso day \<or> menor month 1 \<or> maior month 12 \<or>
         menor day 1 \<or> maior day 31
      then Nulo
      else (case (year, month, day) of
              (Some y, Some (Num m), Some d) \<Rightarrow> Date y (Num (m - 1)) d
            | _ \<Rightarrow> Nulo))"

text \<open>
  \<^verbatim>\<open>converterDataParaOracle\<close> is written twice in \<^verbatim>\<open>upsertCabecalhoNota\<close>, in the update
  and in the insert branch; the two copies differ in their log lines only. The
  \<^verbatim>\<open>try\<close> around the body turns any exception into \<^verbatim>\<open>null\<close>.
\<close>

definition converterDataParaOracle :: "string option \<Rightarrow> dtneg" where
  "converterDataParaOracle dataStr =
     (case dataStr of
        None \<Rightarrow> Nulo
      | Some s \<Rightarrow>
          if s = [] then Nulo
          else
            (let dtnegStr = trim s in
             if CHR ''-'' \<in> set dtnegStr then
               (case indice (split (CHR '' '') dtnegStr) 0 of
                  None \<Rightarrow> Nulo
                | Some datePart \<Rightarrow>
                    (let ns = map Number (split (CHR ''-'') datePart)
                     in montar_data (indice ns 0) (indice ns 1) (indice ns 2)))
             else if CHR ''/'' \<in> set dtnegStr then
               (case indice (split (CHR '' '') dtnegStr) 0 of
                  None \<Rightarrow> Nulo
                | Some datePart \<Rightarrow>
                    (let ns = map Number (split (CHR ''/'') datePart)
                     in montar_data (indice ns 2) (indice ns 1) (indice ns 0)))
             else Nulo))"

subsection \<open>Data\<close>

text \<open>
  An error object with the three properties the module reads: \<^verbatim>\<open>error.code\<close>,
  \<^verbatim>\<open>error.message\<close> and \<^verbatim>\<open>error.response?.status\<close>. \<open>Error msg\<close> is
  \<^verbatim>\<open>new Error(msg)\<close>.
\<close>

record js_error =
  e_code :: "string option"
  e_message :: string
  e_status :: "nat option"

definition Error :: "string \<Rightarrow> js_error" where
  "Error msg = \<lparr>e_code = None, e_message = msg, e_status = None\<rparr>"

text \<open>The interface \<^verbatim>\<open>CabecalhoNota\<close>; a field marked \<^verbatim>\<open>?\<close> is an option.\<close>

record CabecalhoNota =
  NUNOTA :: int
  CODTIPOPER :: int
  CODTIPVENDA :: "int option"
  CODPARC :: int
  CODVEND :: "int option"
  VLRNOTA :: "rat option"
  DTNEG :: "string option"
  TIPMOV :: string

text \<open>
  The interface \<^verbatim>\<open>SyncResult\<close>. The instants \<^verbatim>\<open>dataInicio\<close> and \<^verbatim>\<open>dataFim\<close> are
  readings of the logical clock.
\<close>

record SyncResult =
  r_success :: bool
  r_idSistema :: nat
  r_empresa :: string
  r_totalRegistros :: nat
  r_registrosInseridos :: nat
  r_registrosAtualizados :: nat
  r_registrosDeletados :: nat
  r_dataInicio :: nat
  r_dataFim :: nat
  r_duracao :: nat
  r_erro :: "string option"

text \<open>A row of \<^verbatim>\<open>AS_CABECALHO_NOTA\<close>; \<open>None\<close> in a column is SQL's NULL.\<close>

record linha =
  col_ID_SISTEMA :: nat
  col_NUNOTA :: int
  col_CODTIPOPER :: "int option"
  col_CODTIPVENDA :: "int option"
  col_CODPARC :: "int option"
  col_CODVEND :: "int option"
  col_VLRNOTA :: "rat option"
  col_DTNEG :: dtneg
  col_TIPMOV :: "string option"
  col_SANKHYA_ATUAL :: char
  col_DT_ULT_CARGA :: nat
  col_DT_CRIACAO :: nat

text \<open>A contract as \<^verbatim>\<open>listarContratos\<close> returns it, with the two properties read here.\<close>

record contrato =
  ATIVO :: bool
  IS_SANDBOX :: bool

text \<open>
  The body of a response of the remote service: \<open>SemEntidade\<close> when
  \<^verbatim>\<open>response.data?.responseBody?.entities?.entity\<close> is missing (or falsy), \<open>Malformada\<close>
  when the mapping of the fields throws a \<^verbatim>\<open>TypeError\<close> with the given message (no
  \<^verbatim>\<open>metadata\<close>, say), and otherwise the entity, one object or an array, together with the
  value of \<^verbatim>\<open>entities.hasMoreResult\<close>. Each raw entity is represented by the
  \<^verbatim>\<open>CabecalhoNota\<close> that the positional mapping of its fields produces.
\<close>

datatype json = JBool bool | JStr string | JNulo

datatype entidade = Unica CabecalhoNota | Varias "CabecalhoNota list"

datatype resposta = SemEntidade | Malformada string | Entidades entidade json

subsection \<open>The world and the environment\<close>

text \<open>
  What the module does to the outside is kept in \<open>rastro\<close>: the attempts it announces,
  the requests it sends (URL, token, \<^verbatim>\<open>offsetPage\<close>), the delays it asks of
  \<^verbatim>\<open>setTimeout\<close> in milliseconds, the forced renewals of the token, and the records it
  reports as failed.
\<close>

datatype evento =
    Tentativa nat
  | Requisicao string string nat
  | Espera nat
  | Renovacao nat
  | ErroRegistro int

text \<open>
  \<open>confirmado\<close> is the committed table; \<open>pendente\<close> is the table as the open connection
  sees it, with the statements of its transaction applied.
\<close>

record mundo =
  relogio :: nat
  rastro :: "evento list"
  confirmado :: "linha list"
  pendente :: "linha list"

text \<open>
  The collaborators. Each takes the reading of the clock first; \<open>None\<close> from a database
  operation means that it succeeded. \<open>falha_registro\<close> tells whether a statement issued for
  a record (the \<^verbatim>\<open>SELECT COUNT(*)\<close>, the \<^verbatim>\<open>UPDATE\<close> or the \<^verbatim>\<open>INSERT\<close>) raises, which
  depends on the tenant and the record (a malformed identifier, a violated constraint).
\<close>

record ambiente =
  obterToken :: "nat \<Rightarrow> nat \<Rightarrow> bool \<Rightarrow> js_error + string"
  listarContratos :: "nat \<Rightarrow> js_error + contrato list"
  axios_post :: "nat \<Rightarrow> string \<Rightarrow> string \<Rightarrow> nat \<Rightarrow> js_error + resposta"
  getOracleConnection :: "nat \<Rightarrow> js_error option"
  falha_marcar :: "nat \<Rightarrow> js_error option"
  falha_registro :: "nat \<Rightarrow> CabecalhoNota \<Rightarrow> js_error option"
  connection_commit :: "nat \<Rightarrow> js_error option"
  connection_rollback :: "nat \<Rightarrow> js_error option"
  connection_close :: "nat \<Rightarrow> js_error option"
  salvarLogSincronizacao :: "nat \<Rightarrow> js_error option"
  consultar_empresas :: "nat \<Rightarrow> js_error + (nat \<times> string) list"

definition tique :: "mundo \<Rightarrow> mundo" where
  "tique w = w\<lparr>relogio := Suc (relogio w)\<rparr>"

definition registrar :: "evento \<Rightarrow> mundo \<Rightarrow> mundo" where
  "registrar ev w = w\<lparr>rastro := rastro w @ [ev]\<rparr>"

text \<open>\<^verbatim>\<open>await new Promise(resolve => setTimeout(resolve, ms))\<close>.\<close>

definition esperar :: "nat \<Rightarrow> mundo \<Rightarrow> mundo" where
  "esperar ms w = registrar (Espera ms) w"

text \<open>\<^verbatim>\<open>obterToken(idSistema, true)\<close>.\<close>

definition renovarToken :: "ambiente \<Rightarrow> nat \<Rightarrow> mundo \<Rightarrow> (js_error + string) \<times> mundo" where
  "renovarToken amb idSistema w =
     (obterToken amb (relogio w) idSistema True, registrar (Renovacao idSistema) (tique w))"

text \<open>
  \<^verbatim>\<open>buscarContratoAtivo\<close>: the first contract with \<^verbatim>\<open>ATIVO === true\<close>; \<^verbatim>\<open>undefined\<close>
  when there is none and \<^verbatim>\<open>null\<close> when the listing throws, both \<open>None\<close> here.
\<close>

definition buscarContratoAtivo :: "ambiente \<Rightarrow> mundo \<Rightarrow> contrato option \<times> mundo" where
  "buscarContratoAtivo amb w =
     (case listarContratos amb (relogio w) of
        Inl e \<Rightarrow> (None, tique w)
      | Inr contratos \<Rightarrow> (find ATIVO contratos, tique w))"

subsection \<open>\<^verbatim>\<open>buscarCabecalhoNotaSankhya\<close>: the page loop\<close>

text \<open>
  The variables of the loop. \<^verbatim>\<open>hasMoreData\<close> is not a field: an iteration either
  leaves it true (\<open>Continua\<close>), ends the loop (\<open>Termina\<close>) or throws out of it
  (\<open>Lanca\<close>).
\<close>

record estado =
  allCabecalhos :: "CabecalhoNota list"
  currentPage :: nat
  currentToken :: string

datatype passo_res = Continua estado | Termina estado | Lanca js_error

definition URL_CONSULTA_ATUAL :: "bool \<Rightarrow> string" where
  "URL_CONSULTA_ATUAL isSandbox =
     (if isSandbox then ''https://api.sandbox.sankhya.com.br'' else ''https://api.sankhya.com.br'')
     @ ''/gateway/v1/mge/service.sbr?serviceName=CRUDServiceProvider.loadRecords&outputType=json''"

text \<open>
  The handler \<^verbatim>\<open>catch (pageError)\<close>: on 401 or 403 the token is renewed, one second is
  waited and the loop goes on with the page and the records it had; any other error is
  thrown again. A failed renewal throws out of the handler.
\<close>

definition tratar_pageError ::
  "ambiente \<Rightarrow> nat \<Rightarrow> estado \<Rightarrow> js_error \<Rightarrow> mundo \<Rightarrow> passo_res \<times> mundo" where
  "tratar_pageError amb idSistema st pageError w =
     (if e_status pageError = Some 401 \<or> e_status pageError = Some 403 then
        (case renovarToken amb idSistema w of
           (Inl e, w1) \<Rightarrow> (Lanca e, w1)
         | (Inr novo, w1) \<Rightarrow> (Continua (st\<lparr>currentToken := novo\<rparr>), esperar 1000 w1))
      else (Lanca pageError, w))"

text \<open>
  \<^verbatim>\<open>Array.isArray(entities.entity) ? entities.entity : [entities.entity]\<close> and
  \<^verbatim>\<open>entities.hasMoreResult === 'true' || entities.hasMoreResult === true\<close>.
\<close>

definition entityArray :: "entidade \<Rightarrow> CabecalhoNota list" where
  "entityArray entity = (case entity of Unica c \<Rightarrow> [c] | Varias cs \<Rightarrow> cs)"

definition hasMoreResult :: "json \<Rightarrow> bool" where
  "hasMoreResult v \<longleftrightarrow> v = JStr ''true'' \<or> v = JBool True"

text \<open>One iteration of \<^verbatim>\<open>while (hasMoreData)\<close>.\<close>

definition passo :: "ambiente \<Rightarrow> nat \<Rightarrow> estado \<Rightarrow> mundo \<Rightarrow> passo_res \<times> mundo" where
  "passo amb idSistema st w =
     (case buscarContratoAtivo amb w of
        (None, w1) \<Rightarrow>
          tratar_pageError amb idSistema st (Error ''Nenhum contrato ativo encontrado'') w1
      | (Some contratoAtivo, w1) \<Rightarrow>
          (let url = URL_CONSULTA_ATUAL (IS_SANDBOX contratoAtivo);
               w2 = registrar (Requisicao url (currentToken st) (currentPage st)) (tique w1)
           in case axios_post amb (relogio w1) url (currentToken st) (currentPage st) of
                Inl e \<Rightarrow> tratar_pageError amb idSistema st e w2
              | Inr SemEntidade \<Rightarrow> (Termina st, w2)
              | Inr (Malformada msg) \<Rightarrow> tratar_pageError amb idSistema st (Error msg) w2
              | Inr (Entidades entity hasMore) \<Rightarrow>
                  (let cabecalhosPagina = entityArray entity;
                       st1 = st\<lparr>allCabecalhos := allCabecalhos st @ cabecalhosPagina\<rparr>
                   in if length cabecalhosPagina = 0 \<or> \<not> hasMoreResult hasMore
                      then (Termina st1, w2)
                      else (Continua (st1\<lparr>currentPage := Suc (currentPage st1)\<rparr>),
                            esperar 500 w2))))"

text \<open>
  The loop has no bound of its own, so it is run on fuel: the first argument after the
  tenant bounds the number of iterations, and \<open>None\<close> says that the loop has not ended
  within it.
\<close>

fun paginar ::
  "ambiente \<Rightarrow> nat \<Rightarrow> nat \<Rightarrow> estado \<Rightarrow> mundo \<Rightarrow> ((js_error + estado) \<times> mundo) option" where
  "paginar amb idSistema 0 st w = None"
| "paginar amb idSistema (Suc n) st w =
     (case passo amb idSistema st w of
        (Continua st', w') \<Rightarrow> paginar amb idSistema n st' w'
      | (Termina st', w') \<Rightarrow> Some (Inr st', w')
      | (Lanca e, w') \<Rightarrow> Some (Inl e, w'))"

subsection \<open>\<^verbatim>\<open>buscarCabecalhoNotaSankhya\<close>: the retries\<close>

definition MAX_RETRIES :: nat where
  "MAX_RETRIES = 3"

definition RETRY_DELAY :: nat where
  "RETRY_DELAY = 2000"

text \<open>The test of the outer handler for an error worth another attempt.\<close>

definition transitorio :: "js_error \<Rightarrow> bool" where
  "transitorio e \<longleftrightarrow>
     e_code e = Some ''ECONNABORTED'' \<or> e_code e = Some ''ETIMEDOUT'' \<or>
     e_code e = Some ''ENOTFOUND'' \<or> includes_str (e_message e) ''timeout'' \<or>
     (case e_status e of None \<Rightarrow> False | Some st \<Rightarrow> 500 \<le> st)"

text \<open>
  The error of the last line of the handler; the two letters outside ASCII are the code
  units 0xE7 and 0xF3.
\<close>

definition erro_final :: "nat \<Rightarrow> js_error \<Rightarrow> js_error" where
  "erro_final retryCount e =
     Error (''Erro ao buscar cabe'' @ [CHR 0xE7] @ ''alhos de nota ap'' @ [CHR 0xF3] @ ''s ''
            @ dec (retryCount + 1) @ '' tentativas: '' @ e_message e)"

definition estado_inicial :: "string \<Rightarrow> estado" where
  "estado_inicial bearerToken =
     \<lparr>allCabecalhos = [], currentPage = 0, currentToken = bearerToken\<rparr>"

text \<open>
  The function itself; the fuel is that of each attempt's page loop. An error that
  \<^verbatim>\<open>obterToken\<close> throws inside the handler leaves the function as it is.
\<close>

function buscarCabecalhoNotaSankhya ::
  "ambiente \<Rightarrow> nat \<Rightarrow> nat \<Rightarrow> string \<Rightarrow> nat \<Rightarrow> mundo
     \<Rightarrow> ((js_error + CabecalhoNota list) \<times> mundo) option" where
  "buscarCabecalhoNotaSankhya amb fuel idSistema bearerToken retryCount w =
     (case paginar amb idSistema fuel (estado_inicial bearerToken)
             (registrar (Tentativa (retryCount + 1)) w) of
        None \<Rightarrow> None
      | Some (Inr st, w1) \<Rightarrow> Some (Inr (allCabecalhos st), w1)
      | Some (Inl e, w1) \<Rightarrow>
          if retryCount < MAX_RETRIES - 1 \<and> transitorio e then
            (let w2 = esperar (RETRY_DELAY * (retryCount + 1)) w1 in
             if e_status e = Some 401 \<or> e_status e = Some 403 then
               (case renovarToken amb idSistema w2 of
                  (Inl e', w3) \<Rightarrow> Some (Inl e', w3)
                | (Inr novoToken, w3) \<Rightarrow>
                    buscarCabecalhoNotaSankhya amb fuel idSistema novoToken (retryCount + 1) w3)
             else buscarCabecalhoNotaSankhya amb fuel idSistema bearerToken (retryCount + 1) w2)
          else Some (Inl (erro_final retryCount e), w1))"
  by pat_completeness auto
termination
  by (relation "measure (\<lambda>(amb, fuel, idSistema, bearerToken, retryCount, w). MAX_RETRIES - retryCount)")
    (auto simp: MAX_RETRIES_def)

declare buscarCabecalhoNotaSankhya.simps [simp del]

subsection \<open>The connection\<close>

text \<open>
  A connection starts from the committed table. A commit publishes the pending table, a
  rollback discards it; a failed operation changes nothing.
\<close>

definition abrir_conexao :: "ambiente \<Rightarrow> mundo \<Rightarrow> js_error option \<times> mundo" where
  "abrir_conexao amb w =
     (case getOracleConnection amb (relogio w) of
        Some e \<Rightarrow> (Some e, tique w)
      | None \<Rightarrow> (None, tique (w\<lparr>pendente := confirmado w\<rparr>)))"

definition fazer_commit :: "ambiente \<Rightarrow> mundo \<Rightarrow> js_error option \<times> mundo" where
  "fazer_commit amb w =
     (case connection_commit amb (relogio w) of
        Some e \<Rightarrow> (Some e, tique w)
      | None \<Rightarrow> (None, tique (w\<lparr>confirmado := pendente w\<rparr>)))"

definition fazer_rollback :: "ambiente \<Rightarrow> mundo \<Rightarrow> js_error option \<times> mundo" where
  "fazer_rollback amb w =
     (case connection_rollback amb (relogio w) of
        Some e \<Rightarrow> (Some e, tique w)
      | None \<Rightarrow> (None, tique (w\<lparr>pendente := confirmado w\<rparr>)))"

definition fechar_conexao :: "ambiente \<Rightarrow> mundo \<Rightarrow> js_error option \<times> mundo" where
  "fechar_conexao amb w = (connection_close amb (relogio w), tique w)"

text \<open>The call of \<^verbatim>\<open>salvarLogSincronizacao\<close> inside its own \<^verbatim>\<open>try\<close>: a failure is dropped.\<close>

definition salvar_log :: "ambiente \<Rightarrow> mundo \<Rightarrow> mundo" where
  "salvar_log amb w = (case salvarLogSincronizacao amb (relogio w) of _ \<Rightarrow> tique w)"

subsection \<open>\<^verbatim>\<open>marcarTodosComoNaoAtuais\<close>\<close>

definition ativa_de :: "nat \<Rightarrow> linha \<Rightarrow> bool" where
  "ativa_de idSistema r \<longleftrightarrow> col_ID_SISTEMA r = idSistema \<and> col_SANKHYA_ATUAL r = CHR ''S''"

definition marcarTodosComoNaoAtuais ::
  "ambiente \<Rightarrow> nat \<Rightarrow> mundo \<Rightarrow> (js_error + nat) \<times> mundo" where
  "marcarTodosComoNaoAtuais amb idSistema w =
     (case falha_marcar amb (relogio w) of
        Some e \<Rightarrow> (Inl e, tique w)
      | None \<Rightarrow>
          (let rowsAffected = length (filter (ativa_de idSistema) (pendente w))
           in (Inr rowsAffected,
               tique (w\<lparr>pendente :=
                 map (\<lambda>r. if ativa_de idSistema r
                           then r\<lparr>col_SANKHYA_ATUAL := CHR ''N'', col_DT_ULT_CARGA := relogio w\<rparr>
                           else r)
                   (pendente w)\<rparr>))))"

subsection \<open>\<^verbatim>\<open>upsertCabecalhoNota\<close>\<close>

definition BATCH_SIZE :: nat where
  "BATCH_SIZE = 100"

text \<open>The slices \<^verbatim>\<open>cabecalhos.slice(i, i + BATCH_SIZE)\<close> for \<open>i = 0, BATCH_SIZE, \<dots>\<close>.\<close>

function lotes :: "'a list \<Rightarrow> 'a list list" where
  "lotes xs = (if xs = [] then [] else take BATCH_SIZE xs # lotes (drop BATCH_SIZE xs))"
  by pat_completeness auto
termination
  by (relation "measure length") (auto simp: BATCH_SIZE_def)

declare lotes.simps [simp del]

text \<open>\<^verbatim>\<open>x || null\<close> for a number that may be missing, and for a string.\<close>

definition ou_nulo :: "'a::zero option \<Rightarrow> 'a option" where
  "ou_nulo v = (case v of None \<Rightarrow> None | Some x \<Rightarrow> if x = 0 then None else Some x)"

definition ou_nulo_str :: "string \<Rightarrow> string option" where
  "ou_nulo_str v = (if v = [] then None else Some v)"

definition mesma_chave :: "nat \<Rightarrow> int \<Rightarrow> linha \<Rightarrow> bool" where
  "mesma_chave idSistema nunota r \<longleftrightarrow> col_ID_SISTEMA r = idSistema \<and> col_NUNOTA r = nunota"

text \<open>The \<^verbatim>\<open>UPDATE\<close> of one row and the row of the \<^verbatim>\<open>INSERT\<close>.\<close>

definition atualizar_linha :: "CabecalhoNota \<Rightarrow> nat \<Rightarrow> linha \<Rightarrow> linha" where
  "atualizar_linha cabecalho agora r =
     r\<lparr>col_CODTIPOPER := Some (CODTIPOPER cabecalho),
       col_CODTIPVENDA := ou_nulo (CODTIPVENDA cabecalho),
       col_CODPARC := Some (CODPARC cabecalho),
       col_CODVEND := ou_nulo (CODVEND cabecalho),
       col_VLRNOTA := ou_nulo (VLRNOTA cabecalho),
       col_DTNEG := converterDataParaOracle (DTNEG cabecalho),
       col_TIPMOV := Some (TIPMOV cabecalho),
       col_SANKHYA_ATUAL := CHR ''S'',
       col_DT_ULT_CARGA := agora\<rparr>"

definition nova_linha :: "nat \<Rightarrow> CabecalhoNota \<Rightarrow> nat \<Rightarrow> linha" where
  "nova_linha idSistema cabecalho agora =
     \<lparr>col_ID_SISTEMA = idSistema,
      col_NUNOTA = NUNOTA cabecalho,
      col_CODTIPOPER = ou_nulo (Some (CODTIPOPER cabecalho)),
      col_CODTIPVENDA = ou_nulo (CODTIPVENDA cabecalho),
      col_CODPARC = ou_nulo (Some (CODPARC cabecalho)),
      col_CODVEND = ou_nulo (CODVEND cabecalho),
      col_VLRNOTA = ou_nulo (VLRNOTA cabecalho),
      col_DTNEG = converterDataParaOracle (DTNEG cabecalho),
      col_TIPMOV = ou_nulo_str (TIPMOV cabecalho),
      col_SANKHYA_ATUAL = CHR ''S'',
      col_DT_ULT_CARGA = agora,
      col_DT_CRIACAO = agora\<rparr>"

text \<open>
  The body of \<^verbatim>\<open>for (const cabecalho of batch)\<close>, a \<^verbatim>\<open>try\<close> whose handler reports the
  record and goes on. The counters are \<^verbatim>\<open>inseridos\<close> and \<^verbatim>\<open>atualizados\<close>.
\<close>

definition processar_cabecalho ::
  "ambiente \<Rightarrow> nat \<Rightarrow> (nat \<times> nat) \<times> mundo \<Rightarrow> CabecalhoNota \<Rightarrow> (nat \<times> nat) \<times> mundo" where
  "processar_cabecalho amb idSistema acc cabecalho =
     (case acc of ((inseridos, atualizados), w) \<Rightarrow>
        (case falha_registro amb idSistema cabecalho of
           Some e \<Rightarrow> ((inseridos, atualizados), registrar (ErroRegistro (NUNOTA cabecalho)) w)
         | None \<Rightarrow>
             (let exists =
                    (0 < length (filter (mesma_chave idSistema (NUNOTA cabecalho)) (pendente w)))
              in if exists then
                   ((inseridos, Suc atualizados),
                    w\<lparr>pendente :=
                      map (\<lambda>r. if mesma_chave idSistema (NUNOTA cabecalho) r
                                then atualizar_linha cabecalho (relogio w) r else r)
                        (pendente w)\<rparr>)
                 else
                   ((Suc inseridos, atualizados),
                    w\<lparr>pendente := pendente w @ [nova_linha idSistema cabecalho (relogio w)]\<rparr>))))"

text \<open>The batches in turn, each followed by a commit; a failed commit throws.\<close>

fun upsert_lotes ::
  "ambiente \<Rightarrow> nat \<Rightarrow> CabecalhoNota list list \<Rightarrow> (nat \<times> nat) \<Rightarrow> mundo
     \<Rightarrow> (js_error + nat \<times> nat) \<times> mundo" where
  "upsert_lotes amb idSistema [] cont w = (Inr cont, w)"
| "upsert_lotes amb idSistema (batch # resto) cont w =
     (case foldl (processar_cabecalho amb idSistema) (cont, w) batch of
        (cont1, w1) \<Rightarrow>
          (case fazer_commit amb w1 of
             (Some e, w2) \<Rightarrow> (Inl e, w2)
           | (None, w2) \<Rightarrow> upsert_lotes amb idSistema resto cont1 w2))"

definition upsertCabecalhoNota ::
  "ambiente \<Rightarrow> nat \<Rightarrow> CabecalhoNota list \<Rightarrow> mundo \<Rightarrow> (js_error + nat \<times> nat) \<times> mundo" where
  "upsertCabecalhoNota amb idSistema cabecalhos w =
     upsert_lotes amb idSistema (lotes cabecalhos) (0, 0) w"

subsection \<open>\<^verbatim>\<open>sincronizarCabecalhoNotaPorEmpresa\<close>\<close>

text \<open>
  The \<^verbatim>\<open>try\<close> block. Besides its result it tells whether \<^verbatim>\<open>connection\<close> was assigned,
  which the handler and the \<^verbatim>\<open>finally\<close> block test.
\<close>

definition corpo_sincronizacao ::
  "ambiente \<Rightarrow> nat \<Rightarrow> nat \<Rightarrow> string \<Rightarrow> nat \<Rightarrow> mundo
     \<Rightarrow> ((js_error + SyncResult) \<times> bool \<times> mundo) option" where
  "corpo_sincronizacao amb fuel idSistema empresaNome inicio w =
     (case renovarToken amb idSistema w of
        (Inl e, w1) \<Rightarrow> Some (Inl e, False, w1)
      | (Inr bearerToken, w1) \<Rightarrow>
     (case buscarCabecalhoNotaSankhya amb fuel idSistema bearerToken 0 w1 of
        None \<Rightarrow> None
      | Some (Inl e, w2) \<Rightarrow> Some (Inl e, False, w2)
      | Some (Inr cabecalhos, w2) \<Rightarrow>
     (case abrir_conexao amb w2 of
        (Some e, w3) \<Rightarrow> Some (Inl e, False, w3)
      | (None, w3) \<Rightarrow>
     (case marcarTodosComoNaoAtuais amb idSistema w3 of
        (Inl e, w4) \<Rightarrow> Some (Inl e, True, w4)
      | (Inr deletados, w4) \<Rightarrow>
     (case upsertCabecalhoNota amb idSistema cabecalhos w4 of
        (Inl e, w5) \<Rightarrow> Some (Inl e, True, w5)
      | (Inr (inseridos, atualizados), w5) \<Rightarrow>
     (case fazer_commit amb w5 of
        (Some e, w6) \<Rightarrow> Some (Inl e, True, w6)
      | (None, w6) \<Rightarrow>
          Some (Inr \<lparr>r_success = True, r_idSistema = idSistema, r_empresa = empresaNome,
                     r_totalRegistros = length cabecalhos, r_registrosInseridos = inseridos,
                     r_registrosAtualizados = atualizados, r_registrosDeletados = deletados,
                     r_dataInicio = inicio, r_dataFim = relogio w6,
                     r_duracao = relogio w6 - inicio, r_erro = None\<rparr>,
                True, salvar_log amb w6)))))))"

text \<open>The \<^verbatim>\<open>finally\<close> block: the connection, if there is one, is closed, a failure dropped.\<close>

definition finalmente :: "ambiente \<Rightarrow> bool \<Rightarrow> mundo \<Rightarrow> mundo" where
  "finalmente amb conectado w = (if conectado then snd (fechar_conexao amb w) else w)"

text \<open>
  The function: the \<^verbatim>\<open>try\<close> block, the handler and the \<^verbatim>\<open>finally\<close> block. Every
  statement of the handler and of the \<^verbatim>\<open>finally\<close> block that can throw stands in a
  \<^verbatim>\<open>try\<close> of its own, so the function has no exceptional exit; \<open>None\<close> says that the
  retrieval has not returned within the fuel.
\<close>

definition sincronizarCabecalhoNotaPorEmpresa ::
  "ambiente \<Rightarrow> nat \<Rightarrow> nat \<Rightarrow> string \<Rightarrow> mundo \<Rightarrow> (SyncResult \<times> mundo) option" where
  "sincronizarCabecalhoNotaPorEmpresa amb fuel idSistema empresaNome w =
     (case corpo_sincronizacao amb fuel idSistema empresaNome (relogio w) w of
        None \<Rightarrow> None
      | Some (Inr res, conectado, w1) \<Rightarrow> Some (res, finalmente amb conectado w1)
      | Some (Inl error, conectado, w1) \<Rightarrow>
          (let w2 = (if conectado then snd (fazer_rollback amb w1) else w1);
               w3 = salvar_log amb w2
           in Some (\<lparr>r_success = False, r_idSistema = idSistema, r_empresa = empresaNome,
                      r_totalRegistros = 0, r_registrosInseridos = 0,
                      r_registrosAtualizados = 0, r_registrosDeletados = 0,
                      r_dataInicio = relogio w, r_dataFim = relogio w2,
                      r_duracao = relogio w2 - relogio w, r_erro = Some (e_message error)\<rparr>,
                    finalmente amb conectado w3)))"

subsection \<open>\<^verbatim>\<open>sincronizarTodasEmpresas\<close>\<close>

text \<open>The loop over the active tenants, two seconds after each.\<close>

fun sincronizar_cada ::
  "ambiente \<Rightarrow> nat \<Rightarrow> (nat \<times> string) list \<Rightarrow> SyncResult list \<Rightarrow> mundo
     \<Rightarrow> (SyncResult list \<times> mundo) option" where
  "sincronizar_cada amb fuel [] resultados w = Some (resultados, w)"
| "sincronizar_cada amb fuel (emp # resto) resultados w =
     (case sincronizarCabecalhoNotaPorEmpresa amb fuel (fst emp) (snd emp) w of
        None \<Rightarrow> None
      | Some (resultado, w1) \<Rightarrow>
          sincronizar_cada amb fuel resto (resultados @ [resultado]) (esperar 2000 w1))"

text \<open>\<^verbatim>\<open>SELECT ID_EMPRESA, EMPRESA FROM AD_CONTRATOS WHERE ATIVO = 'S' ORDER BY EMPRESA\<close>.\<close>

definition selecionar_empresas ::
  "ambiente \<Rightarrow> mundo \<Rightarrow> (js_error + (nat \<times> string) list) \<times> mundo" where
  "selecionar_empresas amb w = (consultar_empresas amb (relogio w), tique w)"

text \<open>
  The function. Its handler throws the error again, so \<open>Inl\<close> is a result; the
  \<^verbatim>\<open>finally\<close> block closes the connection when \<^verbatim>\<open>connection\<close> still holds it.
\<close>

definition sincronizarTodasEmpresas ::
  "ambiente \<Rightarrow> nat \<Rightarrow> mundo \<Rightarrow> ((js_error + SyncResult list) \<times> mundo) option" where
  "sincronizarTodasEmpresas amb fuel w =
     (case abrir_conexao amb w of
        (Some e, w1) \<Rightarrow> Some (Inl e, w1)
      | (None, w1) \<Rightarrow>
     (case selecionar_empresas amb w1 of
        (Inl e, w2) \<Rightarrow> Some (Inl e, finalmente amb True w2)
      | (Inr empresas, w2) \<Rightarrow>
     (case fechar_conexao amb w2 of
        (Some e, w3) \<Rightarrow> Some (Inl e, finalmente amb True w3)
      | (None, w3) \<Rightarrow>
          if empresas = [] then Some (Inr [], w3)
          else (case sincronizar_cada amb fuel empresas [] w3 of
                  None \<Rightarrow> None
                | Some (resultados, w4) \<Rightarrow> Some (Inr resultados, w4)))))"

subsection \<open>What the table shows\<close>

text \<open>The identifiers of a tenant's rows flagged \<^verbatim>\<open>'S'\<close>, and their number.\<close>

definition nunotas_ativas :: "nat \<Rightarrow> linha list \<Rightarrow> int set" where
  "nunotas_ativas idSistema tab = col_NUNOTA ` set (filter (ativa_de idSistema) tab)"

definition total_ativas :: "nat \<Rightarrow> linha list \<Rightarrow> nat" where
  "total_ativas idSistema tab = length (filter (ativa_de idSistema) tab)"

subsection \<open>Auxiliary notions of the proofs\<close>

text \<open>
  The keys (tenant, identifier) of a table, and the table's being keyed by them: no two
  rows share a key.
\<close>

definition chave :: "linha \<Rightarrow> nat \<times> int" where
  "chave r = (col_ID_SISTEMA r, col_NUNOTA r)"

definition chave_unica :: "linha list \<Rightarrow> bool" where
  "chave_unica tab \<longleftrightarrow> distinct (map chave tab)"

text \<open>Whether the statements issued for a record go through.\<close>

definition aceito :: "ambiente \<Rightarrow> nat \<Rightarrow> CabecalhoNota \<Rightarrow> bool" where
  "aceito amb idSistema cabecalho \<longleftrightarrow> falha_registro amb idSistema cabecalho = None"

text \<open>
  The snapshot that \<^verbatim>\<open>sincronizarCabecalhoNotaPorEmpresa\<close> retrieves when it starts in
  a given world, if the renewal of the token and the retrieval succeed.
\<close>

definition instantaneo :: "ambiente \<Rightarrow> nat \<Rightarrow> nat \<Rightarrow> mundo \<Rightarrow> CabecalhoNota list option" where
  "instantaneo amb fuel idSistema w =
     (case renovarToken amb idSistema w of
        (Inl e, w1) \<Rightarrow> None
      | (Inr bearerToken, w1) \<Rightarrow>
          (case buscarCabecalhoNotaSankhya amb fuel idSistema bearerToken 0 w1 of
             Some (Inr cabecalhos, w2) \<Rightarrow> Some cabecalhos
           | _ \<Rightarrow> None))"


text \<open>The number of attempts announced in a trace.\<close>

definition tentativas :: "evento list \<Rightarrow> nat" where
  "tentativas evs = length (filter (\<lambda>ev. case ev of Tentativa k \<Rightarrow> True | _ \<Rightarrow> False) evs)"

text \<open>
  An environment in which everything succeeds: one active sandbox contract, a remote
  service without entities, a database that accepts every statement, no active tenant.
\<close>

definition amb_base :: ambiente where
  "amb_base =
     \<lparr>obterToken = (\<lambda>t idSistema forcar. Inr ''token-novo''),
      listarContratos = (\<lambda>t. Inr [\<lparr>ATIVO = True, IS_SANDBOX = True\<rparr>]),
      axios_post = (\<lambda>t url token pagina. Inr SemEntidade),
      getOracleConnection = (\<lambda>t. None),
      falha_marcar = (\<lambda>t. None),
      falha_registro = (\<lambda>idSistema cabecalho. None),
      connection_commit = (\<lambda>t. None),
      connection_rollback = (\<lambda>t. None),
      connection_close = (\<lambda>t. None),
      salvarLogSincronizacao = (\<lambda>t. None),
      consultar_empresas = (\<lambda>t. Inr [])\<rparr>"

definition mundo_inicial :: mundo where
  "mundo_inicial = \<lparr>relogio = 0, rastro = [], confirmado = [], pendente = []\<rparr>"

definition erro_http :: "nat \<Rightarrow> js_error" where
  "erro_http st =
     \<lparr>e_code = Some ''ERR_BAD_RESPONSE'',
      e_message = ''Request failed with status code '' @ dec st,
      e_status = Some st\<rparr>"

text \<open>A remote service that answers 403 to every request.\<close>

definition amb_403 :: ambiente where
  "amb_403 = amb_base\<lparr>axios_post := (\<lambda>t url token pagina. Inl (erro_http 403))\<rparr>"




text \<open>A note header with a given identifier.\<close>

definition nota :: "int \<Rightarrow> CabecalhoNota" where
  "nota n =
     \<lparr>NUNOTA = n, CODTIPOPER = 1100, CODTIPVENDA = Some 11, CODPARC = 7, CODVEND = Some 3,
      VLRNOTA = Some 150, DTNEG = Some ''15/03/2024'', TIPMOV = ''V''\<rparr>"

text \<open>
  A remote service with four pages of one record each, whose answer to the request sent at
  instant 5 (the first request for page 2, when the loop starts at instant 0) is 401.
\<close>

definition paginas_exemplo :: "CabecalhoNota list list" where
  "paginas_exemplo = [[nota 1], [nota 2], [nota 3], [nota 4]]"

definition amb_expira :: ambiente where
  "amb_expira = amb_base\<lparr>axios_post :=
     (\<lambda>t url token pagina.
        if t = 5 then Inl (erro_http 401)
        else if pagina < length paginas_exemplo
        then Inr (Entidades (Varias (paginas_exemplo ! pagina))
                    (JBool (Suc pagina < length paginas_exemplo)))
        else Inr SemEntidade)\<rparr>"

text \<open>
  A remote service that holds a given snapshot on one page, and the same with a store
  that rejects every statement for the record of identifier 2.
\<close>

definition amb_snapshot :: "CabecalhoNota list \<Rightarrow> ambiente" where
  "amb_snapshot cabs = amb_base\<lparr>axios_post :=
     (\<lambda>t url token pagina. Inr (Entidades (Varias cabs) (JBool False)))\<rparr>"

definition amb_rejeita :: "CabecalhoNota list \<Rightarrow> ambiente" where
  "amb_rejeita cabs = (amb_snapshot cabs)\<lparr>falha_registro :=
     (\<lambda>idSistema cabecalho.
        if NUNOTA cabecalho = 2 then Some (Error ''ORA-01722: invalid number'') else None)\<rparr>"

text \<open>
  Two active tenants, the first of which gets no token; and a store that gives no
  connection.
\<close>

definition amb_frota :: ambiente where
  "amb_frota = amb_base\<lparr>
     consultar_empresas := (\<lambda>t. Inr [(1, ''Alfa''), (2, ''Beta'')]),
     obterToken := (\<lambda>t idSistema forcar.
       if idSistema = 1 then Inl (Error ''credencial recusada'') else Inr ''token-novo'')\<rparr>"

definition amb_sem_conexao :: ambiente where
  "amb_sem_conexao = amb_base\<lparr>getOracleConnection :=
     (\<lambda>t. Some (Error ''ORA-12541: TNS:no listener''))\<rparr>"

text \<open>A committed table with one active row of tenant 7, of identifier 9.\<close>

definition mundo_com_linha :: mundo where
  "mundo_com_linha = mundo_inicial\<lparr>confirmado := [nova_linha 7 (nota 9) 0]\<rparr>"

text \<open>A remote service whose pages are empty and say that more follow.\<close>

definition amb_vazia :: ambiente where
  "amb_vazia = amb_base\<lparr>axios_post :=
     (\<lambda>t url token pagina. Inr (Entidades (Varias []) (JBool True)))\<rparr>"


section \<open>Properties\<close>

subsection \<open>Strings\<close>



lemma split_primeiro: "\<exists>ps. split sep s = takeWhile (\<lambda>c. c \<noteq> sep) s # ps"
  by (induction s) (auto split: list.splits)

lemma indice_split_0: "indice (split sep s) 0 = Some (takeWhile (\<lambda>c. c \<noteq> sep) s)"
  using split_primeiro [of sep s] by auto












subsection \<open>Numbers\<close>

lemma log2n_menor: "n < 2 ^ Suc k \<Longrightarrow> log2n n \<le> k"
proof (induction k arbitrary: n)
  case 0
  then show ?case by (subst log2n.simps) simp
next
  case (Suc k)
  show ?case
  proof (cases "n < 2")
    case True
    then show ?thesis by (subst log2n.simps) simp
  next
    case False
    from Suc.prems have "n div 2 < 2 ^ Suc k" by simp
    then have "log2n (n div 2) \<le> k" by (rule Suc.IH)
    with False show ?thesis by (subst log2n.simps) simp
  qed
qed

lemma log2n_potencia: "log2n (2 ^ k) = k"
proof (induction k)
  case 0
  show ?case by (subst log2n.simps) simp
next
  case (Suc k)
  have "\<not> (2::nat) ^ Suc k < 2" by simp
  then show ?case using Suc by (subst log2n.simps) simp
qed

lemma inteiro_proximo_int: "inteiro_proximo (of_int i) = i"
  by (simp add: inteiro_proximo_def)

lemma ulp_pequeno:
  assumes "e \<le> 52"
  shows "power_int (2::rat) (max (int e) (- 1022) - 52) = 1 / 2 ^ (52 - e)"
proof -
  have "max (int e) (- 1022) - 52 = - int (52 - e)" using assms by simp
  then show ?thesis by (simp only: power_int_minus power_int_of_nat) (simp add: field_simps)
qed

lemma arredondar_nat:
  assumes "n \<le> 2 ^ 53"
  shows "arredondar (of_nat n) = Num (of_nat n)"
proof (cases "n = 0")
  case True
  then show ?thesis by (simp add: arredondar_def)
next
  case False
  then have p: "\<not> (of_nat n :: rat) \<le> 0" "(1::rat) \<le> of_nat n" by simp_all
  have e: "expoente (of_nat n) = int (log2n n)"
    using p(2) by (simp add: expoente_def)
  have g: "(of_nat n :: rat) < 2 ^ 1024"
  proof -
    have "n \<le> 2 ^ 53" by (rule assms)
    also have "(2::nat) ^ 53 < 2 ^ 1024" by (rule power_strict_increasing) simp_all
    finally have "n < 2 ^ 1024" .
    then have "(of_nat n :: rat) < of_nat (2 ^ 1024)" by (simp only: of_nat_less_iff)
    then show ?thesis by simp
  qed
  show ?thesis
  proof (cases "n < 2 ^ 53")
    case True
    then have "n < 2 ^ Suc 52" by simp
    then have l: "log2n n \<le> 52" by (rule log2n_menor)
    have u: "power_int (2::rat) (max (expoente (of_nat n)) (- 1022) - 52) = 1 / 2 ^ (52 - log2n n)"
      unfolding e using l by (rule ulp_pequeno)
    have d: "(of_nat n :: rat) / (1 / 2 ^ (52 - log2n n)) = of_int (int (n * 2 ^ (52 - log2n n)))"
      by simp
    have v: "(of_int (inteiro_proximo (of_nat n / (1 / 2 ^ (52 - log2n n)))) :: rat) *
        (1 / 2 ^ (52 - log2n n)) = of_nat n"
      unfolding d inteiro_proximo_int by simp
    show ?thesis
      unfolding arredondar_def Let_def u v using p(1) g by simp
  next
    case False
    with assms have n: "n = 2 ^ 53" by simp
    have l: "log2n n = 53" unfolding n by (rule log2n_potencia)
    have u: "power_int (2::rat) (max (expoente (of_nat n)) (- 1022) - 52) = 2"
      unfolding e l by simp
    have d: "(of_nat n :: rat) / 2 = of_int (2 ^ 52)" unfolding n by simp
    have v: "(of_int (inteiro_proximo (of_nat n / 2)) :: rat) * 2 = of_nat n"
      unfolding d inteiro_proximo_int unfolding n by simp
    show ?thesis
      unfolding arredondar_def Let_def u v using p(1) g by simp
  qed
qed






subsection \<open>Dates\<close>


lemma arredondar_numeral:
  "numeral k \<le> (9007199254740992::nat) \<Longrightarrow> arredondar (numeral k) = Num (numeral k)"
  using arredondar_nat [of "numeral k"] by simp

lemma arredondar_0_1: "arredondar 0 = Num 0" "arredondar 1 = Num 1"
  using arredondar_nat [of 0] arredondar_nat [of 1] by simp_all


lemma montar_data_iff:
  "montar_data yy mm dd = Date y m d \<longleftrightarrow>
     yy = Some y \<and> y \<noteq> NaN \<and> y \<noteq> Num 0 \<and>
     (\<exists>mq. mm = Some (Num mq) \<and> 1 \<le> mq \<and> mq \<le> 12 \<and> m = Num (mq - 1)) \<and>
     (\<exists>dq. dd = Some (Num dq) \<and> 1 \<le> dq \<and> dq \<le> 31 \<and> d = Num dq)"
  by (auto simp: montar_data_def falso_def menor_def maior_def
      split: option.splits jsnum.splits)


lemma indice_map: "indice (map f xs) i = map_option f (indice xs i)"
  by (induction xs i rule: indice.induct) simp_all

lemma indice_2: "indice (x # y # z # zs) 2 = Some z"
  by (simp add: numeral_2_eq_2)

lemma indice_tres:
  "indice xs 0 = Some a \<and> indice xs 1 = Some b \<and> indice xs 2 = Some c \<longleftrightarrow>
     (\<exists>r. xs = a # b # c # r)"
proof (cases xs)
  case Nil
  then show ?thesis by simp
next
  case 1: (Cons x1 r1)
  show ?thesis
  proof (cases r1)
    case Nil
    with 1 show ?thesis by simp
  next
    case 2: (Cons x2 r2)
    show ?thesis
    proof (cases r2)
      case Nil
      with 1 2 show ?thesis by (simp add: numeral_2_eq_2)
    next
      case (Cons x3 r3)
      with 1 2 show ?thesis by (auto simp: numeral_2_eq_2)
    qed
  qed
qed

lemma converter_forma:
  assumes "s \<noteq> []"
  shows "converterDataParaOracle (Some s) =
     (if CHR ''-'' \<in> set (trim s) then
        montar_data
          (map_option Number (indice (split (CHR ''-'') (takeWhile (\<lambda>c. c \<noteq> CHR '' '') (trim s))) 0))
          (map_option Number (indice (split (CHR ''-'') (takeWhile (\<lambda>c. c \<noteq> CHR '' '') (trim s))) 1))
          (map_option Number (indice (split (CHR ''-'') (takeWhile (\<lambda>c. c \<noteq> CHR '' '') (trim s))) 2))
      else if CHR ''/'' \<in> set (trim s) then
        montar_data
          (map_option Number (indice (split (CHR ''/'') (takeWhile (\<lambda>c. c \<noteq> CHR '' '') (trim s))) 2))
          (map_option Number (indice (split (CHR ''/'') (takeWhile (\<lambda>c. c \<noteq> CHR '' '') (trim s))) 1))
          (map_option Number (indice (split (CHR ''/'') (takeWhile (\<lambda>c. c \<noteq> CHR '' '') (trim s))) 0))
      else Nulo)"
  using assms by (simp add: converterDataParaOracle_def Let_def indice_split_0 indice_map)

lemma montar_partes:
  "montar_data (map_option Number py') (map_option Number pm') (map_option Number pd') = Date y m d
   \<longleftrightarrow>
   (\<exists>py pm pd mq dq. py' = Some py \<and> pm' = Some pm \<and> pd' = Some pd \<and>
      Number py = y \<and> y \<noteq> NaN \<and> y \<noteq> Num 0 \<and>
      Number pm = Num mq \<and> 1 \<le> mq \<and> mq \<le> 12 \<and> m = Num (mq - 1) \<and>
      Number pd = Num dq \<and> 1 \<le> dq \<and> dq \<le> 31 \<and> d = Num dq)"
  unfolding montar_data_iff by (cases py'; cases pm'; cases pd') auto

lemma converter_data_iff:
  "converterDataParaOracle (Some s) = Date y m d \<longleftrightarrow>
     s \<noteq> [] \<and>
     (\<exists>py pm pd ps mq dq.
        (CHR ''-'' \<in> set (trim s) \<and>
           split (CHR ''-'') (takeWhile (\<lambda>c. c \<noteq> CHR '' '') (trim s)) = py # pm # pd # ps \<or>
         CHR ''-'' \<notin> set (trim s) \<and> CHR ''/'' \<in> set (trim s) \<and>
           split (CHR ''/'') (takeWhile (\<lambda>c. c \<noteq> CHR '' '') (trim s)) = pd # pm # py # ps) \<and>
        Number py = y \<and> y \<noteq> NaN \<and> y \<noteq> Num 0 \<and>
        Number pm = Num mq \<and> 1 \<le> mq \<and> mq \<le> 12 \<and> m = Num (mq - 1) \<and>
        Number pd = Num dq \<and> 1 \<le> dq \<and> dq \<le> 31 \<and> d = Num dq)"
  (is "?L \<longleftrightarrow> ?n \<and> (\<exists>py pm pd ps mq dq. ?F py pm pd ps \<and> ?V py pm pd mq dq)")
proof (cases "s = []")
  case True
  then show ?thesis by (simp add: converterDataParaOracle_def)
next
  case ne: False
  let ?dp = "takeWhile (\<lambda>c. c \<noteq> CHR '' '') (trim s)"
  show ?thesis
  proof (cases "CHR ''-'' \<in> set (trim s)")
    case True
    let ?xs = "split (CHR ''-'') ?dp"
    have "?L \<longleftrightarrow> (\<exists>py pm pd mq dq.
        (indice ?xs 0 = Some py \<and> indice ?xs 1 = Some pm \<and> indice ?xs 2 = Some pd) \<and>
        ?V py pm pd mq dq)"
      unfolding converter_forma [OF ne] using True by (simp only: if_True montar_partes) blast
    also have "\<dots> \<longleftrightarrow> (\<exists>py pm pd mq dq. (\<exists>ps. ?xs = py # pm # pd # ps) \<and> ?V py pm pd mq dq)"
      by (simp only: indice_tres)
    also have "\<dots> \<longleftrightarrow> (\<exists>py pm pd ps mq dq. ?F py pm pd ps \<and> ?V py pm pd mq dq)"
      using True by blast
    finally show ?thesis using ne by simp
  next
    case nh: False
    show ?thesis
    proof (cases "CHR ''/'' \<in> set (trim s)")
      case True
      let ?xs = "split (CHR ''/'') ?dp"
      have "?L \<longleftrightarrow> (\<exists>py pm pd mq dq.
          (indice ?xs 0 = Some pd \<and> indice ?xs 1 = Some pm \<and> indice ?xs 2 = Some py) \<and>
          ?V py pm pd mq dq)"
        unfolding converter_forma [OF ne] using nh True
        by (simp only: if_True if_False montar_partes) blast
      also have "\<dots> \<longleftrightarrow> (\<exists>py pm pd mq dq. (\<exists>ps. ?xs = pd # pm # py # ps) \<and> ?V py pm pd mq dq)"
        by (simp only: indice_tres)
      also have "\<dots> \<longleftrightarrow> (\<exists>py pm pd ps mq dq. ?F py pm pd ps \<and> ?V py pm pd mq dq)"
        using nh True by blast
      finally show ?thesis using ne by simp
    next
      case False
      with nh have "converterDataParaOracle (Some s) = Nulo"
        unfolding converter_forma [OF ne] by simp
      with nh False show ?thesis by simp
    qed
  qed
qed









lemma converter_poucas_partes:
  assumes "CHR ''-'' \<in> set (trim s) \<and>
       length (split (CHR ''-'') (takeWhile (\<lambda>c. c \<noteq> CHR '' '') (trim s))) < 3 \<or>
     CHR ''-'' \<notin> set (trim s) \<and>
       length (split (CHR ''/'') (takeWhile (\<lambda>c. c \<noteq> CHR '' '') (trim s))) < 3"
  shows "converterDataParaOracle (Some s) = Nulo"
proof -
  have "\<not> (\<exists>y m d. converterDataParaOracle (Some s) = Date y m d)"
    unfolding converter_data_iff using assms by auto
  then show ?thesis by (cases "converterDataParaOracle (Some s)") auto
qed

lemma indice_2_curto: "indice [x, y] 2 = None" "indice [x] 2 = None"
  by (simp_all add: numeral_2_eq_2)

lemmas avaliar = indice_2_curto
  converterDataParaOracle_def trim_def espaco_js_def Number_def sem_sinal_def nao_e_def
  base_de_def negar_def expoente_literal_def montar_data_def falso_def menor_def maior_def
  digito_def decimal_def indice_2 arredondar_numeral arredondar_0_1 Let_def

lemma exemplos_Number:
  "Number ''abc'' = NaN" "Number ''+2024'' = Num 2024" "Number ''1e3'' = Num 1000"
  "Number ''2024'' = Num 2024" "Number [] = Num 0" "Number ''  12 '' = Num 12"
  "Number ''-15'' = Num (- 15)" "Number ''15abc'' = NaN" "Number ''1_000'' = NaN"
  "Number ''Infinity'' = MaisInfinito" "Number ''.'' = NaN" "Number ''1e'' = NaN"
  by (simp_all add: avaliar)



subsection \<open>The rounding\<close>










lemma log2n_correto: "0 < n \<Longrightarrow> 2 ^ log2n n \<le> n \<and> n < 2 ^ Suc (log2n n)"
proof (induction n rule: log2n.induct)
  case (1 n)
  show ?case
  proof (cases "n < 2")
    case True
    with "1.prems" have "n = 1" by simp
    then show ?thesis by (subst (1 2) log2n.simps) simp
  next
    case False
    then have "0 < n div 2" by simp
    with "1.IH" False have ih: "2 ^ log2n (n div 2) \<le> n div 2" "n div 2 < 2 ^ Suc (log2n (n div 2))"
      by simp_all
    have l: "log2n n = Suc (log2n (n div 2))"
      using False by (subst log2n.simps) simp
    from ih(1) have "2 * 2 ^ log2n (n div 2) \<le> n" by simp
    moreover from ih(2) have "n < 2 * 2 ^ Suc (log2n (n div 2))" by simp
    ultimately show ?thesis unfolding l by simp
  qed
qed

lemma expoente_correto:
  assumes "0 < q"
  shows "power_int 2 (expoente q) \<le> q \<and> q < power_int 2 (expoente q + 1)"
proof (cases "1 \<le> q")
  case True
  define n where "n = nat \<lfloor>q\<rfloor>"
  have f: "1 \<le> \<lfloor>q\<rfloor>" using True by simp
  then have n: "0 < n" by (simp add: n_def)
  have "of_nat n = (of_int \<lfloor>q\<rfloor> :: rat)" using f by (simp add: n_def)
  then have nq: "of_nat n \<le> q" "q < of_nat n + 1"
    using floor_correct [of q] by simp_all
  note c = log2n_correto [OF n]
  have e: "expoente q = int (log2n n)" using True by (simp add: expoente_def n_def)
  have "(2::rat) ^ log2n n = of_nat (2 ^ log2n n)" by simp
  also have "\<dots> \<le> of_nat n" using c by (simp only: of_nat_le_iff)
  finally have "(2::rat) ^ log2n n \<le> of_nat n" .
  then have 1: "(2::rat) ^ log2n n \<le> q" using nq(1) by (rule order_trans)
  have "n + 1 \<le> 2 ^ Suc (log2n n)" using c by simp
  then have "(of_nat (n + 1) :: rat) \<le> of_nat (2 ^ Suc (log2n n))" by (simp only: of_nat_le_iff)
  then have "(of_nat n :: rat) + 1 \<le> 2 ^ Suc (log2n n)" by simp
  with nq(2) have 2: "q < 2 ^ Suc (log2n n)" by (rule less_le_trans)
  have "int (log2n n) + 1 = int (Suc (log2n n))" by simp
  then show ?thesis unfolding e using 1 2 by (simp only: power_int_of_nat)
next
  case False
  with assms have q: "0 < q" "q < 1" by simp_all
  define N where "N = nat \<lceil>1 / q\<rceil>"
  define l where "l = log2n (N - 1)"
  have i: "1 < 1 / q" using q by simp
  then have t: "1 < \<lceil>1 / q\<rceil>" by (simp add: less_ceiling_iff)
  then have N: "2 \<le> N" unfolding N_def by linarith
  have "int N = \<lceil>1 / q\<rceil>" using t unfolding N_def by linarith
  then have "(of_nat N :: rat) = of_int \<lceil>1 / q\<rceil>" by (metis of_int_of_nat_eq)
  then have c1: "1 / q \<le> of_nat N"
    using le_of_int_ceiling [of "1 / q"] by (simp only:)
  have c2: "of_nat (N - 1) < 1 / q"
  proof -
    have "of_int (\<lceil>1 / q\<rceil> - 1) < 1 / q" using ceiling_correct [of "1 / q"] by simp
    moreover have "int (N - 1) = \<lceil>1 / q\<rceil> - 1" using t unfolding N_def by linarith
    ultimately show ?thesis by (metis of_int_of_nat_eq)
  qed
  have "0 < N - 1" using N by simp
  note c = log2n_correto [OF this, folded l_def]
  have e: "expoente q = - int (Suc l)" using False by (simp add: expoente_def N_def l_def)
  have "(2::rat) ^ l = of_nat (2 ^ l)" by simp
  also have "\<dots> \<le> of_nat (N - 1)" using c by (simp only: of_nat_le_iff)
  also have "\<dots> < 1 / q" by (rule c2)
  finally have a: "q < 1 / 2 ^ l" using q(1) by (simp add: field_simps)
  have "N \<le> 2 ^ Suc l" using c N by linarith
  then have "(of_nat N :: rat) \<le> of_nat (2 ^ Suc l)" by (simp only: of_nat_le_iff)
  then have "(of_nat N :: rat) \<le> 2 ^ Suc l" by simp
  with c1 have "1 / q \<le> 2 ^ Suc l" by (rule order_trans)
  then have b: "1 / 2 ^ Suc l \<le> q" using q(1) by (simp add: field_simps)
  have p1: "power_int (2::rat) (- int (Suc l)) = 1 / 2 ^ Suc l"
    by (simp only: power_int_minus power_int_of_nat) (simp add: field_simps)
  have "- int (Suc l) + 1 = - int l" by simp
  then have p2: "power_int (2::rat) (- int (Suc l) + 1) = 1 / 2 ^ l"
    by (simp only: power_int_minus power_int_of_nat) (simp add: field_simps)
  show ?thesis unfolding e p1 p2 using a b by simp
qed

lemma inteiro_proximo_correto:
  "\<bar>of_int (inteiro_proximo x) - x\<bar> \<le> 1 / 2 \<and>
   (\<bar>of_int (inteiro_proximo x) - x\<bar> = 1 / 2 \<longrightarrow> even (inteiro_proximo x))"
proof -
  define f where "f = \<lfloor>x\<rfloor>"
  define r where "r = x - of_int f"
  have r: "0 \<le> r" "r < 1" using floor_correct [of x] by (simp_all add: r_def f_def)
  have x: "x = of_int f + r" by (simp add: r_def)
  consider "r < 1 / 2" | "1 / 2 < r" | "r = 1 / 2" "even f" | "r = 1 / 2" "odd f"
    by fastforce
  then show ?thesis
  proof cases
    case 1
    then have "inteiro_proximo x = f" by (simp add: inteiro_proximo_def Let_def f_def r_def)
    with 1 r show ?thesis unfolding x by simp
  next
    case 2
    then have "inteiro_proximo x = f + 1" by (simp add: inteiro_proximo_def Let_def f_def r_def)
    with 2 r show ?thesis unfolding x by simp
  next
    case 3
    then have "inteiro_proximo x = f" by (simp add: inteiro_proximo_def Let_def f_def r_def)
    with 3 show ?thesis unfolding x by simp
  next
    case 4
    then have "inteiro_proximo x = f + 1" by (simp add: inteiro_proximo_def Let_def f_def r_def)
    with 4 show ?thesis unfolding x by simp
  qed
qed

text \<open>
  The value \<open>arredondar\<close> gives is a multiple of the spacing at \<open>q\<close>, at most half a
  spacing away from \<open>q\<close>, and of even multiplier when exactly half a spacing away.
\<close>

lemma arredondar_correto:
  assumes "0 < q" "arredondar q = Num v"
  defines "ulp \<equiv> power_int 2 (max (expoente q) (- 1022) - 52)"
  shows "\<exists>i. v = of_int i * ulp \<and> \<bar>v - q\<bar> \<le> ulp / 2 \<and> (\<bar>v - q\<bar> = ulp / 2 \<longrightarrow> even i)"
proof -
  define i where "i = inteiro_proximo (q / ulp)"
  have u: "0 < ulp" by (simp add: ulp_def)
  have v: "v = of_int i * ulp"
    using assms(1,2) unfolding arredondar_def Let_def i_def ulp_def
    by (simp split: if_splits)
  note c = inteiro_proximo_correto [of "q / ulp", folded i_def]
  have d: "v - q = (of_int i - q / ulp) * ulp" using u by (simp add: v field_simps)
  have a: "\<bar>v - q\<bar> = \<bar>of_int i - q / ulp\<bar> * ulp"
    unfolding d using u by (simp add: abs_mult)
  have 1: "\<bar>v - q\<bar> \<le> ulp / 2"
  proof -
    have "\<bar>of_int i - q / ulp\<bar> * ulp \<le> (1 / 2) * ulp"
      using c u by (intro mult_right_mono) simp_all
    then show ?thesis unfolding a by simp
  qed
  have 2: "\<bar>v - q\<bar> = ulp / 2 \<longrightarrow> even i"
  proof
    assume "\<bar>v - q\<bar> = ulp / 2"
    then have "\<bar>of_int i - q / ulp\<bar> * ulp = (1 / 2) * ulp" unfolding a by simp
    then have "\<bar>of_int i - q / ulp\<bar> = 1 / 2" using u by simp
    with c show "even i" by simp
  qed
  from v 1 2 show ?thesis by blast
qed


subsection \<open>The conversion of the date\<close>





subsection \<open>The clock, the trace and the page loop\<close>

lemma relogio_simps [simp]:
  "relogio (tique w) = Suc (relogio w)"
  "relogio (registrar ev w) = relogio w"
  "relogio (esperar ms w) = relogio w"
  by (simp_all add: tique_def registrar_def esperar_def)

lemma rastro_simps [simp]:
  "rastro (tique w) = rastro w"
  "rastro (registrar ev w) = rastro w @ [ev]"
  "rastro (esperar ms w) = rastro w @ [Espera ms]"
  by (simp_all add: tique_def registrar_def esperar_def)

lemma tabelas_simps [simp]:
  "confirmado (tique w) = confirmado w" "pendente (tique w) = pendente w"
  "confirmado (registrar ev w) = confirmado w" "pendente (registrar ev w) = pendente w"
  "confirmado (esperar ms w) = confirmado w" "pendente (esperar ms w) = pendente w"
  by (simp_all add: tique_def registrar_def esperar_def)

lemma passo_403:
  "passo amb_403 idSistema st w =
     (Continua (st\<lparr>currentToken := ''token-novo''\<rparr>),
      esperar 1000 (registrar (Renovacao idSistema) (tique
        (registrar (Requisicao (URL_CONSULTA_ATUAL True) (currentToken st) (currentPage st))
           (tique (tique w))))))"
  by (simp add: passo_def amb_403_def amb_base_def buscarContratoAtivo_def tratar_pageError_def
      renovarToken_def erro_http_def)

lemma paginar_403: "paginar amb_403 idSistema fuel st w = None"
  by (induction fuel arbitrary: st w) (simp_all add: passo_403)

lemma buscar_403: "buscarCabecalhoNotaSankhya amb_403 fuel idSistema bearerToken retryCount w = None"
  by (simp add: buscarCabecalhoNotaSankhya.simps [of amb_403] paginar_403)

lemma obterToken_403: "obterToken amb_403 t idSistema forcar = Inr ''token-novo''"
  by (simp add: amb_403_def amb_base_def)

lemma sinc_403: "sincronizarCabecalhoNotaPorEmpresa amb_403 fuel idSistema empresaNome w = None"
  by (simp add: sincronizarCabecalhoNotaPorEmpresa_def corpo_sincronizacao_def renovarToken_def
      buscar_403 obterToken_403)

lemma buscarContratoAtivo_mundo: "snd (buscarContratoAtivo amb w) = tique w"
  by (simp add: buscarContratoAtivo_def split: sum.split)

lemma passo_com_resposta:
  assumes "buscarContratoAtivo amb w = (Some ct, w1)"
    and "axios_post amb (relogio w1) (URL_CONSULTA_ATUAL (IS_SANDBOX ct)) (currentToken st)
           (currentPage st) = Inr resp"
  shows "passo amb idSistema st w =
     (let w2 = registrar (Requisicao (URL_CONSULTA_ATUAL (IS_SANDBOX ct)) (currentToken st)
                            (currentPage st)) (tique w1)
      in case resp of
           SemEntidade \<Rightarrow> (Termina st, w2)
         | Malformada msg \<Rightarrow> (Lanca (Error msg), w2)
         | Entidades entity hasMore \<Rightarrow>
             if entityArray entity = [] \<or> \<not> hasMoreResult hasMore
             then (Termina (st\<lparr>allCabecalhos := allCabecalhos st @ entityArray entity\<rparr>), w2)
             else (Continua (st\<lparr>allCabecalhos := allCabecalhos st @ entityArray entity,
                                 currentPage := Suc (currentPage st)\<rparr>), esperar 500 w2))"
  using assms
  by (simp add: passo_def Let_def tratar_pageError_def Error_def split: resposta.split)

lemma passo_com_erro_auth:
  assumes "buscarContratoAtivo amb w = (Some ct, w1)"
    and "axios_post amb (relogio w1) (URL_CONSULTA_ATUAL (IS_SANDBOX ct)) (currentToken st)
           (currentPage st) = Inl e"
    and "e_status e = Some 401 \<or> e_status e = Some 403"
    and "obterToken amb (relogio w1 + 1) idSistema True = Inr novo"
  shows "passo amb idSistema st w =
     (Continua (st\<lparr>currentToken := novo\<rparr>),
      esperar 1000 (registrar (Renovacao idSistema) (tique
        (registrar (Requisicao (URL_CONSULTA_ATUAL (IS_SANDBOX ct)) (currentToken st)
           (currentPage st)) (tique w1)))))"
  using assms
  by (auto simp add: passo_def Let_def tratar_pageError_def renovarToken_def)


text \<open>
  C4. The end of the pagination. When the request of an iteration is answered, the loop
  ends at that iteration exactly when the answer has no entity, or its page has no record,
  or its indicator \<^verbatim>\<open>hasMoreResult\<close> is not true; a malformed answer throws instead.
  Otherwise the loop goes on with the next page index. The page index plays no part in
  the decision: the statement holds for every state of the loop. An empty page ends the
  loop whatever the indicator says.
\<close>

theorem C4_fim_da_paginacao:
  assumes "buscarContratoAtivo amb w = (Some ct, w1)"
    and "axios_post amb (relogio w1) (URL_CONSULTA_ATUAL (IS_SANDBOX ct)) (currentToken st)
           (currentPage st) = Inr resp"
  shows
    "(let w2 = registrar (Requisicao (URL_CONSULTA_ATUAL (IS_SANDBOX ct)) (currentToken st)
                            (currentPage st)) (tique w1)
      in ((\<exists>st' w'. passo amb idSistema st w = (Termina st', w')) \<longleftrightarrow>
            (case resp of
               SemEntidade \<Rightarrow> True
             | Malformada msg \<Rightarrow> False
             | Entidades entity hasMore \<Rightarrow>
                 entityArray entity = [] \<or> \<not> hasMoreResult hasMore)) \<and>
         (\<forall>entity hasMore. resp = Entidades entity hasMore \<longrightarrow>
            paginar amb idSistema (Suc n) st w =
              (if entityArray entity = [] \<or> \<not> hasMoreResult hasMore
               then Some (Inr (st\<lparr>allCabecalhos := allCabecalhos st @ entityArray entity\<rparr>), w2)
               else paginar amb idSistema n
                      (st\<lparr>allCabecalhos := allCabecalhos st @ entityArray entity,
                          currentPage := Suc (currentPage st)\<rparr>) (esperar 500 w2))) \<and>
         (resp = SemEntidade \<longrightarrow> paginar amb idSistema (Suc n) st w = Some (Inr st, w2)) \<and>
         (\<forall>hasMore. resp = Entidades (Varias []) hasMore \<longrightarrow>
            paginar amb idSistema (Suc n) st w = Some (Inr st, w2)))"
  using passo_com_resposta [OF assms, of idSistema]
  by (cases resp) (simp_all add: Let_def entityArray_def)

lemma concat_take_Suc: "p < length ps \<Longrightarrow> concat (take p ps) @ ps ! p = concat (take (Suc p) ps)"
  by (simp add: take_Suc_conv_app_nth)

lemma paginar_servidor:
  assumes contrato: "\<forall>t. \<exists>cs ct. listarContratos amb t = Inr cs \<and> find ATIVO cs = Some ct"
    and token: "\<forall>t. \<exists>novo. obterToken amb t idSistema True = Inr novo"
    and servidor: "\<forall>t url tok p. p < length ps \<longrightarrow>
        (\<exists>entity hm. axios_post amb t url tok p = Inr (Entidades entity hm) \<and>
           entityArray entity = ps ! p \<and> (hasMoreResult hm \<longleftrightarrow> Suc p < length ps)) \<or>
        (\<exists>e. axios_post amb t url tok p = Inl e \<and> (e_status e = Some 401 \<or> e_status e = Some 403))"
    and horizonte: "\<forall>t url tok p e. T \<le> t \<longrightarrow> axios_post amb t url tok p \<noteq> Inl e"
    and cheias: "\<forall>i. Suc i < length ps \<longrightarrow> ps ! i \<noteq> []"
    and pagina: "currentPage st < length ps"
    and acumulado: "allCabecalhos st = concat (take (currentPage st) ps)"
    and combustivel: "(T - relogio w) + (length ps - currentPage st) \<le> fuel"
  shows "\<exists>st' w'. paginar amb idSistema fuel st w = Some (Inr st', w') \<and>
           allCabecalhos st' = concat ps \<and> currentPage st' = length ps - 1"
  using pagina acumulado combustivel
proof (induction fuel arbitrary: st w)
  case 0
  then show ?case by simp
next
  case (Suc n)
  let ?p = "currentPage st"
  from contrato obtain cs ct where
    c: "listarContratos amb (relogio w) = Inr cs" "find ATIVO cs = Some ct" by blast
  then have b: "buscarContratoAtivo amb w = (Some ct, tique w)"
    by (simp add: buscarContratoAtivo_def)
  let ?url = "URL_CONSULTA_ATUAL (IS_SANDBOX ct)"
  let ?w2 = "registrar (Requisicao ?url (currentToken st) ?p) (tique (tique w))"
  from servidor Suc.prems(1) consider
    (ok) entity hm where
      "axios_post amb (relogio (tique w)) ?url (currentToken st) ?p = Inr (Entidades entity hm)"
      "entityArray entity = ps ! ?p" "hasMoreResult hm \<longleftrightarrow> Suc ?p < length ps"
  | (auth) e where
      "axios_post amb (relogio (tique w)) ?url (currentToken st) ?p = Inl e"
      "e_status e = Some 401 \<or> e_status e = Some 403"
    by blast
  then show ?case
  proof cases
    case ok
    let ?st1 = "st\<lparr>allCabecalhos := allCabecalhos st @ entityArray entity\<rparr>"
    have a1: "allCabecalhos ?st1 = concat (take (Suc ?p) ps)"
      using Suc.prems(1,2) ok(2) by (simp add: concat_take_Suc)
    show ?thesis
    proof (cases "Suc ?p < length ps")
      case True
      with cheias ok(2) have ne: "entityArray entity \<noteq> []" by simp
      let ?st2 = "?st1\<lparr>currentPage := Suc ?p\<rparr>"
      have p: "passo amb idSistema st w = (Continua ?st2, esperar 500 ?w2)"
        using passo_com_resposta [OF b ok(1), of idSistema] ne ok(3) True
        by (simp add: Let_def)
      have "\<exists>st' w'. paginar amb idSistema n ?st2 (esperar 500 ?w2) = Some (Inr st', w') \<and>
           allCabecalhos st' = concat ps \<and> currentPage st' = length ps - 1"
      proof (rule Suc.IH)
        show "currentPage ?st2 < length ps" using True by simp
        show "allCabecalhos ?st2 = concat (take (currentPage ?st2) ps)" using a1 by simp
        show "T - relogio (esperar 500 ?w2) + (length ps - currentPage ?st2) \<le> n"
          using Suc.prems(3) True by simp
      qed
      then show ?thesis by (simp add: p)
    next
      case False
      with Suc.prems(1) have l: "Suc ?p = length ps" by simp
      have p: "passo amb idSistema st w = (Termina ?st1, ?w2)"
        using passo_com_resposta [OF b ok(1), of idSistema] ok(3) False
        by (simp add: Let_def)
      have "allCabecalhos ?st1 = concat ps" using a1 l by simp
      moreover have "currentPage ?st1 = length ps - 1" using l by simp
      ultimately show ?thesis by (simp add: p)
    qed
  next
    case auth
    from horizonte auth(1) have t: "relogio (tique w) < T"
      by (meson not_le)
    from token obtain novo where
      n: "obterToken amb (relogio (tique w) + 1) idSistema True = Inr novo" by blast
    let ?st2 = "st\<lparr>currentToken := novo\<rparr>"
    let ?w3 = "esperar 1000 (registrar (Renovacao idSistema) (tique ?w2))"
    have p: "passo amb idSistema st w = (Continua ?st2, ?w3)"
      using passo_com_erro_auth [OF b auth(1,2) n] .
    have "\<exists>st' w'. paginar amb idSistema n ?st2 ?w3 = Some (Inr st', w') \<and>
           allCabecalhos st' = concat ps \<and> currentPage st' = length ps - 1"
    proof (rule Suc.IH)
      show "currentPage ?st2 < length ps" using Suc.prems(1) by simp
      show "allCabecalhos ?st2 = concat (take (currentPage ?st2) ps)"
        using Suc.prems(2) by simp
      show "T - relogio ?w3 + (length ps - currentPage ?st2) \<le> n"
        using Suc.prems(3) t by simp
    qed
    then show ?thesis by (simp add: p)
  qed
qed

subsection \<open>The retries\<close>

lemma tentativas_simps [simp]:
  "tentativas [] = 0"
  "tentativas (evs @ evs') = tentativas evs + tentativas evs'"
  "tentativas (Tentativa k # evs) = Suc (tentativas evs)"
  "tentativas (Requisicao u t p # evs) = tentativas evs"
  "tentativas (Espera ms # evs) = tentativas evs"
  "tentativas (Renovacao i # evs) = tentativas evs"
  "tentativas (ErroRegistro nn # evs) = tentativas evs"
  by (simp_all add: tentativas_def)




lemma buscar_falha:
  assumes "paginar amb idSistema fuel (estado_inicial tok) (registrar (Tentativa (rc + 1)) w) =
             Some (Inl e, w1)"
  shows "buscarCabecalhoNotaSankhya amb fuel idSistema tok rc w =
     (if rc < 2 \<and> transitorio e then
        (if e_status e = Some 401 \<or> e_status e = Some 403 then
           (case renovarToken amb idSistema (esperar (2000 * (rc + 1)) w1) of
              (Inl e', w3) \<Rightarrow> Some (Inl e', w3)
            | (Inr novoToken, w3) \<Rightarrow>
                buscarCabecalhoNotaSankhya amb fuel idSistema novoToken (rc + 1) w3)
         else buscarCabecalhoNotaSankhya amb fuel idSistema tok (rc + 1)
                (esperar (2000 * (rc + 1)) w1))
      else Some (Inl (erro_final rc e), w1))"
  using assms
  by (subst buscarCabecalhoNotaSankhya.simps)
    (auto simp: MAX_RETRIES_def RETRY_DELAY_def Let_def)

lemma buscar_sucesso:
  assumes "paginar amb idSistema fuel (estado_inicial tok) (registrar (Tentativa (rc + 1)) w) =
             Some (Inr st, w1)"
  shows "buscarCabecalhoNotaSankhya amb fuel idSistema tok rc w = Some (Inr (allCabecalhos st), w1)"
  using assms by (subst buscarCabecalhoNotaSankhya.simps) simp

lemma buscar_nao_retorna:
  assumes "paginar amb idSistema fuel (estado_inicial tok) (registrar (Tentativa (rc + 1)) w) = None"
  shows "buscarCabecalhoNotaSankhya amb fuel idSistema tok rc w = None"
  using assms by (subst buscarCabecalhoNotaSankhya.simps) simp


lemma amb_base_simps [simp]:
  "obterToken amb_base t idSistema forcar = Inr ''token-novo''"
  "listarContratos amb_base t = Inr [\<lparr>ATIVO = True, IS_SANDBOX = True\<rparr>]"
  "axios_post amb_base t url token pagina = Inr SemEntidade"
  "getOracleConnection amb_base t = None"
  "falha_marcar amb_base t = None"
  "falha_registro amb_base idSistema cabecalho = None"
  "connection_commit amb_base t = None"
  "connection_rollback amb_base t = None"
  "connection_close amb_base t = None"
  "salvarLogSincronizacao amb_base t = None"
  "consultar_empresas amb_base t = Inr []"
  by (simp_all add: amb_base_def)

lemma buscarContratoAtivo_base:
  "listarContratos amb = listarContratos amb_base \<Longrightarrow>
     buscarContratoAtivo amb w = (Some \<lparr>ATIVO = True, IS_SANDBOX = True\<rparr>, tique w)"
  by (simp add: buscarContratoAtivo_def)












text \<open>
  C6. Against a remote service that answers 403 to every request, while the renewal of
  the token succeeds, no amount of fuel lets the page loop end: it renews the token, waits
  and asks for the same page again, without a bound. Neither the retrieval nor the
  synchronisation of the tenant returns.
\<close>

theorem C6_laco_sem_limite:
  "paginar amb_403 idSistema fuel st w = None \<and>
   buscarCabecalhoNotaSankhya amb_403 fuel idSistema bearerToken retryCount w = None \<and>
   sincronizarCabecalhoNotaPorEmpresa amb_403 fuel idSistema empresaNome w = None"
  by (simp add: paginar_403 buscar_403 sinc_403)

text \<open>
  C3. Resumed pagination. Let the remote service hold the pages \<open>ps\<close>, all but the last
  with records, and answer a request for page \<open>p\<close> either with that page and the
  indicator \<open>p + 1 < length ps\<close>, or with 401 or 403, the latter at no instant from
  \<open>T\<close> on; let a contract be active and the renewal of the token succeed. Then the
  retrieval returns, with enough fuel, exactly the records of all pages in order:
  \<open>concat ps\<close>. And an iteration whose request fails with 401 or 403 renews the token,
  waits 1000 ms and leaves the page index and the accumulated records as they were.
\<close>

theorem C3_paginacao_retomada:
  assumes "\<forall>t. \<exists>cs ct. listarContratos amb t = Inr cs \<and> find ATIVO cs = Some ct"
    and "\<forall>t. \<exists>novo. obterToken amb t idSistema True = Inr novo"
    and "\<forall>t url tok p. p < length ps \<longrightarrow>
        (\<exists>entity hm. axios_post amb t url tok p = Inr (Entidades entity hm) \<and>
           entityArray entity = ps ! p \<and> (hasMoreResult hm \<longleftrightarrow> Suc p < length ps)) \<or>
        (\<exists>e. axios_post amb t url tok p = Inl e \<and> (e_status e = Some 401 \<or> e_status e = Some 403))"
    and "\<forall>t url tok p e. T \<le> t \<longrightarrow> axios_post amb t url tok p \<noteq> Inl e"
    and "\<forall>i. Suc i < length ps \<longrightarrow> ps ! i \<noteq> []"
    and "ps \<noteq> []"
    and "T + length ps \<le> fuel"
  shows
    "(\<exists>w'. buscarCabecalhoNotaSankhya amb fuel idSistema bearerToken 0 w =
             Some (Inr (concat ps), w')) \<and>
     (\<forall>st w0 ct e.
        buscarContratoAtivo amb w0 = (Some ct, tique w0) \<and>
        axios_post amb (Suc (relogio w0)) (URL_CONSULTA_ATUAL (IS_SANDBOX ct)) (currentToken st)
          (currentPage st) = Inl e \<and>
        (e_status e = Some 401 \<or> e_status e = Some 403) \<longrightarrow>
        (\<exists>novo w'. passo amb idSistema st w0 = (Continua (st\<lparr>currentToken := novo\<rparr>), w') \<and>
           obterToken amb (Suc (Suc (relogio w0))) idSistema True = Inr novo \<and>
           rastro w' = rastro w0 @
             [Requisicao (URL_CONSULTA_ATUAL (IS_SANDBOX ct)) (currentToken st) (currentPage st),
              Renovacao idSistema, Espera 1000]))"
proof (intro conjI allI impI)
  let ?w0 = "registrar (Tentativa (0 + 1)) w"
  have "\<exists>st' w'. paginar amb idSistema fuel (estado_inicial bearerToken) ?w0 = Some (Inr st', w') \<and>
           allCabecalhos st' = concat ps \<and> currentPage st' = length ps - 1"
  proof (rule paginar_servidor [OF assms(1-5)])
    show "currentPage (estado_inicial bearerToken) < length ps"
      using assms(6) by (simp add: estado_inicial_def)
    show "allCabecalhos (estado_inicial bearerToken) =
        concat (take (currentPage (estado_inicial bearerToken)) ps)"
      by (simp add: estado_inicial_def)
    show "T - relogio ?w0 + (length ps - currentPage (estado_inicial bearerToken)) \<le> fuel"
      using assms(7) by (simp add: estado_inicial_def)
  qed
  then obtain st' w' where
    p: "paginar amb idSistema fuel (estado_inicial bearerToken) ?w0 = Some (Inr st', w')"
    and a: "allCabecalhos st' = concat ps"
    by blast
  from buscar_sucesso [OF p] a
  show "\<exists>w'. buscarCabecalhoNotaSankhya amb fuel idSistema bearerToken 0 w =
             Some (Inr (concat ps), w')"
    by auto
next
  fix st :: estado and w0 :: mundo and ct :: contrato and e :: js_error
  assume h: "buscarContratoAtivo amb w0 = (Some ct, tique w0) \<and>
        axios_post amb (Suc (relogio w0)) (URL_CONSULTA_ATUAL (IS_SANDBOX ct)) (currentToken st)
          (currentPage st) = Inl e \<and>
        (e_status e = Some 401 \<or> e_status e = Some 403)"
  from assms(2) obtain novo where
    n: "obterToken amb (relogio (tique w0) + 1) idSistema True = Inr novo" by blast
  from h have b: "buscarContratoAtivo amb w0 = (Some ct, tique w0)"
    and r: "axios_post amb (relogio (tique w0)) (URL_CONSULTA_ATUAL (IS_SANDBOX ct))
              (currentToken st) (currentPage st) = Inl e"
    and s: "e_status e = Some 401 \<or> e_status e = Some 403"
    by simp_all
  from passo_com_erro_auth [OF b r s n] n
  show "\<exists>novo w'. passo amb idSistema st w0 = (Continua (st\<lparr>currentToken := novo\<rparr>), w') \<and>
           obterToken amb (Suc (Suc (relogio w0))) idSistema True = Inr novo \<and>
           rastro w' = rastro w0 @
             [Requisicao (URL_CONSULTA_ATUAL (IS_SANDBOX ct)) (currentToken st) (currentPage st),
              Renovacao idSistema, Espera 1000]"
    by simp
qed

lemma amb_expira_simps:
  "listarContratos amb_expira = listarContratos amb_base"
  "obterToken amb_expira = obterToken amb_base"
  "axios_post amb_expira t url token pagina =
     (if t = 5 then Inl (erro_http 401)
      else if pagina < length paginas_exemplo
      then Inr (Entidades (Varias (paginas_exemplo ! pagina))
                  (JBool (Suc pagina < length paginas_exemplo)))
      else Inr SemEntidade)"
  by (simp_all add: amb_expira_def)

lemma paginar_10:
  "paginar amb idSistema 10 st w =
     paginar amb idSistema (Suc (Suc (Suc (Suc (Suc (Suc (Suc (Suc (Suc (Suc 0)))))))))) st w"
proof -
  have "(10::nat) = Suc (Suc (Suc (Suc (Suc (Suc (Suc (Suc (Suc (Suc 0)))))))))" by simp
  then show ?thesis by (rule arg_cong)
qed

lemma passo_expira:
  "passo amb_expira idSistema st w =
     (let w2 = registrar (Requisicao (URL_CONSULTA_ATUAL True) (currentToken st) (currentPage st))
                 (tique (tique w))
      in if relogio w = 4
         then (Continua (st\<lparr>currentToken := ''token-novo''\<rparr>),
               esperar 1000 (registrar (Renovacao idSistema) (tique w2)))
         else if currentPage st < length paginas_exemplo
         then (if Suc (currentPage st) < length paginas_exemplo
               then (Continua (st\<lparr>allCabecalhos := allCabecalhos st @ paginas_exemplo ! currentPage st,
                                   currentPage := Suc (currentPage st)\<rparr>), esperar 500 w2)
               else (Termina (st\<lparr>allCabecalhos := allCabecalhos st @ paginas_exemplo ! currentPage st\<rparr>),
                     w2))
         else (Termina st, w2))"
proof -
  have b: "buscarContratoAtivo amb_expira w = (Some \<lparr>ATIVO = True, IS_SANDBOX = True\<rparr>, tique w)"
    by (rule buscarContratoAtivo_base) (rule amb_expira_simps)
  show ?thesis
  proof (cases "relogio w = 4")
    case True
    have r: "axios_post amb_expira (relogio (tique w))
        (URL_CONSULTA_ATUAL (IS_SANDBOX \<lparr>ATIVO = True, IS_SANDBOX = True\<rparr>))
        (currentToken st) (currentPage st) = Inl (erro_http 401)"
      using True by (simp add: amb_expira_simps)
    have s: "e_status (erro_http 401) = Some 401 \<or> e_status (erro_http 401) = Some 403"
      by (simp add: erro_http_def)
    have n: "obterToken amb_expira (relogio (tique w) + 1) idSistema True = Inr ''token-novo''"
      by (simp add: amb_expira_simps)
    from passo_com_erro_auth [OF b r s n] True show ?thesis
      by (simp add: Let_def)
  next
    case False
    have r: "axios_post amb_expira (relogio (tique w))
        (URL_CONSULTA_ATUAL (IS_SANDBOX \<lparr>ATIVO = True, IS_SANDBOX = True\<rparr>))
        (currentToken st) (currentPage st) =
        Inr (if currentPage st < length paginas_exemplo
             then Entidades (Varias (paginas_exemplo ! currentPage st))
                    (JBool (Suc (currentPage st) < length paginas_exemplo))
             else SemEntidade)"
      using False by (simp add: amb_expira_simps)
    from passo_com_resposta [OF b r, of idSistema] False show ?thesis
      by (auto simp: Let_def entityArray_def hasMoreResult_def paginas_exemplo_def nth_Cons'
          less_Suc_eq numeral_eq_Suc)
  qed
qed

lemma busca_expira:
  "buscarCabecalhoNotaSankhya amb_expira 10 7 ''token-velho'' 0 mundo_inicial =
     Some (Inr [nota 1, nota 2, nota 3, nota 4],
       \<lparr>relogio = 11,
        rastro = [Tentativa 1,
           Requisicao (URL_CONSULTA_ATUAL True) ''token-velho'' 0, Espera 500,
           Requisicao (URL_CONSULTA_ATUAL True) ''token-velho'' 1, Espera 500,
           Requisicao (URL_CONSULTA_ATUAL True) ''token-velho'' 2, Renovacao 7, Espera 1000,
           Requisicao (URL_CONSULTA_ATUAL True) ''token-novo'' 2, Espera 500,
           Requisicao (URL_CONSULTA_ATUAL True) ''token-novo'' 3],
        confirmado = [], pendente = []\<rparr>)"
  by (simp add: buscarCabecalhoNotaSankhya.simps [of amb_expira] paginar_10 passo_expira
      estado_inicial_def mundo_inicial_def Let_def tique_def registrar_def esperar_def
      paginas_exemplo_def)

lemma rastro_expira: "map_option (rastro \<circ> snd)
     (buscarCabecalhoNotaSankhya amb_expira 10 7 ''token-velho'' 0 mundo_inicial) =
     Some [Tentativa 1,
           Requisicao (URL_CONSULTA_ATUAL True) ''token-velho'' 0, Espera 500,
           Requisicao (URL_CONSULTA_ATUAL True) ''token-velho'' 1, Espera 500,
           Requisicao (URL_CONSULTA_ATUAL True) ''token-velho'' 2, Renovacao 7, Espera 1000,
           Requisicao (URL_CONSULTA_ATUAL True) ''token-novo'' 2, Espera 500,
           Requisicao (URL_CONSULTA_ATUAL True) ''token-novo'' 3]"
  by (simp add: busca_expira)

theorem C3_paginacao_retomada_witness:
  "map_option fst (buscarCabecalhoNotaSankhya amb_expira 10 7 ''token-velho'' 0 mundo_inicial) =
     Some (Inr [nota 1, nota 2, nota 3, nota 4]) \<and>
   map_option (rastro \<circ> snd)
     (buscarCabecalhoNotaSankhya amb_expira 10 7 ''token-velho'' 0 mundo_inicial) =
     Some [Tentativa 1,
           Requisicao (URL_CONSULTA_ATUAL True) ''token-velho'' 0, Espera 500,
           Requisicao (URL_CONSULTA_ATUAL True) ''token-velho'' 1, Espera 500,
           Requisicao (URL_CONSULTA_ATUAL True) ''token-velho'' 2, Renovacao 7, Espera 1000,
           Requisicao (URL_CONSULTA_ATUAL True) ''token-novo'' 2, Espera 500,
           Requisicao (URL_CONSULTA_ATUAL True) ''token-novo'' 3]"
proof -
  have h1: "\<forall>t. \<exists>cs ct. listarContratos amb_expira t = Inr cs \<and> find ATIVO cs = Some ct"
    by (simp add: amb_expira_simps)
  have h2: "\<forall>t. \<exists>novo. obterToken amb_expira t 7 True = Inr novo"
    by (simp add: amb_expira_simps)
  have h3: "\<forall>t url tok p. p < length paginas_exemplo \<longrightarrow>
        (\<exists>entity hm. axios_post amb_expira t url tok p = Inr (Entidades entity hm) \<and>
           entityArray entity = paginas_exemplo ! p \<and>
           (hasMoreResult hm \<longleftrightarrow> Suc p < length paginas_exemplo)) \<or>
        (\<exists>e. axios_post amb_expira t url tok p = Inl e \<and>
           (e_status e = Some 401 \<or> e_status e = Some 403))"
    by (simp add: amb_expira_simps entityArray_def hasMoreResult_def erro_http_def)
  have h4: "\<forall>t url tok p e. 6 \<le> t \<longrightarrow> axios_post amb_expira t url tok p \<noteq> Inl e"
    by (simp add: amb_expira_simps)
  have h5: "\<forall>i. Suc i < length paginas_exemplo \<longrightarrow> paginas_exemplo ! i \<noteq> []"
    by (simp add: paginas_exemplo_def nth_Cons')
  have h6: "paginas_exemplo \<noteq> []" by (simp add: paginas_exemplo_def)
  have h7: "6 + length paginas_exemplo \<le> 10" by (simp add: paginas_exemplo_def)
  from C3_paginacao_retomada [OF h1 h2 h3 h4 h5 h6 h7, of "''token-velho''" mundo_inicial]
  obtain w' where
    r: "buscarCabecalhoNotaSankhya amb_expira 10 7 ''token-velho'' 0 mundo_inicial =
          Some (Inr (concat paginas_exemplo), w')"
    by blast
  have t: "map_option (rastro \<circ> snd)
     (buscarCabecalhoNotaSankhya amb_expira 10 7 ''token-velho'' 0 mundo_inicial) =
     Some [Tentativa 1,
           Requisicao (URL_CONSULTA_ATUAL True) ''token-velho'' 0, Espera 500,
           Requisicao (URL_CONSULTA_ATUAL True) ''token-velho'' 1, Espera 500,
           Requisicao (URL_CONSULTA_ATUAL True) ''token-velho'' 2, Renovacao 7, Espera 1000,
           Requisicao (URL_CONSULTA_ATUAL True) ''token-novo'' 2, Espera 500,
           Requisicao (URL_CONSULTA_ATUAL True) ''token-novo'' 3]"
    by (rule rastro_expira)
  from r t show ?thesis by (simp add: paginas_exemplo_def)
qed

lemma amb_vazia_simps:
  "listarContratos amb_vazia = listarContratos amb_base"
  "axios_post amb_vazia t url token pagina = Inr (Entidades (Varias []) (JBool True))"
  by (simp_all add: amb_vazia_def)

theorem C4_fim_da_paginacao_witness:
  "paginar amb_vazia 7 (Suc 0) (estado_inicial ''t'') mundo_inicial =
     Some (Inr (estado_inicial ''t''),
           registrar (Requisicao (URL_CONSULTA_ATUAL True) ''t'' 0) (tique (tique mundo_inicial))) \<and>
   hasMoreResult (JBool True)"
proof -
  have b: "buscarContratoAtivo amb_vazia mundo_inicial =
      (Some \<lparr>ATIVO = True, IS_SANDBOX = True\<rparr>, tique mundo_inicial)"
    by (rule buscarContratoAtivo_base) (rule amb_vazia_simps)
  have r: "axios_post amb_vazia (relogio (tique mundo_inicial))
      (URL_CONSULTA_ATUAL (IS_SANDBOX \<lparr>ATIVO = True, IS_SANDBOX = True\<rparr>))
      (currentToken (estado_inicial ''t'')) (currentPage (estado_inicial ''t'')) =
      Inr (Entidades (Varias []) (JBool True))"
    by (rule amb_vazia_simps)
  note c = C4_fim_da_paginacao [OF b r, of 7 0, unfolded Let_def]
  from c have "\<forall>hasMore. Entidades (Varias []) (JBool True) = Entidades (Varias []) hasMore \<longrightarrow>
      paginar amb_vazia 7 (Suc 0) (estado_inicial ''t'') mundo_inicial =
        Some (Inr (estado_inicial ''t''),
          registrar (Requisicao (URL_CONSULTA_ATUAL (IS_SANDBOX \<lparr>ATIVO = True, IS_SANDBOX = True\<rparr>))
            (currentToken (estado_inicial ''t'')) (currentPage (estado_inicial ''t'')))
            (tique (tique mundo_inicial)))"
    by (elim conjE)
  then have "paginar amb_vazia 7 (Suc 0) (estado_inicial ''t'') mundo_inicial =
        Some (Inr (estado_inicial ''t''),
          registrar (Requisicao (URL_CONSULTA_ATUAL (IS_SANDBOX \<lparr>ATIVO = True, IS_SANDBOX = True\<rparr>))
            (currentToken (estado_inicial ''t'')) (currentPage (estado_inicial ''t'')))
            (tique (tique mundo_inicial)))"
    by blast
  then show ?thesis
    by (simp add: hasMoreResult_def estado_inicial_def)
qed

subsection \<open>The table under the statements of the reconciliation\<close>

lemma atualizar_linha_simps [simp]:
  "col_ID_SISTEMA (atualizar_linha c t r) = col_ID_SISTEMA r"
  "col_NUNOTA (atualizar_linha c t r) = col_NUNOTA r"
  "col_SANKHYA_ATUAL (atualizar_linha c t r) = CHR ''S''"
  "chave (atualizar_linha c t r) = chave r"
  by (simp_all add: atualizar_linha_def chave_def)

lemma nova_linha_simps [simp]:
  "col_ID_SISTEMA (nova_linha idSistema c t) = idSistema"
  "col_NUNOTA (nova_linha idSistema c t) = NUNOTA c"
  "col_SANKHYA_ATUAL (nova_linha idSistema c t) = CHR ''S''"
  "chave (nova_linha idSistema c t) = (idSistema, NUNOTA c)"
  by (simp_all add: nova_linha_def chave_def)

lemma mesma_chave_chave: "mesma_chave idSistema n r \<longleftrightarrow> chave r = (idSistema, n)"
  by (auto simp: mesma_chave_def chave_def)

lemma existe_chave:
  "0 < length (filter (mesma_chave idSistema n) tab) \<longleftrightarrow> (idSistema, n) \<in> chave ` set tab"
proof -
  have "0 < length (filter (mesma_chave idSistema n) tab) \<longleftrightarrow>
      (\<exists>r\<in>set tab. mesma_chave idSistema n r)"
    by (simp add: filter_empty_conv)
  also have "\<dots> \<longleftrightarrow> (\<exists>r\<in>set tab. chave r = (idSistema, n))"
    by (simp add: mesma_chave_chave)
  also have "\<dots> \<longleftrightarrow> (idSistema, n) \<in> chave ` set tab"
    by force
  finally show ?thesis .
qed

lemma nunotas_ativas_iff:
  "n \<in> nunotas_ativas i tab \<longleftrightarrow> (\<exists>r\<in>set tab. ativa_de i r \<and> col_NUNOTA r = n)"
  by (force simp: nunotas_ativas_def)

text \<open>The table after the statements for one accepted record.\<close>

lemma processar_rejeitado:
  "\<not> aceito amb idSistema c \<Longrightarrow>
     processar_cabecalho amb idSistema ((i, u), w) c =
       ((i, u), registrar (ErroRegistro (NUNOTA c)) w)"
  by (auto simp: processar_cabecalho_def aceito_def)

lemma processar_update:
  "aceito amb idSistema c \<Longrightarrow> (idSistema, NUNOTA c) \<in> chave ` set (pendente w) \<Longrightarrow>
     processar_cabecalho amb idSistema ((i, u), w) c =
       ((i, Suc u),
        w\<lparr>pendente := map (\<lambda>r. if mesma_chave idSistema (NUNOTA c) r
                                then atualizar_linha c (relogio w) r else r) (pendente w)\<rparr>)"
  using existe_chave [of idSistema "NUNOTA c" "pendente w"]
  by (simp add: processar_cabecalho_def aceito_def Let_def)

lemma processar_insert:
  "aceito amb idSistema c \<Longrightarrow> (idSistema, NUNOTA c) \<notin> chave ` set (pendente w) \<Longrightarrow>
     processar_cabecalho amb idSistema ((i, u), w) c =
       ((Suc i, u), w\<lparr>pendente := pendente w @ [nova_linha idSistema c (relogio w)]\<rparr>)"
  using existe_chave [of idSistema "NUNOTA c" "pendente w"]
  by (simp add: processar_cabecalho_def aceito_def Let_def)

lemma ativas_map:
  "x \<in> nunotas_ativas i (map f tab) \<longleftrightarrow>
     (\<exists>r\<in>set tab. ativa_de i (f r) \<and> col_NUNOTA (f r) = x)"
  by (simp add: nunotas_ativas_iff)

lemma chaves_map:
  "(\<And>r. chave (f r) = chave r) \<Longrightarrow> chave ` set (map f tab) = chave ` set tab"
  by (simp add: image_image)

lemma ativas_map_update:
  assumes "(idSistema, n) \<in> chave ` set tab"
  shows "nunotas_ativas i' (map (\<lambda>r. if mesma_chave idSistema n r
                                then atualizar_linha c t r else r) tab) =
     (if i' = idSistema then insert n (nunotas_ativas i' tab) else nunotas_ativas i' tab)"
proof -
  let ?f = "\<lambda>r. if mesma_chave idSistema n r then atualizar_linha c t r else r"
  have a: "\<And>r. ativa_de i' (?f r) \<longleftrightarrow>
      (if mesma_chave idSistema n r then i' = idSistema else ativa_de i' r)"
    by (auto simp: ativa_de_def mesma_chave_def)
  have k: "\<And>r. col_NUNOTA (?f r) = col_NUNOTA r" by simp
  have m: "\<And>x. x \<in> nunotas_ativas i' (map ?f tab) \<longleftrightarrow>
      (\<exists>r\<in>set tab. (if mesma_chave idSistema n r then i' = idSistema else ativa_de i' r) \<and>
         col_NUNOTA r = x)"
    unfolding ativas_map by (simp only: a k)
  from assms obtain r0 where r0: "r0 \<in> set tab" "mesma_chave idSistema n r0"
    by (auto simp: mesma_chave_chave)
  show ?thesis
  proof (cases "i' = idSistema")
    case True
    have "\<And>x. x \<in> nunotas_ativas i' (map ?f tab) \<longleftrightarrow> x \<in> insert n (nunotas_ativas i' tab)"
    proof
      fix x
      assume "x \<in> nunotas_ativas i' (map ?f tab)"
      then obtain r where r: "r \<in> set tab"
        "if mesma_chave idSistema n r then i' = idSistema else ativa_de i' r" "col_NUNOTA r = x"
        using m by blast
      show "x \<in> insert n (nunotas_ativas i' tab)"
      proof (cases "mesma_chave idSistema n r")
        case True
        with r(3) show ?thesis by (simp add: mesma_chave_def)
      next
        case False
        with r show ?thesis by (auto simp: nunotas_ativas_iff)
      qed
    next
      fix x
      assume "x \<in> insert n (nunotas_ativas i' tab)"
      then consider "x = n" | "x \<in> nunotas_ativas i' tab" by blast
      then show "x \<in> nunotas_ativas i' (map ?f tab)"
      proof cases
        case 1
        with r0 True show ?thesis
          unfolding m by (auto simp: mesma_chave_def)
      next
        case 2
        then obtain r where r: "r \<in> set tab" "ativa_de i' r" "col_NUNOTA r = x"
          by (auto simp: nunotas_ativas_iff)
        with True show ?thesis
          unfolding m by (auto simp: mesma_chave_def ativa_de_def)
      qed
    qed
    with True show ?thesis by auto
  next
    case False
    have e: "\<And>r. (if mesma_chave idSistema n r then i' = idSistema else ativa_de i' r) \<longleftrightarrow>
        ativa_de i' r"
      using False by (auto simp: mesma_chave_def ativa_de_def)
    have "\<And>x. x \<in> nunotas_ativas i' (map ?f tab) \<longleftrightarrow> x \<in> nunotas_ativas i' tab"
      by (subst m) (simp only: e nunotas_ativas_iff)
    with False show ?thesis by auto
  qed
qed

lemma ativas_append:
  "nunotas_ativas i' (tab @ [nova_linha idSistema c t]) =
     (if i' = idSistema then insert (NUNOTA c) (nunotas_ativas i' tab) else nunotas_ativas i' tab)"
  by (auto simp: nunotas_ativas_iff ativa_de_def)

lemma chaves_map_update:
  "chave ` set (map (\<lambda>r. if mesma_chave idSistema n r then atualizar_linha c t r else r) tab) =
     chave ` set tab"
  by (rule chaves_map) simp

lemma processar_casos:
  assumes "processar_cabecalho amb idSistema ((i, u), w) c = ((i', u'), w')"
  obtains (rejeitado) "\<not> aceito amb idSistema c" "i' = i" "u' = u"
      "w' = registrar (ErroRegistro (NUNOTA c)) w"
  | (atualizado) "aceito amb idSistema c" "(idSistema, NUNOTA c) \<in> chave ` set (pendente w)"
      "i' = i" "u' = Suc u"
      "w' = w\<lparr>pendente := map (\<lambda>r. if mesma_chave idSistema (NUNOTA c) r
                                  then atualizar_linha c (relogio w) r else r) (pendente w)\<rparr>"
  | (inserido) "aceito amb idSistema c" "(idSistema, NUNOTA c) \<notin> chave ` set (pendente w)"
      "i' = Suc i" "u' = u"
      "w' = w\<lparr>pendente := pendente w @ [nova_linha idSistema c (relogio w)]\<rparr>"
proof (cases "aceito amb idSistema c")
  case False
  from assms processar_rejeitado [OF False, of i u w]
  have "i' = i" "u' = u" "w' = registrar (ErroRegistro (NUNOTA c)) w" by simp_all
  with False show ?thesis by (rule rejeitado)
next
  case a: True
  show ?thesis
  proof (cases "(idSistema, NUNOTA c) \<in> chave ` set (pendente w)")
    case True
    from assms processar_update [OF a True, of i u]
    have "i' = i" "u' = Suc u"
      "w' = w\<lparr>pendente := map (\<lambda>r. if mesma_chave idSistema (NUNOTA c) r
                                  then atualizar_linha c (relogio w) r else r) (pendente w)\<rparr>"
      by simp_all
    with a True show ?thesis by (rule atualizado)
  next
    case False
    from assms processar_insert [OF a False, of i u]
    have "i' = Suc i" "u' = u"
      "w' = w\<lparr>pendente := pendente w @ [nova_linha idSistema c (relogio w)]\<rparr>"
      by simp_all
    with a False show ?thesis by (rule inserido)
  qed
qed

text \<open>What one record does to the counters, the trace and the pending table.\<close>

lemma processar_efeito:
  assumes "processar_cabecalho amb idSistema ((i, u), w) c = ((i', u'), w')"
  shows "relogio w' = relogio w" and "confirmado w' = confirmado w"
    and "rastro w' = rastro w @ (if aceito amb idSistema c then [] else [ErroRegistro (NUNOTA c)])"
    and "i' + u' = i + u + (if aceito amb idSistema c then 1 else 0)"
    and "nunotas_ativas j (pendente w') =
           (if aceito amb idSistema c \<and> j = idSistema
            then insert (NUNOTA c) (nunotas_ativas j (pendente w))
            else nunotas_ativas j (pendente w))"
    and "chave ` set (pendente w') =
           (if aceito amb idSistema c then insert (idSistema, NUNOTA c) (chave ` set (pendente w))
            else chave ` set (pendente w))"
proof -
  show "relogio w' = relogio w"
    using assms by (cases rule: processar_casos) (simp_all add: registrar_def)
  show "confirmado w' = confirmado w"
    using assms by (cases rule: processar_casos) (simp_all add: registrar_def)
  show "rastro w' = rastro w @ (if aceito amb idSistema c then [] else [ErroRegistro (NUNOTA c)])"
    using assms by (cases rule: processar_casos) (simp_all add: registrar_def)
  show "i' + u' = i + u + (if aceito amb idSistema c then 1 else 0)"
    using assms by (cases rule: processar_casos) simp_all
  show "nunotas_ativas j (pendente w') =
           (if aceito amb idSistema c \<and> j = idSistema
            then insert (NUNOTA c) (nunotas_ativas j (pendente w))
            else nunotas_ativas j (pendente w))"
    using assms
  proof (cases rule: processar_casos)
    case rejeitado
    then show ?thesis by (simp add: registrar_def)
  next
    case atualizado
    then show ?thesis
      using ativas_map_update [OF atualizado(2), of j c "relogio w"] by simp
  next
    case inserido
    then show ?thesis by (simp add: ativas_append)
  qed
  show "chave ` set (pendente w') =
           (if aceito amb idSistema c then insert (idSistema, NUNOTA c) (chave ` set (pendente w))
            else chave ` set (pendente w))"
    using assms
  proof (cases rule: processar_casos)
    case rejeitado
    then show ?thesis by (simp add: registrar_def)
  next
    case atualizado
    have "pendente w' = map (\<lambda>r. if mesma_chave idSistema (NUNOTA c) r
        then atualizar_linha c (relogio w) r else r) (pendente w)"
      by (simp add: atualizado(5))
    then have "chave ` set (pendente w') = chave ` set (pendente w)"
      by (simp only: chaves_map_update)
    with atualizado(1,2) show ?thesis by (simp add: insert_absorb)
  next
    case inserido
    then show ?thesis by simp
  qed
qed

lemma processar_presente:
  assumes "processar_cabecalho amb idSistema ((i, u), w) c = ((i', u'), w')"
    and "aceito amb idSistema c" "(idSistema, NUNOTA c) \<in> chave ` set (pendente w)"
  shows "i' = i \<and> u' = Suc u"
  using assms processar_update [OF assms(2,3), of i u] by simp

lemma processar_chave_unica:
  assumes "processar_cabecalho amb idSistema ((i, u), w) c = ((i', u'), w')"
    and "chave_unica (pendente w)"
  shows "chave_unica (pendente w')"
  using assms(1)
proof (cases rule: processar_casos)
  case rejeitado
  with assms(2) show ?thesis by (simp add: registrar_def)
next
  case atualizado
  have "map chave (pendente w') = map chave (pendente w)"
    by (simp add: atualizado(5) comp_def)
  with assms(2) show ?thesis by (simp add: chave_unica_def)
next
  case inserido
  with assms(2) show ?thesis by (simp add: chave_unica_def)
qed

lemma pertence_map: "r \<in> set xs \<Longrightarrow> f r = r \<Longrightarrow> r \<in> set (map f xs)"
  by (induction xs) auto

lemma processar_outras_linhas:
  assumes "processar_cabecalho amb idSistema ((i, u), w) c = ((i', u'), w')"
    and "r \<in> set (pendente w)" "chave r \<noteq> (idSistema, NUNOTA c)"
  shows "r \<in> set (pendente w')"
  using assms(1)
proof (cases rule: processar_casos)
  case rejeitado
  with assms(2) show ?thesis by (simp add: registrar_def)
next
  case atualizado
  have nm: "\<not> mesma_chave idSistema (NUNOTA c) r"
    using assms(3) by (simp add: mesma_chave_chave)
  have p: "pendente w' = map (\<lambda>r. if mesma_chave idSistema (NUNOTA c) r
      then atualizar_linha c (relogio w) r else r) (pendente w)"
    by (simp add: atualizado(5))
  show ?thesis
    unfolding p using assms(2) by (rule pertence_map) (simp add: nm)
next
  case inserido
  with assms(2) show ?thesis by simp
qed

lemma lote_efeito:
  "foldl (processar_cabecalho amb idSistema) ((i, u), w) cs = ((i', u'), w') \<Longrightarrow>
     relogio w' = relogio w \<and> confirmado w' = confirmado w \<and>
     rastro w' = rastro w @
       map (\<lambda>c. ErroRegistro (NUNOTA c)) (filter (\<lambda>c. \<not> aceito amb idSistema c) cs) \<and>
     i' + u' = i + u + length (filter (aceito amb idSistema) cs) \<and>
     (\<forall>j. nunotas_ativas j (pendente w') =
        (if j = idSistema
         then nunotas_ativas j (pendente w) \<union> NUNOTA ` {c \<in> set cs. aceito amb idSistema c}
         else nunotas_ativas j (pendente w))) \<and>
     chave ` set (pendente w') =
       chave ` set (pendente w) \<union> (\<lambda>c. (idSistema, NUNOTA c)) ` {c \<in> set cs. aceito amb idSistema c}"
proof (induction cs arbitrary: i u w)
  case Nil
  then show ?case by simp
next
  case (Cons c cs)
  obtain i1 u1 w1 where
    p: "processar_cabecalho amb idSistema ((i, u), w) c = ((i1, u1), w1)"
    by (metis surj_pair)
  with Cons.prems have
    f: "foldl (processar_cabecalho amb idSistema) ((i1, u1), w1) cs = ((i', u'), w')" by simp
  note e = processar_efeito [OF p]
  note h = Cons.IH [OF f]
  have 1: "relogio w' = relogio w" using h e(1) by simp
  have 2: "confirmado w' = confirmado w" using h e(2) by simp
  have 3: "rastro w' = rastro w @
       map (\<lambda>c. ErroRegistro (NUNOTA c)) (filter (\<lambda>c. \<not> aceito amb idSistema c) (c # cs))"
    using h e(3) by simp
  have 4: "i' + u' = i + u + length (filter (aceito amb idSistema) (c # cs))"
    using h e(4) by simp
  have 5: "\<forall>j. nunotas_ativas j (pendente w') =
        (if j = idSistema
         then nunotas_ativas j (pendente w) \<union>
                NUNOTA ` {x \<in> set (c # cs). aceito amb idSistema x}
         else nunotas_ativas j (pendente w))"
  proof
    fix j
    from h have "nunotas_ativas j (pendente w') =
        (if j = idSistema
         then nunotas_ativas j (pendente w1) \<union> NUNOTA ` {x \<in> set cs. aceito amb idSistema x}
         else nunotas_ativas j (pendente w1))" by blast
    then show "nunotas_ativas j (pendente w') =
        (if j = idSistema
         then nunotas_ativas j (pendente w) \<union>
                NUNOTA ` {x \<in> set (c # cs). aceito amb idSistema x}
         else nunotas_ativas j (pendente w))"
      unfolding e(5) [of j] by auto
  qed
  have 6: "chave ` set (pendente w') =
       chave ` set (pendente w) \<union>
       (\<lambda>c. (idSistema, NUNOTA c)) ` {x \<in> set (c # cs). aceito amb idSistema x}"
  proof -
    from h have "chave ` set (pendente w') =
       chave ` set (pendente w1) \<union>
       (\<lambda>c. (idSistema, NUNOTA c)) ` {x \<in> set cs. aceito amb idSistema x}" by blast
    then show ?thesis unfolding e(6) by auto
  qed
  from 1 2 3 4 5 6 show ?case by blast
qed

lemma lote_presentes:
  "foldl (processar_cabecalho amb idSistema) ((i, u), w) cs = ((i', u'), w') \<Longrightarrow>
   \<forall>c\<in>set cs. aceito amb idSistema c \<longrightarrow> (idSistema, NUNOTA c) \<in> chave ` set (pendente w) \<Longrightarrow>
     i' = i \<and> u' = u + length (filter (aceito amb idSistema) cs)"
proof (induction cs arbitrary: i u w)
  case Nil
  then show ?case by simp
next
  case (Cons c cs)
  obtain i1 u1 w1 where
    p: "processar_cabecalho amb idSistema ((i, u), w) c = ((i1, u1), w1)"
    by (metis surj_pair)
  with Cons.prems(1) have
    f: "foldl (processar_cabecalho amb idSistema) ((i1, u1), w1) cs = ((i', u'), w')" by simp
  have c1: "i1 = i \<and> u1 = u + (if aceito amb idSistema c then 1 else 0)"
  proof (cases "aceito amb idSistema c")
    case True
    with Cons.prems(2) have "(idSistema, NUNOTA c) \<in> chave ` set (pendente w)" by simp
    from processar_presente [OF p True this] True show ?thesis by simp
  next
    case False
    from p processar_rejeitado [OF False, of i u w] False show ?thesis by simp
  qed
  have "chave ` set (pendente w) \<subseteq> chave ` set (pendente w1)"
    unfolding processar_efeito(6) [OF p] by auto
  with Cons.prems(2) have
    "\<forall>x\<in>set cs. aceito amb idSistema x \<longrightarrow> (idSistema, NUNOTA x) \<in> chave ` set (pendente w1)"
    by auto
  from Cons.IH [OF f this] c1 show ?case by simp
qed

lemma lote_chave_unica:
  "foldl (processar_cabecalho amb idSistema) ((i, u), w) cs = ((i', u'), w') \<Longrightarrow>
   chave_unica (pendente w) \<Longrightarrow> chave_unica (pendente w')"
proof (induction cs arbitrary: i u w)
  case Nil
  then show ?case by simp
next
  case (Cons c cs)
  obtain i1 u1 w1 where
    p: "processar_cabecalho amb idSistema ((i, u), w) c = ((i1, u1), w1)"
    by (metis surj_pair)
  with Cons.prems(1) have
    f: "foldl (processar_cabecalho amb idSistema) ((i1, u1), w1) cs = ((i', u'), w')" by simp
  from processar_chave_unica [OF p Cons.prems(2)] Cons.IH [OF f] show ?case by simp
qed

lemma lote_outras_linhas:
  "foldl (processar_cabecalho amb idSistema) ((i, u), w) cs = ((i', u'), w') \<Longrightarrow>
   r \<in> set (pendente w) \<Longrightarrow> chave r \<notin> (\<lambda>c. (idSistema, NUNOTA c)) ` set cs \<Longrightarrow>
   r \<in> set (pendente w')"
proof (induction cs arbitrary: i u w)
  case Nil
  then show ?case by simp
next
  case (Cons c cs)
  obtain i1 u1 w1 where
    p: "processar_cabecalho amb idSistema ((i, u), w) c = ((i1, u1), w1)"
    by (metis surj_pair)
  with Cons.prems(1) have
    f: "foldl (processar_cabecalho amb idSistema) ((i1, u1), w1) cs = ((i', u'), w')" by simp
  from Cons.prems(3) have n: "chave r \<noteq> (idSistema, NUNOTA c)"
    "chave r \<notin> (\<lambda>c. (idSistema, NUNOTA c)) ` set cs" by auto
  from processar_outras_linhas [OF p Cons.prems(2) n(1)] have "r \<in> set (pendente w1)" .
  from Cons.IH [OF f this n(2)] show ?case .
qed

lemma concat_lotes: "concat (lotes xs) = xs"
proof (induction xs rule: lotes.induct)
  case (1 xs)
  show ?case
  proof (cases "xs = []")
    case True
    then show ?thesis by (simp add: lotes.simps)
  next
    case False
    with 1 have "concat (lotes (drop BATCH_SIZE xs)) = drop BATCH_SIZE xs" by simp
    with False show ?thesis by (subst lotes.simps) simp
  qed
qed

lemma lotes_vazio: "lotes xs = [] \<longleftrightarrow> xs = []"
  by (subst lotes.simps) simp

lemma fazer_commit_casos:
  obtains (falhou) e where "connection_commit amb (relogio w) = Some e"
      "fazer_commit amb w = (Some e, tique w)"
  | (ok) "connection_commit amb (relogio w) = None"
      "fazer_commit amb w = (None, tique (w\<lparr>confirmado := pendente w\<rparr>))"
  by (cases "connection_commit amb (relogio w)") (simp_all add: fazer_commit_def)

lemma upsert_lotes_passo:
  assumes "upsert_lotes amb idSistema (b # bs) (i, u) w = (Inr (i', u'), w')"
  obtains i1 u1 w1 where
    "foldl (processar_cabecalho amb idSistema) ((i, u), w) b = ((i1, u1), w1)"
    "connection_commit amb (relogio w1) = None"
    "upsert_lotes amb idSistema bs (i1, u1) (tique (w1\<lparr>confirmado := pendente w1\<rparr>)) =
       (Inr (i', u'), w')"
proof -
  obtain i1 u1 w1 where
    f: "foldl (processar_cabecalho amb idSistema) ((i, u), w) b = ((i1, u1), w1)"
    by (metis surj_pair)
  show ?thesis
  proof (cases rule: fazer_commit_casos [of amb w1])
    case (falhou e)
    with assms f show ?thesis by simp
  next
    case ok
    with assms f have
      "upsert_lotes amb idSistema bs (i1, u1) (tique (w1\<lparr>confirmado := pendente w1\<rparr>)) =
         (Inr (i', u'), w')" by simp
    with f ok(1) show ?thesis by (rule that)
  qed
qed

lemma mundo_commit_simps [simp]:
  "pendente (tique (w\<lparr>confirmado := pendente w\<rparr>)) = pendente w"
  "confirmado (tique (w\<lparr>confirmado := pendente w\<rparr>)) = pendente w"
  "rastro (tique (w\<lparr>confirmado := pendente w\<rparr>)) = rastro w"
  "relogio (tique (w\<lparr>confirmado := pendente w\<rparr>)) = Suc (relogio w)"
  by (simp_all add: tique_def)

lemma upsert_lotes_efeito:
  "upsert_lotes amb idSistema bs (i, u) w = (Inr (i', u'), w') \<Longrightarrow>
     relogio w' = relogio w + length bs \<and>
     rastro w' = rastro w @
       map (\<lambda>c. ErroRegistro (NUNOTA c)) (filter (\<lambda>c. \<not> aceito amb idSistema c) (concat bs)) \<and>
     i' + u' = i + u + length (filter (aceito amb idSistema) (concat bs)) \<and>
     (\<forall>j. nunotas_ativas j (pendente w') =
        (if j = idSistema
         then nunotas_ativas j (pendente w) \<union>
                NUNOTA ` {c \<in> set (concat bs). aceito amb idSistema c}
         else nunotas_ativas j (pendente w))) \<and>
     chave ` set (pendente w') =
       chave ` set (pendente w) \<union>
       (\<lambda>c. (idSistema, NUNOTA c)) ` {c \<in> set (concat bs). aceito amb idSistema c} \<and>
     (if bs = [] then w' = w else confirmado w' = pendente w')"
proof (induction bs arbitrary: i u w)
  case Nil
  then show ?case by simp
next
  case (Cons b bs)
  from Cons.prems obtain i1 u1 w1 where
    f: "foldl (processar_cabecalho amb idSistema) ((i, u), w) b = ((i1, u1), w1)"
    and r: "upsert_lotes amb idSistema bs (i1, u1) (tique (w1\<lparr>confirmado := pendente w1\<rparr>)) =
       (Inr (i', u'), w')"
    by (rule upsert_lotes_passo)
  note e = lote_efeito [OF f]
  note h = Cons.IH [OF r]
  have 1: "relogio w' = relogio w + length (b # bs)" using h e by simp
  have 2: "rastro w' = rastro w @
       map (\<lambda>c. ErroRegistro (NUNOTA c))
         (filter (\<lambda>c. \<not> aceito amb idSistema c) (concat (b # bs)))"
    using h e by simp
  have 3: "i' + u' = i + u + length (filter (aceito amb idSistema) (concat (b # bs)))"
    using h e by simp
  have 4: "\<forall>j. nunotas_ativas j (pendente w') =
        (if j = idSistema
         then nunotas_ativas j (pendente w) \<union>
                NUNOTA ` {c \<in> set (concat (b # bs)). aceito amb idSistema c}
         else nunotas_ativas j (pendente w))"
  proof
    fix j
    from h have "nunotas_ativas j (pendente w') =
        (if j = idSistema
         then nunotas_ativas j (pendente w1) \<union>
                NUNOTA ` {c \<in> set (concat bs). aceito amb idSistema c}
         else nunotas_ativas j (pendente w1))" by simp
    moreover from e have "nunotas_ativas j (pendente w1) =
        (if j = idSistema
         then nunotas_ativas j (pendente w) \<union> NUNOTA ` {c \<in> set b. aceito amb idSistema c}
         else nunotas_ativas j (pendente w))" by blast
    ultimately show "nunotas_ativas j (pendente w') =
        (if j = idSistema
         then nunotas_ativas j (pendente w) \<union>
                NUNOTA ` {c \<in> set (concat (b # bs)). aceito amb idSistema c}
         else nunotas_ativas j (pendente w))"
      by auto
  qed
  have 5: "chave ` set (pendente w') =
       chave ` set (pendente w) \<union>
       (\<lambda>c. (idSistema, NUNOTA c)) ` {c \<in> set (concat (b # bs)). aceito amb idSistema c}"
  proof -
    from h have "chave ` set (pendente w') =
       chave ` set (pendente w1) \<union>
       (\<lambda>c. (idSistema, NUNOTA c)) ` {c \<in> set (concat bs). aceito amb idSistema c}" by simp
    moreover from e have "chave ` set (pendente w1) =
       chave ` set (pendente w) \<union>
       (\<lambda>c. (idSistema, NUNOTA c)) ` {c \<in> set b. aceito amb idSistema c}" by blast
    ultimately show ?thesis by auto
  qed
  have 6: "confirmado w' = pendente w'"
  proof (cases "bs = []")
    case True
    with h show ?thesis by simp
  next
    case False
    with h show ?thesis by simp
  qed
  from 1 2 3 4 5 6 show ?case by simp
qed

lemma upsert_lotes_presentes:
  "upsert_lotes amb idSistema bs (i, u) w = (Inr (i', u'), w') \<Longrightarrow>
   \<forall>c\<in>set (concat bs). aceito amb idSistema c \<longrightarrow>
      (idSistema, NUNOTA c) \<in> chave ` set (pendente w) \<Longrightarrow>
     i' = i \<and> u' = u + length (filter (aceito amb idSistema) (concat bs))"
proof (induction bs arbitrary: i u w)
  case Nil
  then show ?case by simp
next
  case (Cons b bs)
  from Cons.prems(1) obtain i1 u1 w1 where
    f: "foldl (processar_cabecalho amb idSistema) ((i, u), w) b = ((i1, u1), w1)"
    and r: "upsert_lotes amb idSistema bs (i1, u1) (tique (w1\<lparr>confirmado := pendente w1\<rparr>)) =
       (Inr (i', u'), w')"
    by (rule upsert_lotes_passo)
  from Cons.prems(2) have
    "\<forall>c\<in>set b. aceito amb idSistema c \<longrightarrow> (idSistema, NUNOTA c) \<in> chave ` set (pendente w)"
    by simp
  from lote_presentes [OF f this] have c1: "i1 = i"
    "u1 = u + length (filter (aceito amb idSistema) b)" by simp_all
  from lote_efeito [OF f] have "chave ` set (pendente w) \<subseteq> chave ` set (pendente w1)"
    by blast
  with Cons.prems(2) have "\<forall>c\<in>set (concat bs). aceito amb idSistema c \<longrightarrow>
      (idSistema, NUNOTA c) \<in> chave ` set (pendente (tique (w1\<lparr>confirmado := pendente w1\<rparr>)))"
    by auto
  from Cons.IH [OF r this] c1 show ?case by simp
qed

lemma upsert_lotes_chave_unica:
  "upsert_lotes amb idSistema bs (i, u) w = (Inr (i', u'), w') \<Longrightarrow>
   chave_unica (pendente w) \<Longrightarrow> chave_unica (pendente w')"
proof (induction bs arbitrary: i u w)
  case Nil
  then show ?case by simp
next
  case (Cons b bs)
  from Cons.prems(1) obtain i1 u1 w1 where
    f: "foldl (processar_cabecalho amb idSistema) ((i, u), w) b = ((i1, u1), w1)"
    and r: "upsert_lotes amb idSistema bs (i1, u1) (tique (w1\<lparr>confirmado := pendente w1\<rparr>)) =
       (Inr (i', u'), w')"
    by (rule upsert_lotes_passo)
  from lote_chave_unica [OF f Cons.prems(2)]
  have "chave_unica (pendente (tique (w1\<lparr>confirmado := pendente w1\<rparr>)))" by simp
  from Cons.IH [OF r this] show ?case .
qed

lemma upsert_lotes_outras_linhas:
  "upsert_lotes amb idSistema bs (i, u) w = (Inr (i', u'), w') \<Longrightarrow>
   r \<in> set (pendente w) \<Longrightarrow> chave r \<notin> (\<lambda>c. (idSistema, NUNOTA c)) ` set (concat bs) \<Longrightarrow>
   r \<in> set (pendente w')"
proof (induction bs arbitrary: i u w)
  case Nil
  then show ?case by simp
next
  case (Cons b bs)
  from Cons.prems(1) obtain i1 u1 w1 where
    f: "foldl (processar_cabecalho amb idSistema) ((i, u), w) b = ((i1, u1), w1)"
    and rr: "upsert_lotes amb idSistema bs (i1, u1) (tique (w1\<lparr>confirmado := pendente w1\<rparr>)) =
       (Inr (i', u'), w')"
    by (rule upsert_lotes_passo)
  from Cons.prems(3) have n: "chave r \<notin> (\<lambda>c. (idSistema, NUNOTA c)) ` set b"
    "chave r \<notin> (\<lambda>c. (idSistema, NUNOTA c)) ` set (concat bs)" by auto
  from lote_outras_linhas [OF f Cons.prems(2) n(1)]
  have "r \<in> set (pendente (tique (w1\<lparr>confirmado := pendente w1\<rparr>)))" by simp
  from Cons.IH [OF rr this n(2)] show ?case .
qed

lemma upsert_lotes_retorna:
  "\<forall>t. connection_commit amb t = None \<Longrightarrow>
     \<exists>i' u' w'. upsert_lotes amb idSistema bs (i, u) w = (Inr (i', u'), w')"
proof (induction bs arbitrary: i u w)
  case Nil
  then show ?case by simp
next
  case (Cons b bs)
  obtain i1 u1 w1 where
    f: "foldl (processar_cabecalho amb idSistema) ((i, u), w) b = ((i1, u1), w1)"
    by (metis surj_pair)
  from Cons.prems have "fazer_commit amb w1 = (None, tique (w1\<lparr>confirmado := pendente w1\<rparr>))"
    by (simp add: fazer_commit_def)
  with f Cons.IH [OF Cons.prems, of i1 u1 "tique (w1\<lparr>confirmado := pendente w1\<rparr>)"]
  show ?case by simp
qed

subsection \<open>The stages of a synchronisation\<close>

lemma renovarToken_mundo:
  "renovarToken amb idSistema w = (r, w1) \<Longrightarrow>
     w1 = registrar (Renovacao idSistema) (tique w) \<and> r = obterToken amb (relogio w) idSistema True"
  by (auto simp: renovarToken_def)

lemma abrir_conexao_casos:
  obtains (falhou) e where "getOracleConnection amb (relogio w) = Some e"
      "abrir_conexao amb w = (Some e, tique w)"
  | (ok) "getOracleConnection amb (relogio w) = None"
      "abrir_conexao amb w = (None, tique (w\<lparr>pendente := confirmado w\<rparr>))"
  by (cases "getOracleConnection amb (relogio w)") (simp_all add: abrir_conexao_def)

lemma marcar_casos:
  obtains (falhou) e where "falha_marcar amb (relogio w) = Some e"
      "marcarTodosComoNaoAtuais amb idSistema w = (Inl e, tique w)"
  | (ok) "falha_marcar amb (relogio w) = None"
      "marcarTodosComoNaoAtuais amb idSistema w =
         (Inr (total_ativas idSistema (pendente w)),
          tique (w\<lparr>pendente :=
            map (\<lambda>r. if ativa_de idSistema r
                      then r\<lparr>col_SANKHYA_ATUAL := CHR ''N'', col_DT_ULT_CARGA := relogio w\<rparr>
                      else r) (pendente w)\<rparr>))"
  by (cases "falha_marcar amb (relogio w)")
    (simp_all add: marcarTodosComoNaoAtuais_def total_ativas_def Let_def)

text \<open>The stages of a \<^verbatim>\<open>try\<close> block that ends with a result.\<close>

lemma corpo_sucesso:
  assumes "corpo_sincronizacao amb fuel idSistema empresaNome inicio w = Some (Inr res, con, w')"
  obtains tok w1 cabs w2 w3 del w4 i u w5 w6 where
    "renovarToken amb idSistema w = (Inr tok, w1)"
    "buscarCabecalhoNotaSankhya amb fuel idSistema tok 0 w1 = Some (Inr cabs, w2)"
    "abrir_conexao amb w2 = (None, w3)"
    "marcarTodosComoNaoAtuais amb idSistema w3 = (Inr del, w4)"
    "upsertCabecalhoNota amb idSistema cabs w4 = (Inr (i, u), w5)"
    "fazer_commit amb w5 = (None, w6)"
    "res = \<lparr>r_success = True, r_idSistema = idSistema, r_empresa = empresaNome,
            r_totalRegistros = length cabs, r_registrosInseridos = i,
            r_registrosAtualizados = u, r_registrosDeletados = del,
            r_dataInicio = inicio, r_dataFim = relogio w6,
            r_duracao = relogio w6 - inicio, r_erro = None\<rparr>"
    "con = True" "w' = salvar_log amb w6"
proof -
  obtain rt w1 where a: "renovarToken amb idSistema w = (rt, w1)"
    by (cases "renovarToken amb idSistema w")
  with assms obtain tok where t: "rt = Inr tok"
    by (cases rt) (simp_all add: corpo_sincronizacao_def)
  with assms a obtain rb where
    b: "buscarCabecalhoNotaSankhya amb fuel idSistema tok 0 w1 = Some rb"
    by (cases "buscarCabecalhoNotaSankhya amb fuel idSistema tok 0 w1")
      (simp_all add: corpo_sincronizacao_def)
  obtain rc w2 where rb: "rb = (rc, w2)" by (cases rb)
  with assms a t b obtain cabs where c: "rc = Inr cabs"
    by (cases rc) (simp_all add: corpo_sincronizacao_def)
  obtain ro w3 where o: "abrir_conexao amb w2 = (ro, w3)"
    by (cases "abrir_conexao amb w2")
  with assms a t b rb c have o2: "ro = None"
    by (cases ro) (simp_all add: corpo_sincronizacao_def)
  obtain rm w4 where m: "marcarTodosComoNaoAtuais amb idSistema w3 = (rm, w4)"
    by (cases "marcarTodosComoNaoAtuais amb idSistema w3")
  with assms a t b rb c o o2 obtain del where m2: "rm = Inr del"
    by (cases rm) (simp_all add: corpo_sincronizacao_def)
  obtain ru w5 where u: "upsertCabecalhoNota amb idSistema cabs w4 = (ru, w5)"
    by (cases "upsertCabecalhoNota amb idSistema cabs w4")
  with assms a t b rb c o o2 m m2 obtain iu where u2: "ru = Inr iu"
    by (cases ru) (simp_all add: corpo_sincronizacao_def)
  obtain i u' where iu: "iu = (i, u')" by (cases iu)
  obtain rf w6 where f: "fazer_commit amb w5 = (rf, w6)"
    by (cases "fazer_commit amb w5")
  with assms a t b rb c o o2 m m2 u u2 iu have f2: "rf = None"
    by (cases rf) (simp_all add: corpo_sincronizacao_def)
  from assms a t b rb c o o2 m m2 u u2 iu f f2 have
    "res = \<lparr>r_success = True, r_idSistema = idSistema, r_empresa = empresaNome,
            r_totalRegistros = length cabs, r_registrosInseridos = i,
            r_registrosAtualizados = u', r_registrosDeletados = del,
            r_dataInicio = inicio, r_dataFim = relogio w6,
            r_duracao = relogio w6 - inicio, r_erro = None\<rparr>"
    "con = True" "w' = salvar_log amb w6"
    by (simp_all add: corpo_sincronizacao_def)
  with a t b rb c o o2 m m2 u u2 iu f f2 show ?thesis
    using that by simp
qed

lemma corpo_nao_retorna:
  "corpo_sincronizacao amb fuel idSistema empresaNome inicio w = None \<longleftrightarrow>
     (\<exists>tok w1. renovarToken amb idSistema w = (Inr tok, w1) \<and>
        buscarCabecalhoNotaSankhya amb fuel idSistema tok 0 w1 = None)"
  unfolding corpo_sincronizacao_def
  by (auto split: prod.splits sum.splits option.splits)

lemma corpo_falha_resultado:
  "corpo_sincronizacao amb fuel idSistema empresaNome (relogio w) w = Some (Inl e, con, w1) \<Longrightarrow>
     \<exists>r w'. sincronizarCabecalhoNotaPorEmpresa amb fuel idSistema empresaNome w = Some (r, w') \<and>
       \<not> r_success r \<and> r_erro r = Some (e_message e) \<and> r_idSistema r = idSistema \<and>
       r_empresa r = empresaNome \<and> r_totalRegistros r = 0 \<and> r_registrosInseridos r = 0 \<and>
       r_registrosAtualizados r = 0 \<and> r_registrosDeletados r = 0"
  by (simp add: sincronizarCabecalhoNotaPorEmpresa_def Let_def)

lemma sinc_resultado:
  assumes "sincronizarCabecalhoNotaPorEmpresa amb fuel idSistema empresaNome w = Some (r, w')"
  shows "r_idSistema r = idSistema \<and> r_empresa r = empresaNome \<and>
     (if r_success r
      then r_erro r = None \<and>
           (\<exists>w1. corpo_sincronizacao amb fuel idSistema empresaNome (relogio w) w =
                    Some (Inr r, True, w1) \<and> w' = finalmente amb True w1)
      else (\<exists>e con w1. corpo_sincronizacao amb fuel idSistema empresaNome (relogio w) w =
                    Some (Inl e, con, w1) \<and> r_erro r = Some (e_message e)) \<and>
           r_totalRegistros r = 0 \<and> r_registrosInseridos r = 0 \<and>
           r_registrosAtualizados r = 0 \<and> r_registrosDeletados r = 0)"
proof (cases "corpo_sincronizacao amb fuel idSistema empresaNome (relogio w) w")
  case None
  with assms show ?thesis by (simp add: sincronizarCabecalhoNotaPorEmpresa_def)
next
  case (Some a)
  obtain rr con w1 where a: "a = (rr, con, w1)" by (cases a)
  show ?thesis
  proof (cases rr)
    case (Inl e)
    with assms Some a show ?thesis
      by (auto simp: sincronizarCabecalhoNotaPorEmpresa_def Let_def)
  next
    case (Inr res)
    with Some a have c: "corpo_sincronizacao amb fuel idSistema empresaNome (relogio w) w =
        Some (Inr res, con, w1)" by simp
    from corpo_sucesso [OF c] have "r_success res" "r_erro res = None"
      "r_idSistema res = idSistema" "r_empresa res = empresaNome" "con = True"
      by (metis SyncResult.select_convs(1), metis SyncResult.select_convs(11),
          metis SyncResult.select_convs(2), metis SyncResult.select_convs(3), metis)
    with assms c show ?thesis
      by (simp add: sincronizarCabecalhoNotaPorEmpresa_def)
  qed
qed

lemma sinc_nao_retorna:
  "sincronizarCabecalhoNotaPorEmpresa amb fuel idSistema empresaNome w = None \<longleftrightarrow>
     (\<exists>tok w1. renovarToken amb idSistema w = (Inr tok, w1) \<and>
        buscarCabecalhoNotaSankhya amb fuel idSistema tok 0 w1 = None)"
proof -
  have "sincronizarCabecalhoNotaPorEmpresa amb fuel idSistema empresaNome w = None \<longleftrightarrow>
      corpo_sincronizacao amb fuel idSistema empresaNome (relogio w) w = None"
    by (simp add: sincronizarCabecalhoNotaPorEmpresa_def Let_def
        split: option.split prod.split sum.split)
  then show ?thesis by (simp only: corpo_nao_retorna)
qed

text \<open>The retrieval leaves both tables as they are.\<close>

lemma tabelas_tratar:
  "tratar_pageError amb idSistema st e w = (r, w') \<Longrightarrow>
     confirmado w' = confirmado w \<and> pendente w' = pendente w"
  by (auto simp: tratar_pageError_def renovarToken_def split: if_splits sum.splits)

lemma tabelas_passo:
  assumes "passo amb idSistema st w = (r, w')"
  shows "confirmado w' = confirmado w \<and> pendente w' = pendente w"
proof (cases "fst (buscarContratoAtivo amb w)")
  case None
  then have "buscarContratoAtivo amb w = (None, tique w)"
    using buscarContratoAtivo_mundo [of amb w] by (metis prod.collapse)
  with assms show ?thesis
    by (auto simp: passo_def dest: tabelas_tratar)
next
  case (Some ct)
  then have b: "buscarContratoAtivo amb w = (Some ct, tique w)"
    using buscarContratoAtivo_mundo [of amb w] by (metis prod.collapse)
  show ?thesis
  proof (cases "axios_post amb (relogio (tique w)) (URL_CONSULTA_ATUAL (IS_SANDBOX ct))
                  (currentToken st) (currentPage st)")
    case (Inl e)
    with assms b show ?thesis
      by (auto simp: passo_def Let_def dest: tabelas_tratar)
  next
    case (Inr resp)
    from passo_com_resposta [OF b Inr, of idSistema] assms show ?thesis
      by (cases resp) (auto simp: Let_def split: if_splits)
  qed
qed

lemma tabelas_paginar:
  "paginar amb idSistema fuel st w = Some (r, w') \<Longrightarrow>
     confirmado w' = confirmado w \<and> pendente w' = pendente w"
proof (induction fuel arbitrary: st w)
  case 0
  then show ?case by simp
next
  case (Suc n)
  obtain pr w1 where p: "passo amb idSistema st w = (pr, w1)" by (cases "passo amb idSistema st w")
  then have t: "confirmado w1 = confirmado w \<and> pendente w1 = pendente w" by (rule tabelas_passo)
  show ?case
  proof (cases pr)
    case (Continua st')
    with Suc.prems p have "paginar amb idSistema n st' w1 = Some (r, w')" by simp
    then show ?thesis using Suc.IH t by simp
  next
    case (Termina st')
    with Suc.prems p t show ?thesis by auto
  next
    case (Lanca e)
    with Suc.prems p t show ?thesis by auto
  qed
qed

lemma tabelas_buscar:
  "buscarCabecalhoNotaSankhya amb fuel idSistema tok rc w = Some (r, w') \<Longrightarrow>
     confirmado w' = confirmado w \<and> pendente w' = pendente w"
proof (induction amb fuel idSistema tok rc w arbitrary: r w' rule: buscarCabecalhoNotaSankhya.induct)
  case (1 amb fuel idSistema bearerToken retryCount w)
  let ?w0 = "registrar (Tentativa (retryCount + 1)) w"
  show ?case
  proof (cases "paginar amb idSistema fuel (estado_inicial bearerToken) ?w0")
    case None
    with "1.prems" buscar_nao_retorna show ?thesis by fastforce
  next
    case (Some a)
    obtain pr w1 where a: "a = (pr, w1)" by (cases a)
    with Some have p: "paginar amb idSistema fuel (estado_inicial bearerToken) ?w0 = Some (pr, w1)"
      by simp
    then have t1: "confirmado w1 = confirmado w \<and> pendente w1 = pendente w"
      using tabelas_paginar by fastforce
    show ?thesis
    proof (cases pr)
      case (Inr st)
      with p "1.prems" buscar_sucesso [of amb idSistema fuel bearerToken retryCount w st w1] t1
      show ?thesis by auto
    next
      case (Inl e)
      note f = buscar_falha [OF p [unfolded Inl]]
      show ?thesis
      proof (cases "retryCount < 2 \<and> transitorio e")
        case False
        with f "1.prems" t1 show ?thesis by auto
      next
        case True
        then have c: "retryCount < MAX_RETRIES - 1 \<and> transitorio e" by (simp add: MAX_RETRIES_def)
        let ?w2 = "esperar (RETRY_DELAY * (retryCount + 1)) w1"
        have t2: "confirmado ?w2 = confirmado w \<and> pendente ?w2 = pendente w" using t1 by simp
        show ?thesis
        proof (cases "e_status e = Some 401 \<or> e_status e = Some 403")
          case False
          with f True "1.prems" have
            r: "buscarCabecalhoNotaSankhya amb fuel idSistema bearerToken (retryCount + 1) ?w2 = Some (r, w')"
            by (simp add: RETRY_DELAY_def)
          from "1.IH"(2) [OF p [unfolded Inl] refl refl c refl False r] t2
          show ?thesis by simp
        next
          case auth: True
          obtain tr w3 where rn: "renovarToken amb idSistema ?w2 = (tr, w3)"
            by (cases "renovarToken amb idSistema ?w2")
          then have t3: "confirmado w3 = confirmado w \<and> pendente w3 = pendente w"
            using t2 by (auto simp: renovarToken_def)
          show ?thesis
          proof (cases tr)
            case (Inl e')
            with f True auth rn "1.prems" t3 show ?thesis
              by (auto simp: RETRY_DELAY_def)
          next
            case (Inr novoToken)
            with f True auth rn "1.prems" have
              r: "buscarCabecalhoNotaSankhya amb fuel idSistema novoToken (retryCount + 1) w3 = Some (r, w')"
              by (simp add: RETRY_DELAY_def)
            from "1.IH"(1) [OF p [unfolded Inl] refl refl c refl auth rn [unfolded Inr, symmetric] refl r]
              t3
            show ?thesis by simp
          qed
        qed
      qed
    qed
  qed
qed

text \<open>The table after the marking.\<close>

lemma marcar_tabela:
  fixes tab :: "linha list" and idSistema :: nat and t :: nat
  defines "m \<equiv> map (\<lambda>r. if ativa_de idSistema r
                      then r\<lparr>col_SANKHYA_ATUAL := CHR ''N'', col_DT_ULT_CARGA := t\<rparr>
                      else r) tab"
  shows "nunotas_ativas j m = (if j = idSistema then {} else nunotas_ativas j tab)"
    and "map chave m = map chave tab"
    and "r \<in> set tab \<Longrightarrow> ativa_de idSistema r \<Longrightarrow>
           r\<lparr>col_SANKHYA_ATUAL := CHR ''N'', col_DT_ULT_CARGA := t\<rparr> \<in> set m"
proof -
  let ?f = "\<lambda>r. if ativa_de idSistema r
                then r\<lparr>col_SANKHYA_ATUAL := CHR ''N'', col_DT_ULT_CARGA := t\<rparr> else r"
  have a: "\<And>r. ativa_de j (?f r) \<longleftrightarrow> j \<noteq> idSistema \<and> ativa_de j r"
    by (auto simp: ativa_de_def)
  have k: "\<And>r. col_NUNOTA (?f r) = col_NUNOTA r" by simp
  have mm: "\<And>x. x \<in> nunotas_ativas j m \<longleftrightarrow>
      (\<exists>r\<in>set tab. (j \<noteq> idSistema \<and> ativa_de j r) \<and> col_NUNOTA r = x)"
    unfolding m_def ativas_map by (simp only: a k)
  show "nunotas_ativas j m = (if j = idSistema then {} else nunotas_ativas j tab)"
  proof (cases "j = idSistema")
    case True
    with mm have "\<And>x. x \<notin> nunotas_ativas j m" by simp
    with True show ?thesis by auto
  next
    case False
    with mm have "\<And>x. x \<in> nunotas_ativas j m \<longleftrightarrow> x \<in> nunotas_ativas j tab"
      by (simp add: nunotas_ativas_iff [where tab = tab])
    with False show ?thesis by auto
  qed
  have "\<And>r. chave (?f r) = chave r" by (simp add: chave_def)
  then show "map chave m = map chave tab" by (simp add: m_def comp_def)
  show "r \<in> set tab \<Longrightarrow> ativa_de idSistema r \<Longrightarrow>
           r\<lparr>col_SANKHYA_ATUAL := CHR ''N'', col_DT_ULT_CARGA := t\<rparr> \<in> set m"
  proof -
    assume "r \<in> set tab" "ativa_de idSistema r"
    then have "?f r \<in> ?f ` set tab" "?f r = r\<lparr>col_SANKHYA_ATUAL := CHR ''N'', col_DT_ULT_CARGA := t\<rparr>"
      by simp_all
    then show ?thesis by (simp only: m_def set_map)
  qed
qed


lemma mundos_finais [simp]:
  "confirmado (salvar_log amb w) = confirmado w"
  "confirmado (finalmente amb con w) = confirmado w"
  "rastro (salvar_log amb w) = rastro w"
  "rastro (finalmente amb con w) = rastro w"
  by (simp_all add: salvar_log_def finalmente_def fechar_conexao_def)

lemma instantaneo_eq:
  "renovarToken amb idSistema w = (Inr tok, w1) \<Longrightarrow>
   buscarCabecalhoNotaSankhya amb fuel idSistema tok 0 w1 = Some (Inr cabs, w2) \<Longrightarrow>
   instantaneo amb fuel idSistema w = Some cabs"
  by (simp add: instantaneo_def)

text \<open>What a successful synchronisation leaves in the committed table.\<close>

lemma sinc_sucesso_tabela:
  assumes "sincronizarCabecalhoNotaPorEmpresa amb fuel idSistema empresaNome w = Some (r, w')"
    and "r_success r"
  obtains cabs t where
    "instantaneo amb fuel idSistema w = Some cabs"
    "r_totalRegistros r = length cabs"
    "r_registrosInseridos r + r_registrosAtualizados r =
       length (filter (aceito amb idSistema) cabs)"
    "r_registrosDeletados r = total_ativas idSistema (confirmado w)"
    "\<And>j. nunotas_ativas j (confirmado w') =
       (if j = idSistema then NUNOTA ` {c \<in> set cabs. aceito amb idSistema c}
        else nunotas_ativas j (confirmado w))"
    "chave ` set (confirmado w') =
       chave ` set (confirmado w) \<union>
       (\<lambda>c. (idSistema, NUNOTA c)) ` {c \<in> set cabs. aceito amb idSistema c}"
    "chave_unica (confirmado w) \<Longrightarrow> chave_unica (confirmado w')"
    "\<And>r0. r0 \<in> set (confirmado w) \<Longrightarrow> ativa_de idSistema r0 \<Longrightarrow>
       col_NUNOTA r0 \<notin> NUNOTA ` set cabs \<Longrightarrow>
       r0\<lparr>col_SANKHYA_ATUAL := CHR ''N'', col_DT_ULT_CARGA := t\<rparr> \<in> set (confirmado w')"
    "(\<forall>c\<in>set cabs. aceito amb idSistema c \<longrightarrow> (idSistema, NUNOTA c) \<in> chave ` set (confirmado w))
       \<Longrightarrow> r_registrosInseridos r = 0 \<and>
           r_registrosAtualizados r = length (filter (aceito amb idSistema) cabs)"
proof -
  have "if r_success r
      then r_erro r = None \<and>
           (\<exists>w1. corpo_sincronizacao amb fuel idSistema empresaNome (relogio w) w =
                    Some (Inr r, True, w1) \<and> w' = finalmente amb True w1)
      else (\<exists>e con w1. corpo_sincronizacao amb fuel idSistema empresaNome (relogio w) w =
                    Some (Inl e, con, w1) \<and> r_erro r = Some (e_message e)) \<and>
           r_totalRegistros r = 0 \<and> r_registrosInseridos r = 0 \<and>
           r_registrosAtualizados r = 0 \<and> r_registrosDeletados r = 0"
    using sinc_resultado [OF assms(1)] by (elim conjE)
  then have "r_erro r = None \<and>
           (\<exists>w1. corpo_sincronizacao amb fuel idSistema empresaNome (relogio w) w =
                    Some (Inr r, True, w1) \<and> w' = finalmente amb True w1)"
    by (simp only: assms(2) if_True)
  then obtain wf where
    c: "corpo_sincronizacao amb fuel idSistema empresaNome (relogio w) w = Some (Inr r, True, wf)"
    and wf: "w' = finalmente amb True wf"
    by (elim conjE exE)
  show ?thesis
  proof (rule corpo_sucesso [OF c])
  fix tok w1 cabs w2 w3 del w4 i u w5 w6
  assume s1: "renovarToken amb idSistema w = (Inr tok, w1)"
    and s2: "buscarCabecalhoNotaSankhya amb fuel idSistema tok 0 w1 = Some (Inr cabs, w2)"
    and s3: "abrir_conexao amb w2 = (None, w3)"
    and s4: "marcarTodosComoNaoAtuais amb idSistema w3 = (Inr del, w4)"
    and s5: "upsertCabecalhoNota amb idSistema cabs w4 = (Inr (i, u), w5)"
    and s6: "fazer_commit amb w5 = (None, w6)"
    and res: "r = \<lparr>r_success = True, r_idSistema = idSistema, r_empresa = empresaNome,
            r_totalRegistros = length cabs, r_registrosInseridos = i,
            r_registrosAtualizados = u, r_registrosDeletados = del,
            r_dataInicio = relogio w, r_dataFim = relogio w6,
            r_duracao = relogio w6 - relogio w, r_erro = None\<rparr>"
    and s7: "wf = salvar_log amb w6"
  let ?T = "confirmado w"
  let ?t = "relogio w3"
  let ?M = "map (\<lambda>r. if ativa_de idSistema r
                      then r\<lparr>col_SANKHYA_ATUAL := CHR ''N'', col_DT_ULT_CARGA := ?t\<rparr>
                      else r) ?T"
  from renovarToken_mundo [OF s1] have c1: "confirmado w1 = ?T" by simp
  from tabelas_buscar [OF s2] c1 have c2: "confirmado w2 = ?T" by simp
  from s3 have w3: "w3 = tique (w2\<lparr>pendente := confirmado w2\<rparr>)"
    by (cases rule: abrir_conexao_casos [of amb w2]) simp_all
  with c2 have p3: "pendente w3 = ?T" by (simp add: tique_def)
  from s4 have d: "del = total_ativas idSistema (pendente w3)"
    and w4: "w4 = tique (w3\<lparr>pendente := map (\<lambda>r. if ativa_de idSistema r
                      then r\<lparr>col_SANKHYA_ATUAL := CHR ''N'', col_DT_ULT_CARGA := ?t\<rparr>
                      else r) (pendente w3)\<rparr>)"
    by (cases rule: marcar_casos [of amb w3 idSistema]; simp)+
  from w4 p3 have p4: "pendente w4 = ?M" by (simp add: tique_def)
  from s5 have u5: "upsert_lotes amb idSistema (lotes cabs) (0, 0) w4 = (Inr (i, u), w5)"
    by (simp add: upsertCabecalhoNota_def)
  note e = upsert_lotes_efeito [OF u5, unfolded concat_lotes p4]
  from s6 have w6: "w6 = tique (w5\<lparr>confirmado := pendente w5\<rparr>)"
    by (cases rule: fazer_commit_casos [of amb w5]) simp_all
  from wf s7 w6 have cf: "confirmado w' = pendente w5" by simp
  note m = marcar_tabela [where idSistema = idSistema and t = "?t" and tab = "?T"]
  have 1: "instantaneo amb fuel idSistema w = Some cabs"
    using s1 s2 by (rule instantaneo_eq)
  have 2: "r_totalRegistros r = length cabs" by (simp add: res)
  have 3: "r_registrosInseridos r + r_registrosAtualizados r =
       length (filter (aceito amb idSistema) cabs)"
    using e by (simp add: res)
  have 4: "r_registrosDeletados r = total_ativas idSistema ?T"
    using d p3 by (simp add: res)
  have 5: "\<And>j. nunotas_ativas j (confirmado w') =
       (if j = idSistema then NUNOTA ` {c \<in> set cabs. aceito amb idSistema c}
        else nunotas_ativas j ?T)"
  proof -
    fix j
    from e have "nunotas_ativas j (pendente w5) =
        (if j = idSistema
         then nunotas_ativas j ?M \<union> NUNOTA ` {c \<in> set cabs. aceito amb idSistema c}
         else nunotas_ativas j ?M)" by blast
    then show "nunotas_ativas j (confirmado w') =
       (if j = idSistema then NUNOTA ` {c \<in> set cabs. aceito amb idSistema c}
        else nunotas_ativas j ?T)"
      unfolding cf m(1) by simp
  qed
  have "set (map chave ?M) = set (map chave ?T)"
    by (simp only: m(2))
  then have km: "chave ` set ?M = chave ` set ?T"
    by (simp only: set_map)
  have 6: "chave ` set (confirmado w') =
       chave ` set ?T \<union> (\<lambda>c. (idSistema, NUNOTA c)) ` {c \<in> set cabs. aceito amb idSistema c}"
    using e unfolding cf km by blast
  have 7: "chave_unica ?T \<Longrightarrow> chave_unica (confirmado w')"
  proof -
    assume "chave_unica ?T"
    then have "chave_unica (pendente w4)"
      unfolding p4 chave_unica_def m(2) .
    from upsert_lotes_chave_unica [OF u5 this] show ?thesis by (simp add: cf)
  qed
  have 8: "\<And>r0. r0 \<in> set ?T \<Longrightarrow> ativa_de idSistema r0 \<Longrightarrow>
       col_NUNOTA r0 \<notin> NUNOTA ` set cabs \<Longrightarrow>
       r0\<lparr>col_SANKHYA_ATUAL := CHR ''N'', col_DT_ULT_CARGA := ?t\<rparr> \<in> set (confirmado w')"
  proof -
    fix r0
    assume a: "r0 \<in> set ?T" "ativa_de idSistema r0" "col_NUNOTA r0 \<notin> NUNOTA ` set cabs"
    let ?r = "r0\<lparr>col_SANKHYA_ATUAL := CHR ''N'', col_DT_ULT_CARGA := ?t\<rparr>"
    from m(3) [OF a(1,2)] have "?r \<in> set (pendente w4)" by (simp add: p4)
    moreover have "chave ?r = (idSistema, col_NUNOTA r0)"
      using a(2) by (simp add: chave_def ativa_de_def)
    with a(3) have "chave ?r \<notin> (\<lambda>c. (idSistema, NUNOTA c)) ` set (concat (lotes cabs))"
      by (auto simp: concat_lotes)
    ultimately have "?r \<in> set (pendente w5)"
      by (rule upsert_lotes_outras_linhas [OF u5])
    then show "?r \<in> set (confirmado w')" by (simp add: cf)
  qed
  have 9: "(\<forall>c\<in>set cabs. aceito amb idSistema c \<longrightarrow> (idSistema, NUNOTA c) \<in> chave ` set ?T)
       \<Longrightarrow> r_registrosInseridos r = 0 \<and>
           r_registrosAtualizados r = length (filter (aceito amb idSistema) cabs)"
  proof -
    assume h: "\<forall>c\<in>set cabs. aceito amb idSistema c \<longrightarrow> (idSistema, NUNOTA c) \<in> chave ` set ?T"
    have "\<forall>c\<in>set (concat (lotes cabs)). aceito amb idSistema c \<longrightarrow>
        (idSistema, NUNOTA c) \<in> chave ` set (pendente w4)"
      unfolding concat_lotes p4 km by (rule h)
    from upsert_lotes_presentes [OF u5 this] show ?thesis
      by (simp add: res concat_lotes)
  qed
  from 1 2 3 4 5 6 7 8 9 show ?thesis by (rule that)
  qed
qed


subsection \<open>Null bindings, faulty records and the active rows\<close>

text \<open>
  C10. Falsy optional fields are stored as null. A record whose \<open>CODTIPVENDA\<close>,
  \<open>CODVEND\<close> and \<open>VLRNOTA\<close> are zero is processed exactly as the record where they
  are absent, in the update and in the insert branch: the columns are null. In the
  insert branch a zero \<open>CODTIPOPER\<close> or \<open>CODPARC\<close> and an empty \<open>TIPMOV\<close> are null
  as well; the update branch binds these three as they are.
\<close>

theorem C10_falsos_como_nulos:
  assumes "falha_registro amb idSistema
             (c\<lparr>CODTIPVENDA := Some 0, CODVEND := Some 0, VLRNOTA := Some 0\<rparr>) = None"
    and "falha_registro amb idSistema
             (c\<lparr>CODTIPVENDA := None, CODVEND := None, VLRNOTA := None\<rparr>) = None"
  shows
    "processar_cabecalho amb idSistema acc
       (c\<lparr>CODTIPVENDA := Some 0, CODVEND := Some 0, VLRNOTA := Some 0\<rparr>) =
     processar_cabecalho amb idSistema acc
       (c\<lparr>CODTIPVENDA := None, CODVEND := None, VLRNOTA := None\<rparr>) \<and>
     col_CODTIPVENDA (atualizar_linha (c\<lparr>CODTIPVENDA := Some 0\<rparr>) t r) = None \<and>
     col_CODVEND (atualizar_linha (c\<lparr>CODVEND := Some 0\<rparr>) t r) = None \<and>
     col_VLRNOTA (atualizar_linha (c\<lparr>VLRNOTA := Some 0\<rparr>) t r) = None \<and>
     col_CODTIPOPER (atualizar_linha (c\<lparr>CODTIPOPER := 0\<rparr>) t r) = Some 0 \<and>
     col_CODPARC (atualizar_linha (c\<lparr>CODPARC := 0\<rparr>) t r) = Some 0 \<and>
     col_TIPMOV (atualizar_linha (c\<lparr>TIPMOV := []\<rparr>) t r) = Some [] \<and>
     col_CODTIPVENDA (nova_linha idSistema (c\<lparr>CODTIPVENDA := Some 0\<rparr>) t) = None \<and>
     col_CODVEND (nova_linha idSistema (c\<lparr>CODVEND := Some 0\<rparr>) t) = None \<and>
     col_VLRNOTA (nova_linha idSistema (c\<lparr>VLRNOTA := Some 0\<rparr>) t) = None \<and>
     col_CODTIPOPER (nova_linha idSistema (c\<lparr>CODTIPOPER := 0\<rparr>) t) = None \<and>
     col_CODPARC (nova_linha idSistema (c\<lparr>CODPARC := 0\<rparr>) t) = None \<and>
     col_TIPMOV (nova_linha idSistema (c\<lparr>TIPMOV := []\<rparr>) t) = None \<and>
     atualizar_linha (c\<lparr>CODTIPVENDA := Some 0, CODVEND := Some 0, VLRNOTA := Some 0\<rparr>) t r =
       atualizar_linha (c\<lparr>CODTIPVENDA := None, CODVEND := None, VLRNOTA := None\<rparr>) t r \<and>
     nova_linha idSistema (c\<lparr>CODTIPVENDA := Some 0, CODVEND := Some 0, VLRNOTA := Some 0\<rparr>) t =
       nova_linha idSistema (c\<lparr>CODTIPVENDA := None, CODVEND := None, VLRNOTA := None\<rparr>) t"
proof -
  have l: "atualizar_linha (c\<lparr>CODTIPVENDA := Some 0, CODVEND := Some 0, VLRNOTA := Some 0\<rparr>) =
       atualizar_linha (c\<lparr>CODTIPVENDA := None, CODVEND := None, VLRNOTA := None\<rparr>)"
    by (intro ext) (simp add: atualizar_linha_def ou_nulo_def)
  have n: "nova_linha idSistema
         (c\<lparr>CODTIPVENDA := Some 0, CODVEND := Some 0, VLRNOTA := Some 0\<rparr>) =
       nova_linha idSistema (c\<lparr>CODTIPVENDA := None, CODVEND := None, VLRNOTA := None\<rparr>)"
    by (intro ext) (simp add: nova_linha_def ou_nulo_def)
  obtain i u w where acc: "acc = ((i, u), w)" by (metis surj_pair)
  have p: "processar_cabecalho amb idSistema acc
       (c\<lparr>CODTIPVENDA := Some 0, CODVEND := Some 0, VLRNOTA := Some 0\<rparr>) =
     processar_cabecalho amb idSistema acc
       (c\<lparr>CODTIPVENDA := None, CODVEND := None, VLRNOTA := None\<rparr>)"
    unfolding acc processar_cabecalho_def l n
    by (simp add: assms)
  show ?thesis
    by (intro conjI p) (simp_all add: atualizar_linha_def nova_linha_def ou_nulo_def ou_nulo_str_def)
qed

theorem C10_falsos_como_nulos_witness:
  "processar_cabecalho amb_base 7 ((0, 0), mundo_inicial)
     (nota 1\<lparr>CODTIPVENDA := Some 0, CODVEND := Some 0, VLRNOTA := Some 0\<rparr>) =
   processar_cabecalho amb_base 7 ((0, 0), mundo_inicial)
     (nota 1\<lparr>CODTIPVENDA := None, CODVEND := None, VLRNOTA := None\<rparr>) \<and>
   col_CODTIPVENDA (nova_linha 7 (nota 1\<lparr>CODTIPVENDA := Some 0\<rparr>) 0) = None"
  using C10_falsos_como_nulos [of amb_base 7 "nota 1" "((0, 0), mundo_inicial)" 0]
  by simp

lemma sinc_retorna_sucesso:
  assumes "renovarToken amb idSistema w0 = (Inr tok, w1)"
    and "buscarCabecalhoNotaSankhya amb fuel idSistema tok 0 w1 = Some (Inr cabs, w2)"
    and "getOracleConnection amb (relogio w2) = None"
    and "falha_marcar amb (Suc (relogio w2)) = None"
    and "\<forall>t. connection_commit amb t = None"
  shows "\<exists>r w'. sincronizarCabecalhoNotaPorEmpresa amb fuel idSistema nome w0 = Some (r, w') \<and>
     r_success r"
proof -
  let ?w3 = "tique (w2\<lparr>pendente := confirmado w2\<rparr>)"
  have s3: "abrir_conexao amb w2 = (None, ?w3)"
    using assms(3) by (simp add: abrir_conexao_def)
  have "falha_marcar amb (relogio ?w3) = None"
    using assms(4) by (simp add: tique_def)
  then obtain del w4 where s4: "marcarTodosComoNaoAtuais amb idSistema ?w3 = (Inr del, w4)"
    by (cases rule: marcar_casos [of amb ?w3 idSistema]) simp_all
  from upsert_lotes_retorna [OF assms(5), of idSistema "lotes cabs" 0 0 w4]
  obtain i u w5 where s5: "upsertCabecalhoNota amb idSistema cabs w4 = (Inr (i, u), w5)"
    by (auto simp: upsertCabecalhoNota_def)
  have s6: "fazer_commit amb w5 = (None, tique (w5\<lparr>confirmado := pendente w5\<rparr>))"
    using assms(5) by (simp add: fazer_commit_def)
  show ?thesis
    by (simp add: sincronizarCabecalhoNotaPorEmpresa_def corpo_sincronizacao_def
        assms(1,2) s3 s4 s5 s6)
qed

text \<open>
  C8. Isolation of a failing record. When the commits of the store succeed,
  \<open>upsertCabecalhoNota\<close> returns normally for every list of records: a record whose
  statements fail is logged and skipped, every other record is inserted or updated, so
  the two counters add up to the number of accepted records; a list of 100 records with
  one failing record gives 99. And a tenant synchronisation whose earlier stages
  succeeded ends in success with these counters, whichever records have failed.
\<close>

theorem C8_isolamento_por_registro:
  assumes "\<forall>t. connection_commit amb t = None"
  shows
    "(\<exists>i u w'. upsertCabecalhoNota amb idSistema cabs w = (Inr (i, u), w') \<and>
        i + u = length (filter (aceito amb idSistema) cabs) \<and>
        rastro w' = rastro w @
          map (\<lambda>c. ErroRegistro (NUNOTA c)) (filter (\<lambda>c. \<not> aceito amb idSistema c) cabs) \<and>
        nunotas_ativas idSistema (pendente w') =
          nunotas_ativas idSistema (pendente w) \<union>
          NUNOTA ` {c \<in> set cabs. aceito amb idSistema c} \<and>
        (length cabs = 100 \<and> length (filter (\<lambda>c. \<not> aceito amb idSistema c) cabs) = 1 \<longrightarrow>
           i + u = 99)) \<and>
     (\<forall>fuel nome w0 tok w1 w2.
        renovarToken amb idSistema w0 = (Inr tok, w1) \<and>
        buscarCabecalhoNotaSankhya amb fuel idSistema tok 0 w1 = Some (Inr cabs, w2) \<and>
        getOracleConnection amb (relogio w2) = None \<and>
        falha_marcar amb (Suc (relogio w2)) = None \<longrightarrow>
        (\<exists>r w'. sincronizarCabecalhoNotaPorEmpresa amb fuel idSistema nome w0 = Some (r, w') \<and>
           r_success r \<and> r_totalRegistros r = length cabs \<and>
           r_registrosInseridos r + r_registrosAtualizados r =
             length (filter (aceito amb idSistema) cabs)))"
proof (intro conjI allI impI)
  from upsert_lotes_retorna [OF assms, of idSistema "lotes cabs" 0 0 w]
  obtain i u w' where u: "upsert_lotes amb idSistema (lotes cabs) (0, 0) w = (Inr (i, u), w')"
    by blast
  note e = upsert_lotes_efeito [OF u, unfolded concat_lotes]
  have 1: "upsertCabecalhoNota amb idSistema cabs w = (Inr (i, u), w')"
    using u by (simp add: upsertCabecalhoNota_def)
  have 2: "i + u = length (filter (aceito amb idSistema) cabs)" using e by simp
  have 3: "rastro w' = rastro w @
          map (\<lambda>c. ErroRegistro (NUNOTA c)) (filter (\<lambda>c. \<not> aceito amb idSistema c) cabs)"
    using e by simp
  have 4: "nunotas_ativas idSistema (pendente w') =
          nunotas_ativas idSistema (pendente w) \<union>
          NUNOTA ` {c \<in> set cabs. aceito amb idSistema c}"
    using e by simp
  have 5: "length cabs = 100 \<and> length (filter (\<lambda>c. \<not> aceito amb idSistema c) cabs) = 1 \<longrightarrow>
           i + u = 99"
    using 2 sum_length_filter_compl [of "aceito amb idSistema" cabs] by auto
  from 1 2 3 4 5 show "\<exists>i u w'. upsertCabecalhoNota amb idSistema cabs w = (Inr (i, u), w') \<and>
        i + u = length (filter (aceito amb idSistema) cabs) \<and>
        rastro w' = rastro w @
          map (\<lambda>c. ErroRegistro (NUNOTA c)) (filter (\<lambda>c. \<not> aceito amb idSistema c) cabs) \<and>
        nunotas_ativas idSistema (pendente w') =
          nunotas_ativas idSistema (pendente w) \<union>
          NUNOTA ` {c \<in> set cabs. aceito amb idSistema c} \<and>
        (length cabs = 100 \<and> length (filter (\<lambda>c. \<not> aceito amb idSistema c) cabs) = 1 \<longrightarrow>
           i + u = 99)"
    by blast
next
  fix fuel nome and w0 :: mundo and tok w1 w2
  assume h: "renovarToken amb idSistema w0 = (Inr tok, w1) \<and>
        buscarCabecalhoNotaSankhya amb fuel idSistema tok 0 w1 = Some (Inr cabs, w2) \<and>
        getOracleConnection amb (relogio w2) = None \<and>
        falha_marcar amb (Suc (relogio w2)) = None"
  then have h1: "renovarToken amb idSistema w0 = (Inr tok, w1)"
    and h2: "buscarCabecalhoNotaSankhya amb fuel idSistema tok 0 w1 = Some (Inr cabs, w2)"
    and h3: "getOracleConnection amb (relogio w2) = None"
    and h4: "falha_marcar amb (Suc (relogio w2)) = None"
    by simp_all
  from sinc_retorna_sucesso [OF h1 h2 h3 h4 assms, of nome] obtain r w' where
    s: "sincronizarCabecalhoNotaPorEmpresa amb fuel idSistema nome w0 = Some (r, w')"
    and ok: "r_success r" by blast
  from s ok obtain cabs' where
    i: "instantaneo amb fuel idSistema w0 = Some cabs'"
    and t: "r_totalRegistros r = length cabs'"
    and c: "r_registrosInseridos r + r_registrosAtualizados r =
       length (filter (aceito amb idSistema) cabs')"
    by (rule sinc_sucesso_tabela)
  from i instantaneo_eq [OF h1 h2] have "cabs' = cabs" by simp
  with s ok t c show "\<exists>r w'. sincronizarCabecalhoNotaPorEmpresa amb fuel idSistema nome w0 =
           Some (r, w') \<and>
           r_success r \<and> r_totalRegistros r = length cabs \<and>
           r_registrosInseridos r + r_registrosAtualizados r =
             length (filter (aceito amb idSistema) cabs)"
    by blast
qed

lemma amb_snapshot_simps [simp]:
  "listarContratos (amb_snapshot cabs) = listarContratos amb_base"
  "obterToken (amb_snapshot cabs) = obterToken amb_base"
  "axios_post (amb_snapshot cabs) = (\<lambda>t url token pagina. Inr (Entidades (Varias cabs) (JBool False)))"
  "getOracleConnection (amb_snapshot cabs) = getOracleConnection amb_base"
  "falha_marcar (amb_snapshot cabs) = falha_marcar amb_base"
  "connection_commit (amb_snapshot cabs) = connection_commit amb_base"
  "falha_registro (amb_snapshot cabs) = falha_registro amb_base"
  by (simp_all add: amb_snapshot_def)

lemma amb_rejeita_simps [simp]:
  "listarContratos (amb_rejeita cabs) = listarContratos amb_base"
  "obterToken (amb_rejeita cabs) = obterToken amb_base"
  "axios_post (amb_rejeita cabs) = (\<lambda>t url token pagina. Inr (Entidades (Varias cabs) (JBool False)))"
  "getOracleConnection (amb_rejeita cabs) = getOracleConnection amb_base"
  "falha_marcar (amb_rejeita cabs) = falha_marcar amb_base"
  "connection_commit (amb_rejeita cabs) = connection_commit amb_base"
  "falha_registro (amb_rejeita cabs) idSistema c =
     (if NUNOTA c = 2 then Some (Error ''ORA-01722: invalid number'') else None)"
  by (simp_all add: amb_rejeita_def)

lemma aceito_exemplos [simp]:
  "aceito (amb_snapshot cabs) idSistema c"
  "aceito (amb_rejeita cabs) idSistema c \<longleftrightarrow> NUNOTA c \<noteq> 2"
  "aceito amb_base idSistema c"
  by (simp_all add: aceito_def)

lemma NUNOTA_nota [simp]: "NUNOTA (nota n) = n"
  by (simp add: nota_def)

lemma nota_eq [simp]: "nota a = nota b \<longleftrightarrow> a = b"
  by (simp add: nota_def)

text \<open>A service with one page, a store that gives a connection and commits.\<close>

lemma pagina_unica:
  assumes "listarContratos amb = listarContratos amb_base"
    and "obterToken amb = obterToken amb_base"
    and "axios_post amb = (\<lambda>t url token pagina. Inr (Entidades (Varias cabs) (JBool False)))"
    and "getOracleConnection amb = getOracleConnection amb_base"
    and "falha_marcar amb = falha_marcar amb_base"
    and "connection_commit amb = connection_commit amb_base"
  shows "instantaneo amb (Suc n) idSistema w = Some cabs"
    and "\<exists>r w'. sincronizarCabecalhoNotaPorEmpresa amb (Suc n) idSistema nome w = Some (r, w') \<and>
           r_success r"
proof -
  let ?w1 = "registrar (Renovacao idSistema) (tique w)"
  let ?w0 = "registrar (Tentativa (0 + 1)) ?w1"
  let ?st = "estado_inicial ''token-novo''"
  let ?w2 = "registrar (Requisicao (URL_CONSULTA_ATUAL True) ''token-novo'' 0) (tique (tique ?w0))"
  have t: "renovarToken amb idSistema w = (Inr ''token-novo'', ?w1)"
    by (simp add: renovarToken_def assms(2))
  have b: "buscarContratoAtivo amb ?w0 = (Some \<lparr>ATIVO = True, IS_SANDBOX = True\<rparr>, tique ?w0)"
    using assms(1) by (rule buscarContratoAtivo_base)
  have r: "axios_post amb (relogio (tique ?w0))
      (URL_CONSULTA_ATUAL (IS_SANDBOX \<lparr>ATIVO = True, IS_SANDBOX = True\<rparr>))
      (currentToken ?st) (currentPage ?st) = Inr (Entidades (Varias cabs) (JBool False))"
    by (simp add: assms(3))
  have "passo amb idSistema ?st ?w0 = (Termina (?st\<lparr>allCabecalhos := cabs\<rparr>), ?w2)"
    using passo_com_resposta [OF b r, of idSistema]
    by (simp add: Let_def hasMoreResult_def entityArray_def estado_inicial_def)
  then have "paginar amb idSistema (Suc n) ?st ?w0 = Some (Inr (?st\<lparr>allCabecalhos := cabs\<rparr>), ?w2)"
    by simp
  from buscar_sucesso [OF this]
  have s: "buscarCabecalhoNotaSankhya amb (Suc n) idSistema ''token-novo'' 0 ?w1 = Some (Inr cabs, ?w2)"
    by simp
  from t s show "instantaneo amb (Suc n) idSistema w = Some cabs"
    by (rule instantaneo_eq)
  have g: "getOracleConnection amb (relogio ?w2) = None" by (simp add: assms(4))
  have m: "falha_marcar amb (Suc (relogio ?w2)) = None" by (simp add: assms(5))
  have c: "\<forall>t. connection_commit amb t = None" by (simp add: assms(6))
  from sinc_retorna_sucesso [OF t s g m c]
  show "\<exists>r w'. sincronizarCabecalhoNotaPorEmpresa amb (Suc n) idSistema nome w = Some (r, w') \<and>
           r_success r" .
qed

lemmas snapshot_ok = pagina_unica [OF amb_snapshot_simps(1-6)]
lemmas rejeita_ok = pagina_unica [OF amb_rejeita_simps(1-6)]

theorem C8_isolamento_por_registro_witness:
  "\<exists>i u w'. upsertCabecalhoNota (amb_rejeita []) 7 (replicate 99 (nota 1) @ [nota 2])
               mundo_inicial = (Inr (i, u), w') \<and>
     i + u = 99 \<and> rastro w' = [ErroRegistro 2] \<and> nunotas_ativas 7 (pendente w') = {1}"
proof -
  let ?cabs = "replicate 99 (nota 1) @ [nota 2]"
  have c: "\<forall>t. connection_commit (amb_rejeita []) t = None" by simp
  have f: "filter (aceito (amb_rejeita []) 7) ?cabs = replicate 99 (nota 1)"
    "filter (\<lambda>c. \<not> aceito (amb_rejeita []) 7 c) ?cabs = [nota 2]"
    by (simp_all add: filter_replicate)
  have n: "nunotas_ativas 7 (pendente mundo_inicial) = {}"
    by (simp add: mundo_inicial_def nunotas_ativas_def)
  have "{c \<in> set ?cabs. aceito (amb_rejeita []) 7 c} =
      set (filter (aceito (amb_rejeita []) 7) ?cabs)"
    by (simp only: set_filter)
  also have "\<dots> = {nota 1}"
    by (simp only: f(1)) simp
  finally have s: "NUNOTA ` {c \<in> set ?cabs. aceito (amb_rejeita []) 7 c} = {1}"
    by simp
  have r: "rastro mundo_inicial = []" by (simp add: mundo_inicial_def)
  note t = C8_isolamento_por_registro [OF c, of 7 ?cabs mundo_inicial, THEN conjunct1,
      unfolded f n s r]
  then show ?thesis by (elim exE conjE) (intro exI conjI; simp)
qed

lemma imagem_filtro: "f ` {c \<in> set xs. P c} = set (map f (filter P xs))"
  by auto

text \<open>
  C1, as amended. After a successful tenant synchronisation the rows of the tenant
  flagged \<open>S\<close> are exactly those whose \<open>NUNOTA\<close> is that of a record of the snapshot
  whose statements did not fail; they are all the records of the snapshot when none has
  failed. Every row of the tenant that was active and whose \<open>NUNOTA\<close> is not in the
  snapshot is flagged \<open>N\<close>, and the rows of other tenants keep their flags.
\<close>

theorem C1_ativos_apos_sincronizacao:
  assumes "sincronizarCabecalhoNotaPorEmpresa amb fuel idSistema empresaNome w = Some (r, w')"
    and "r_success r"
  shows
    "\<exists>cabs. instantaneo amb fuel idSistema w = Some cabs \<and>
       nunotas_ativas idSistema (confirmado w') =
         NUNOTA ` {c \<in> set cabs. falha_registro amb idSistema c = None} \<and>
       ((\<forall>c\<in>set cabs. falha_registro amb idSistema c = None) \<longrightarrow>
          nunotas_ativas idSistema (confirmado w') = NUNOTA ` set cabs) \<and>
       (\<forall>r0\<in>set (confirmado w).
          ativa_de idSistema r0 \<and> col_NUNOTA r0 \<notin> NUNOTA ` set cabs \<longrightarrow>
          col_NUNOTA r0 \<notin> nunotas_ativas idSistema (confirmado w') \<and>
          (\<exists>t. r0\<lparr>col_SANKHYA_ATUAL := CHR ''N'', col_DT_ULT_CARGA := t\<rparr> \<in> set (confirmado w'))) \<and>
       (\<forall>j. j \<noteq> idSistema \<longrightarrow>
          nunotas_ativas j (confirmado w') = nunotas_ativas j (confirmado w))"
proof -
  obtain cabs t where
    i: "instantaneo amb fuel idSistema w = Some cabs"
    and a: "\<And>j. nunotas_ativas j (confirmado w') =
       (if j = idSistema then NUNOTA ` {c \<in> set cabs. aceito amb idSistema c}
        else nunotas_ativas j (confirmado w))"
    and m: "\<And>r0. r0 \<in> set (confirmado w) \<Longrightarrow> ativa_de idSistema r0 \<Longrightarrow>
       col_NUNOTA r0 \<notin> NUNOTA ` set cabs \<Longrightarrow>
       r0\<lparr>col_SANKHYA_ATUAL := CHR ''N'', col_DT_ULT_CARGA := t\<rparr> \<in> set (confirmado w')"
  proof (rule sinc_sucesso_tabela [OF assms])
    fix cabs t
    assume "instantaneo amb fuel idSistema w = Some cabs"
      and "\<And>j. nunotas_ativas j (confirmado w') =
       (if j = idSistema then NUNOTA ` {c \<in> set cabs. aceito amb idSistema c}
        else nunotas_ativas j (confirmado w))"
      and "\<And>r0. r0 \<in> set (confirmado w) \<Longrightarrow> ativa_de idSistema r0 \<Longrightarrow>
       col_NUNOTA r0 \<notin> NUNOTA ` set cabs \<Longrightarrow>
       r0\<lparr>col_SANKHYA_ATUAL := CHR ''N'', col_DT_ULT_CARGA := t\<rparr> \<in> set (confirmado w')"
    then show thesis by (rule that)
  qed
  have 1: "nunotas_ativas idSistema (confirmado w') =
         NUNOTA ` {c \<in> set cabs. falha_registro amb idSistema c = None}"
    using a [of idSistema] by (simp add: aceito_def)
  have 2: "(\<forall>c\<in>set cabs. falha_registro amb idSistema c = None) \<longrightarrow>
          nunotas_ativas idSistema (confirmado w') = NUNOTA ` set cabs"
  proof
    assume "\<forall>c\<in>set cabs. falha_registro amb idSistema c = None"
    then have "{c \<in> set cabs. falha_registro amb idSistema c = None} = set cabs" by blast
    with 1 show "nunotas_ativas idSistema (confirmado w') = NUNOTA ` set cabs" by simp
  qed
  have 3: "\<forall>r0\<in>set (confirmado w).
          ativa_de idSistema r0 \<and> col_NUNOTA r0 \<notin> NUNOTA ` set cabs \<longrightarrow>
          col_NUNOTA r0 \<notin> nunotas_ativas idSistema (confirmado w') \<and>
          (\<exists>t. r0\<lparr>col_SANKHYA_ATUAL := CHR ''N'', col_DT_ULT_CARGA := t\<rparr> \<in> set (confirmado w'))"
  proof (intro ballI impI conjI)
    fix r0
    assume r0: "r0 \<in> set (confirmado w)"
      and h: "ativa_de idSistema r0 \<and> col_NUNOTA r0 \<notin> NUNOTA ` set cabs"
    from h show "col_NUNOTA r0 \<notin> nunotas_ativas idSistema (confirmado w')"
      unfolding 1 by blast
    from m [OF r0] h
    show "\<exists>t. r0\<lparr>col_SANKHYA_ATUAL := CHR ''N'', col_DT_ULT_CARGA := t\<rparr> \<in> set (confirmado w')"
      by blast
  qed
  have 4: "\<forall>j. j \<noteq> idSistema \<longrightarrow>
          nunotas_ativas j (confirmado w') = nunotas_ativas j (confirmado w)"
    using a by simp
  from i 1 2 3 4 show ?thesis by blast
qed

theorem C1_ativos_apos_sincronizacao_witness:
  "\<exists>r w'. sincronizarCabecalhoNotaPorEmpresa (amb_snapshot [nota 1, nota 2]) 1 7 ''Alfa''
             mundo_com_linha = Some (r, w') \<and>
     r_success r \<and> nunotas_ativas 7 (confirmado mundo_com_linha) = {9} \<and>
     nunotas_ativas 7 (confirmado w') = {1, 2} \<and>
     (\<exists>t. nova_linha 7 (nota 9) 0\<lparr>col_SANKHYA_ATUAL := CHR ''N'', col_DT_ULT_CARGA := t\<rparr>
             \<in> set (confirmado w'))"
proof -
  let ?amb = "amb_snapshot [nota 1, nota 2]"
  from snapshot_ok(2) [of "[nota 1, nota 2]" 0 7 "''Alfa''" mundo_com_linha]
  obtain r w' where
    s: "sincronizarCabecalhoNotaPorEmpresa ?amb 1 7 ''Alfa'' mundo_com_linha = Some (r, w')"
    and ok: "r_success r" by auto
  have i: "instantaneo ?amb 1 7 mundo_com_linha = Some [nota 1, nota 2]"
    using snapshot_ok(1) [of "[nota 1, nota 2]" 0 7 mundo_com_linha] by simp
  have c: "confirmado mundo_com_linha = [nova_linha 7 (nota 9) 0]"
    by (simp add: mundo_com_linha_def)
  have a9: "nunotas_ativas 7 (confirmado mundo_com_linha) = {9}"
    by (simp add: c nunotas_ativas_def ativa_de_def)
  from C1_ativos_apos_sincronizacao [OF s ok] obtain cabs where
    i': "instantaneo ?amb 1 7 mundo_com_linha = Some cabs"
    and 1: "nunotas_ativas 7 (confirmado w') =
         NUNOTA ` {c \<in> set cabs. falha_registro ?amb 7 c = None}"
    and 3: "\<forall>r0\<in>set (confirmado mundo_com_linha).
          ativa_de 7 r0 \<and> col_NUNOTA r0 \<notin> NUNOTA ` set cabs \<longrightarrow>
          col_NUNOTA r0 \<notin> nunotas_ativas 7 (confirmado w') \<and>
          (\<exists>t. r0\<lparr>col_SANKHYA_ATUAL := CHR ''N'', col_DT_ULT_CARGA := t\<rparr> \<in> set (confirmado w'))"
    by (elim exE conjE)
  from i i' have e: "cabs = [nota 1, nota 2]" by simp
  from 1 have n: "nunotas_ativas 7 (confirmado w') = {1, 2}"
    unfolding imagem_filtro e by simp
  from 3 have "\<exists>t. nova_linha 7 (nota 9) 0\<lparr>col_SANKHYA_ATUAL := CHR ''N'', col_DT_ULT_CARGA := t\<rparr>
             \<in> set (confirmado w')"
    unfolding e by (simp add: c ativa_de_def)
  with s ok a9 n show ?thesis by blast
qed

theorem C1_registro_rejeitado_counterexample:
  "map_option (r_success \<circ> fst)
     (sincronizarCabecalhoNotaPorEmpresa (amb_rejeita [nota 1, nota 2]) 1 7 ''Alfa'' mundo_inicial) =
     Some True \<and>
   instantaneo (amb_rejeita [nota 1, nota 2]) 1 7 mundo_inicial = Some [nota 1, nota 2] \<and>
   map_option (nunotas_ativas 7 \<circ> confirmado \<circ> snd)
     (sincronizarCabecalhoNotaPorEmpresa (amb_rejeita [nota 1, nota 2]) 1 7 ''Alfa'' mundo_inicial) =
     Some {1} \<and>
   NUNOTA ` set [nota 1, nota 2] = {1, 2}"
proof -
  let ?amb = "amb_rejeita [nota 1, nota 2]"
  from rejeita_ok(2) [of "[nota 1, nota 2]" 0 7 "''Alfa''" mundo_inicial]
  obtain r w' where
    s: "sincronizarCabecalhoNotaPorEmpresa ?amb 1 7 ''Alfa'' mundo_inicial = Some (r, w')"
    and ok: "r_success r" by auto
  have i: "instantaneo ?amb 1 7 mundo_inicial = Some [nota 1, nota 2]"
    using rejeita_ok(1) [of "[nota 1, nota 2]" 0 7 mundo_inicial] by simp
  obtain cabs where
    i': "instantaneo ?amb 1 7 mundo_inicial = Some cabs"
    and a: "\<And>j. nunotas_ativas j (confirmado w') =
       (if j = 7 then NUNOTA ` {c \<in> set cabs. aceito ?amb 7 c}
        else nunotas_ativas j (confirmado mundo_inicial))"
  proof (rule sinc_sucesso_tabela [OF s ok])
    fix cabs t
    assume "instantaneo ?amb 1 7 mundo_inicial = Some cabs"
      and "\<And>j. nunotas_ativas j (confirmado w') =
       (if j = 7 then NUNOTA ` {c \<in> set cabs. aceito ?amb 7 c}
        else nunotas_ativas j (confirmado mundo_inicial))"
    then show thesis by (rule that)
  qed
  from i i' have "cabs = [nota 1, nota 2]" by simp
  with a [of 7] have "nunotas_ativas 7 (confirmado w') = {1}"
    unfolding imagem_filtro by simp
  with s ok i show ?thesis by simp
qed


subsection \<open>Two runs in a row\<close>









subsection \<open>The outcomes of the public operations\<close>

text \<open>The loop over the tenants goes through the whole list when every run returns.\<close>

lemma sincronizar_cada_completo:
  assumes "\<forall>emp\<in>set empresas. \<forall>w0.
             sincronizarCabecalhoNotaPorEmpresa amb fuel (fst emp) (snd emp) w0 \<noteq> None"
  shows "\<exists>rs w'. sincronizar_cada amb fuel empresas acc w = Some (acc @ rs, w') \<and>
     map r_idSistema rs = map fst empresas \<and> map r_empresa rs = map snd empresas \<and>
     list_all2 (\<lambda>emp r. \<exists>w0 w1.
        sincronizarCabecalhoNotaPorEmpresa amb fuel (fst emp) (snd emp) w0 = Some (r, w1))
       empresas rs"
  using assms
proof (induction empresas arbitrary: acc w)
  case Nil
  show ?case by (intro exI [of _ "[]"] exI [of _ w]) simp
next
  case (Cons emp resto)
  from Cons.prems have "sincronizarCabecalhoNotaPorEmpresa amb fuel (fst emp) (snd emp) w \<noteq> None"
    by simp
  then obtain p where
    "sincronizarCabecalhoNotaPorEmpresa amb fuel (fst emp) (snd emp) w = Some p"
    by (simp only: not_None_eq) (erule exE)
  moreover obtain r w1 where "p = (r, w1)" by (cases p)
  ultimately have
    s: "sincronizarCabecalhoNotaPorEmpresa amb fuel (fst emp) (snd emp) w = Some (r, w1)"
    by simp
  from sinc_resultado [OF s] have id: "r_idSistema r = fst emp" by (elim conjE)
  from sinc_resultado [OF s] have nm: "r_empresa r = snd emp" by (elim conjE)
  from Cons.prems have "\<forall>emp\<in>set resto. \<forall>w0.
      sincronizarCabecalhoNotaPorEmpresa amb fuel (fst emp) (snd emp) w0 \<noteq> None"
    by simp
  from Cons.IH [OF this, of "acc @ [r]" "esperar 2000 w1"]
  obtain rs w' where
    c: "sincronizar_cada amb fuel resto (acc @ [r]) (esperar 2000 w1) = Some ((acc @ [r]) @ rs, w')"
    and m1: "map r_idSistema rs = map fst resto"
    and m2: "map r_empresa rs = map snd resto"
    and l: "list_all2 (\<lambda>emp r. \<exists>w0 w1.
        sincronizarCabecalhoNotaPorEmpresa amb fuel (fst emp) (snd emp) w0 = Some (r, w1))
       resto rs"
    by (elim exE conjE)
  have 1: "sincronizar_cada amb fuel (emp # resto) acc w = Some (acc @ (r # rs), w')"
    by (simp add: s c)
  have 2: "map r_idSistema (r # rs) = map fst (emp # resto)" using id m1 by simp
  have 3: "map r_empresa (r # rs) = map snd (emp # resto)" using nm m2 by simp
  have "\<exists>w0 w1. sincronizarCabecalhoNotaPorEmpresa amb fuel (fst emp) (snd emp) w0 = Some (r, w1)"
    using s by (intro exI)
  then have 4: "list_all2 (\<lambda>emp r. \<exists>w0 w1.
        sincronizarCabecalhoNotaPorEmpresa amb fuel (fst emp) (snd emp) w0 = Some (r, w1))
       (emp # resto) (r # rs)"
    using l by (simp only: list_all2_Cons simp_thms)
  show ?case by (intro exI [of _ "r # rs"] exI [of _ w'] conjI 1 2 3 4)
qed

text \<open>The loop over the tenants is the only place where the function may fail to return.\<close>

lemma todas_nao_retorna:
  assumes "sincronizarTodasEmpresas amb fuel w = None"
  shows "\<exists>empresas w1 w2 w3.
     abrir_conexao amb w = (None, w1) \<and> selecionar_empresas amb w1 = (Inr empresas, w2) \<and>
     fechar_conexao amb w2 = (None, w3) \<and>
     (\<exists>emp\<in>set empresas. \<exists>w0.
        sincronizarCabecalhoNotaPorEmpresa amb fuel (fst emp) (snd emp) w0 = None)"
proof -
  obtain x w1 where a: "abrir_conexao amb w = (x, w1)" by (cases "abrir_conexao amb w")
  have x: "x = None"
  proof (cases x)
    case (Some e)
    with a assms show ?thesis by (simp add: sincronizarTodasEmpresas_def)
  qed simp
  obtain y w2 where b: "selecionar_empresas amb w1 = (y, w2)"
    by (cases "selecionar_empresas amb w1")
  obtain empresas where y: "y = Inr empresas"
  proof (cases y)
    case (Inl e)
    with a x b assms show ?thesis by (simp add: sincronizarTodasEmpresas_def)
  qed
  obtain z w3 where c: "fechar_conexao amb w2 = (z, w3)" by (cases "fechar_conexao amb w2")
  have z: "z = None"
  proof (cases z)
    case (Some e)
    with a x b y c assms show ?thesis by (simp add: sincronizarTodasEmpresas_def)
  qed simp
  have "\<not> (\<forall>emp\<in>set empresas. \<forall>w0.
      sincronizarCabecalhoNotaPorEmpresa amb fuel (fst emp) (snd emp) w0 \<noteq> None)"
  proof
    assume d: "\<forall>emp\<in>set empresas. \<forall>w0.
      sincronizarCabecalhoNotaPorEmpresa amb fuel (fst emp) (snd emp) w0 \<noteq> None"
    from sincronizar_cada_completo [OF d, of "[]" w3] obtain rs w' where
      "sincronizar_cada amb fuel empresas [] w3 = Some ([] @ rs, w')"
      by (elim exE conjE)
    then have "sincronizarTodasEmpresas amb fuel w \<noteq> None"
      using a x b y c z by (cases "empresas = []") (simp_all add: sincronizarTodasEmpresas_def)
    with assms show False by simp
  qed
  then have "\<exists>emp\<in>set empresas. \<exists>w0.
        sincronizarCabecalhoNotaPorEmpresa amb fuel (fst emp) (snd emp) w0 = None"
    unfolding Ball_def Bex_def not_all not_imp not_not .
  with a x b y c z show ?thesis by (intro exI conjI) simp_all
qed

text \<open>
  C7, as amended. \<open>sincronizarCabecalhoNotaPorEmpresa\<close> has no exceptional exit: it
  returns unless the retrieval does not return, and what it returns is an outcome for the
  tenant, with \<open>success\<close> false and the message of the error whenever a stage has
  failed. \<open>sincronizarTodasEmpresas\<close> returns one outcome for each active tenant, in the
  order of the query and whichever tenants have failed, on two conditions: that it gets a
  connection and the query of the tenants and the closing of the connection succeed, and
  that the run of every tenant returns. A failure of the connection, of the query or of
  the closing is thrown to the caller; and when the function does not return, those three
  steps have succeeded and the run of some tenant does not return.
\<close>

theorem C7_sem_falha_nua:
  "(sincronizarCabecalhoNotaPorEmpresa amb fuel idSistema empresaNome w = None \<longleftrightarrow>
      (\<exists>tok w1. renovarToken amb idSistema w = (Inr tok, w1) \<and>
         buscarCabecalhoNotaSankhya amb fuel idSistema tok 0 w1 = None)) \<and>
   (\<forall>r w'. sincronizarCabecalhoNotaPorEmpresa amb fuel idSistema empresaNome w = Some (r, w') \<longrightarrow>
      r_idSistema r = idSistema \<and> r_empresa r = empresaNome \<and>
      (r_success r \<longrightarrow> r_erro r = None) \<and>
      (\<not> r_success r \<longrightarrow>
         (\<exists>e con w1. corpo_sincronizacao amb fuel idSistema empresaNome (relogio w) w =
                       Some (Inl e, con, w1) \<and> r_erro r = Some (e_message e)))) \<and>
   (\<forall>e con w1. corpo_sincronizacao amb fuel idSistema empresaNome (relogio w) w =
        Some (Inl e, con, w1) \<longrightarrow>
      (\<exists>r w'. sincronizarCabecalhoNotaPorEmpresa amb fuel idSistema empresaNome w = Some (r, w') \<and>
         \<not> r_success r \<and> r_erro r = Some (e_message e))) \<and>
   (\<forall>empresas w1 w2 w3.
      abrir_conexao amb w = (None, w1) \<and> selecionar_empresas amb w1 = (Inr empresas, w2) \<and>
      fechar_conexao amb w2 = (None, w3) \<and>
      (\<forall>emp\<in>set empresas. \<forall>w0.
         sincronizarCabecalhoNotaPorEmpresa amb fuel (fst emp) (snd emp) w0 \<noteq> None) \<longrightarrow>
      (\<exists>rs w'. sincronizarTodasEmpresas amb fuel w = Some (Inr rs, w') \<and>
         map r_idSistema rs = map fst empresas \<and> map r_empresa rs = map snd empresas \<and>
         list_all2 (\<lambda>emp r. \<exists>w0 w1.
            sincronizarCabecalhoNotaPorEmpresa amb fuel (fst emp) (snd emp) w0 = Some (r, w1))
           empresas rs)) \<and>
   (\<forall>e w1. abrir_conexao amb w = (Some e, w1) \<longrightarrow>
      sincronizarTodasEmpresas amb fuel w = Some (Inl e, w1)) \<and>
   (\<forall>e w1 w2. abrir_conexao amb w = (None, w1) \<and> selecionar_empresas amb w1 = (Inl e, w2) \<longrightarrow>
      sincronizarTodasEmpresas amb fuel w = Some (Inl e, finalmente amb True w2)) \<and>
   (\<forall>e empresas w1 w2 w3.
      abrir_conexao amb w = (None, w1) \<and> selecionar_empresas amb w1 = (Inr empresas, w2) \<and>
      fechar_conexao amb w2 = (Some e, w3) \<longrightarrow>
      sincronizarTodasEmpresas amb fuel w = Some (Inl e, finalmente amb True w3)) \<and>
   (sincronizarTodasEmpresas amb fuel w = None \<longrightarrow>
      (\<exists>empresas w1 w2 w3.
         abrir_conexao amb w = (None, w1) \<and> selecionar_empresas amb w1 = (Inr empresas, w2) \<and>
         fechar_conexao amb w2 = (None, w3) \<and>
         (\<exists>emp\<in>set empresas. \<exists>w0.
            sincronizarCabecalhoNotaPorEmpresa amb fuel (fst emp) (snd emp) w0 = None)))"
proof (intro conjI allI impI)
  show "sincronizarCabecalhoNotaPorEmpresa amb fuel idSistema empresaNome w = None \<longleftrightarrow>
      (\<exists>tok w1. renovarToken amb idSistema w = (Inr tok, w1) \<and>
         buscarCabecalhoNotaSankhya amb fuel idSistema tok 0 w1 = None)"
    by (rule sinc_nao_retorna)
next
  fix r w'
  assume s: "sincronizarCabecalhoNotaPorEmpresa amb fuel idSistema empresaNome w = Some (r, w')"
  note t = sinc_resultado [OF s]
  from t show "r_idSistema r = idSistema" by (elim conjE)
  from t show "r_empresa r = empresaNome" by (elim conjE)
  {
    assume "r_success r"
    with t show "r_erro r = None" by simp
  }
  {
    assume "\<not> r_success r"
    with t show "\<exists>e con w1. corpo_sincronizacao amb fuel idSistema empresaNome (relogio w) w =
                       Some (Inl e, con, w1) \<and> r_erro r = Some (e_message e)"
      by simp
  }
next
  fix e con w1
  assume "corpo_sincronizacao amb fuel idSistema empresaNome (relogio w) w = Some (Inl e, con, w1)"
  from corpo_falha_resultado [OF this]
  show "\<exists>r w'. sincronizarCabecalhoNotaPorEmpresa amb fuel idSistema empresaNome w = Some (r, w') \<and>
         \<not> r_success r \<and> r_erro r = Some (e_message e)"
    by blast
next
  fix empresas w1 w2 w3
  assume h: "abrir_conexao amb w = (None, w1) \<and> selecionar_empresas amb w1 = (Inr empresas, w2) \<and>
      fechar_conexao amb w2 = (None, w3) \<and>
      (\<forall>emp\<in>set empresas. \<forall>w0.
         sincronizarCabecalhoNotaPorEmpresa amb fuel (fst emp) (snd emp) w0 \<noteq> None)"
  then have a: "abrir_conexao amb w = (None, w1)"
    and b: "selecionar_empresas amb w1 = (Inr empresas, w2)"
    and c: "fechar_conexao amb w2 = (None, w3)"
    and d: "\<forall>emp\<in>set empresas. \<forall>w0.
         sincronizarCabecalhoNotaPorEmpresa amb fuel (fst emp) (snd emp) w0 \<noteq> None"
    by simp_all
  from sincronizar_cada_completo [OF d, of "[]" w3] obtain rs w' where
    1: "sincronizar_cada amb fuel empresas [] w3 = Some (rs, w')"
    and 2: "map r_idSistema rs = map fst empresas"
    and 3: "map r_empresa rs = map snd empresas"
    and 4: "list_all2 (\<lambda>emp r. \<exists>w0 w1.
            sincronizarCabecalhoNotaPorEmpresa amb fuel (fst emp) (snd emp) w0 = Some (r, w1))
           empresas rs"
    by auto
  have "sincronizarTodasEmpresas amb fuel w = Some (Inr rs, w')"
    using a b c 1 by (auto simp: sincronizarTodasEmpresas_def)
  with 2 3 4
  show "\<exists>rs w'. sincronizarTodasEmpresas amb fuel w = Some (Inr rs, w') \<and>
         map r_idSistema rs = map fst empresas \<and> map r_empresa rs = map snd empresas \<and>
         list_all2 (\<lambda>emp r. \<exists>w0 w1.
            sincronizarCabecalhoNotaPorEmpresa amb fuel (fst emp) (snd emp) w0 = Some (r, w1))
           empresas rs"
    by blast
next
  fix e w1
  assume "abrir_conexao amb w = (Some e, w1)"
  then show "sincronizarTodasEmpresas amb fuel w = Some (Inl e, w1)"
    by (simp add: sincronizarTodasEmpresas_def)
next
  fix e w1 w2
  assume "abrir_conexao amb w = (None, w1) \<and> selecionar_empresas amb w1 = (Inl e, w2)"
  then show "sincronizarTodasEmpresas amb fuel w = Some (Inl e, finalmente amb True w2)"
    by (simp add: sincronizarTodasEmpresas_def)
next
  fix e empresas w1 w2 w3
  assume "abrir_conexao amb w = (None, w1) \<and> selecionar_empresas amb w1 = (Inr empresas, w2) \<and>
      fechar_conexao amb w2 = (Some e, w3)"
  then show "sincronizarTodasEmpresas amb fuel w = Some (Inl e, finalmente amb True w3)"
    by (simp add: sincronizarTodasEmpresas_def)
next
  assume "sincronizarTodasEmpresas amb fuel w = None"
  then show "\<exists>empresas w1 w2 w3.
         abrir_conexao amb w = (None, w1) \<and> selecionar_empresas amb w1 = (Inr empresas, w2) \<and>
         fechar_conexao amb w2 = (None, w3) \<and>
         (\<exists>emp\<in>set empresas. \<exists>w0.
            sincronizarCabecalhoNotaPorEmpresa amb fuel (fst emp) (snd emp) w0 = None)"
    by (rule todas_nao_retorna)
qed

lemma amb_frota_simps [simp]:
  "obterToken amb_frota t idSistema forcar =
     (if idSistema = 1 then Inl (Error ''credencial recusada'') else Inr ''token-novo'')"
  "listarContratos amb_frota = listarContratos amb_base"
  "axios_post amb_frota t url token pagina = Inr SemEntidade"
  "getOracleConnection amb_frota t = None"
  "falha_marcar amb_frota t = None"
  "connection_commit amb_frota t = None"
  "connection_close amb_frota t = None"
  "consultar_empresas amb_frota t = Inr [(1, ''Alfa''), (2, ''Beta'')]"
  by (simp_all add: amb_frota_def)

lemma frota_sem_token:
  "sincronizarCabecalhoNotaPorEmpresa amb_frota fuel 1 nome w \<noteq> None"
  "sincronizarCabecalhoNotaPorEmpresa amb_frota fuel 1 nome w = Some (r, w') \<Longrightarrow> \<not> r_success r"
proof -
  have c: "corpo_sincronizacao amb_frota fuel 1 nome (relogio w) w =
      Some (Inl (Error ''credencial recusada''), False, registrar (Renovacao 1) (tique w))"
    by (simp add: corpo_sincronizacao_def renovarToken_def)
  from corpo_falha_resultado [OF c]
  show "sincronizarCabecalhoNotaPorEmpresa amb_frota fuel 1 nome w \<noteq> None" by auto
  assume "sincronizarCabecalhoNotaPorEmpresa amb_frota fuel 1 nome w = Some (r, w')"
  with corpo_falha_resultado [OF c] show "\<not> r_success r" by auto
qed

lemma frota_com_token:
  "sincronizarCabecalhoNotaPorEmpresa amb_frota (Suc n) 2 nome w \<noteq> None"
  "sincronizarCabecalhoNotaPorEmpresa amb_frota (Suc n) 2 nome w = Some (r, w') \<Longrightarrow> r_success r"
proof -
  let ?amb = amb_frota
  let ?w1 = "registrar (Renovacao 2) (tique w)"
  let ?w0 = "registrar (Tentativa (0 + 1)) ?w1"
  let ?st = "estado_inicial ''token-novo''"
  let ?w2 = "registrar (Requisicao (URL_CONSULTA_ATUAL True) ''token-novo'' 0) (tique (tique ?w0))"
  have t: "renovarToken ?amb 2 w = (Inr ''token-novo'', ?w1)"
    by (simp add: renovarToken_def)
  have b: "buscarContratoAtivo ?amb ?w0 = (Some \<lparr>ATIVO = True, IS_SANDBOX = True\<rparr>, tique ?w0)"
    by (rule buscarContratoAtivo_base) simp
  have r: "axios_post ?amb (relogio (tique ?w0))
      (URL_CONSULTA_ATUAL (IS_SANDBOX \<lparr>ATIVO = True, IS_SANDBOX = True\<rparr>))
      (currentToken ?st) (currentPage ?st) = Inr SemEntidade"
    by simp
  have "passo ?amb 2 ?st ?w0 = (Termina ?st, ?w2)"
    using passo_com_resposta [OF b r, of 2]
    by (simp add: Let_def estado_inicial_def)
  then have "paginar ?amb 2 (Suc n) ?st ?w0 = Some (Inr ?st, ?w2)"
    by simp
  from buscar_sucesso [OF this]
  have s: "buscarCabecalhoNotaSankhya ?amb (Suc n) 2 ''token-novo'' 0 ?w1 =
     Some (Inr (allCabecalhos ?st), ?w2)"
    by simp
  have g: "getOracleConnection ?amb (relogio ?w2) = None" by simp
  have m: "falha_marcar ?amb (Suc (relogio ?w2)) = None" by simp
  have c: "\<forall>t. connection_commit ?amb t = None" by simp
  from sinc_retorna_sucesso [OF t s g m c, of nome]
  show "sincronizarCabecalhoNotaPorEmpresa amb_frota (Suc n) 2 nome w \<noteq> None" by auto
  assume "sincronizarCabecalhoNotaPorEmpresa amb_frota (Suc n) 2 nome w = Some (r, w')"
  with sinc_retorna_sucesso [OF t s g m c, of nome] show "r_success r" by auto
qed

theorem C7_sem_falha_nua_witness:
  "\<exists>rs w'. sincronizarTodasEmpresas amb_frota 1 mundo_inicial = Some (Inr rs, w') \<and>
     map r_idSistema rs = [1, 2] \<and> map r_empresa rs = [''Alfa'', ''Beta''] \<and>
     map r_success rs = [False, True]"
proof -
  let ?w1 = "tique (mundo_inicial\<lparr>pendente := confirmado mundo_inicial\<rparr>)"
  let ?es = "[(1::nat, ''Alfa''), (2, ''Beta'')]"
  have a: "abrir_conexao amb_frota mundo_inicial = (None, ?w1)"
    by (simp add: abrir_conexao_def)
  have b: "selecionar_empresas amb_frota ?w1 = (Inr ?es, tique ?w1)"
    by (simp add: selecionar_empresas_def)
  have c: "fechar_conexao amb_frota (tique ?w1) = (None, tique (tique ?w1))"
    by (simp add: fechar_conexao_def)
  have d: "\<forall>emp\<in>set ?es. \<forall>w0.
      sincronizarCabecalhoNotaPorEmpresa amb_frota 1 (fst emp) (snd emp) w0 \<noteq> None"
    using frota_sem_token(1) [of 1] frota_com_token(1) [of 0] by simp
  note t = C7_sem_falha_nua [of amb_frota 1 1 "''Alfa''" mundo_inicial]
  from t have "\<forall>empresas w1 w2 w3.
      abrir_conexao amb_frota mundo_inicial = (None, w1) \<and>
      selecionar_empresas amb_frota w1 = (Inr empresas, w2) \<and>
      fechar_conexao amb_frota w2 = (None, w3) \<and>
      (\<forall>emp\<in>set empresas. \<forall>w0.
         sincronizarCabecalhoNotaPorEmpresa amb_frota 1 (fst emp) (snd emp) w0 \<noteq> None) \<longrightarrow>
      (\<exists>rs w'. sincronizarTodasEmpresas amb_frota 1 mundo_inicial = Some (Inr rs, w') \<and>
         map r_idSistema rs = map fst empresas \<and> map r_empresa rs = map snd empresas \<and>
         list_all2 (\<lambda>emp r. \<exists>w0 w1.
            sincronizarCabecalhoNotaPorEmpresa amb_frota 1 (fst emp) (snd emp) w0 = Some (r, w1))
           empresas rs)"
    by (elim conjE)
  from this [rule_format, OF conjI [OF a conjI [OF b conjI [OF c d]]]]
  obtain rs w' where
    1: "sincronizarTodasEmpresas amb_frota 1 mundo_inicial = Some (Inr rs, w')"
    and 2: "map r_idSistema rs = map fst ?es"
    and 3: "map r_empresa rs = map snd ?es"
    and 4: "list_all2 (\<lambda>emp r. \<exists>w0 w1.
            sincronizarCabecalhoNotaPorEmpresa amb_frota 1 (fst emp) (snd emp) w0 = Some (r, w1))
           ?es rs"
    by (elim exE conjE)
  from 4 obtain ra rb where rs: "rs = [ra, rb]"
    and ra: "\<exists>w0 w1. sincronizarCabecalhoNotaPorEmpresa amb_frota 1 1 ''Alfa'' w0 = Some (ra, w1)"
    and rb: "\<exists>w0 w1. sincronizarCabecalhoNotaPorEmpresa amb_frota 1 2 ''Beta'' w0 = Some (rb, w1)"
    by (auto simp: list_all2_Cons1)
  from ra have na: "\<not> r_success ra" using frota_sem_token(2) by blast
  from rb have nb: "r_success rb" using frota_com_token(2) [of 0] by (simp only: One_nat_def) blast
  have 5: "map r_success rs = [False, True]" by (simp add: rs na nb)
  from 1 2 3 5 show ?thesis by simp
qed

lemma amb_sem_conexao_simps [simp]:
  "getOracleConnection amb_sem_conexao t = Some (Error ''ORA-12541: TNS:no listener'')"
  by (simp add: amb_sem_conexao_def)

theorem C7_sem_conexao_counterexample:
  "sincronizarTodasEmpresas amb_sem_conexao 1 mundo_inicial =
     Some (Inl (Error ''ORA-12541: TNS:no listener''), tique mundo_inicial)"
  by (simp add: sincronizarTodasEmpresas_def abrir_conexao_def)

end
